(* ===== verification/Prelude.thy ===== *)
theory Prelude
  imports Main "HOL-Library.Word" "HOL-Library.Sublist"
begin

text \<open>
  Shared vocabulary of the PassVault model: the types that name the program's values
  (bytes, timestamps, origins), the JavaScript library behaviour the sources rely on
  (\<open>Array.prototype.findIndex\<close>, \<open>String.prototype.toLowerCase\<close> and
  \<open>includes\<close>, the \<open>||\<close> default on strings and numbers), the collections of
  simplification rules the component theories share, and generic lemmas on lists.
\<close>

named_theorems model_simps "characteristic equations of the PassVault model operations"
named_theorems model_invs "preservation lemmas of the PassVault model invariants"

type_synonym byte = "8 word"
type_synonym bytes = "byte list"
type_synonym timestamp = nat  \<comment> \<open>\<open>Date.now()\<close>, milliseconds\<close>

section \<open>JavaScript library behaviour\<close>

subsection \<open>\<open>Array.prototype.findIndex\<close>\<close>

text \<open>\<open>findIndex\<close> returns the first index whose element satisfies the predicate, or
  \<open>-1\<close>; the model returns \<open>None\<close> for \<open>-1\<close>.\<close>

fun js_findIndex :: "('a \<Rightarrow> bool) \<Rightarrow> 'a list \<Rightarrow> nat option" where
  "js_findIndex P [] = None"
| "js_findIndex P (x # xs) =
     (if P x then Some 0 else map_option Suc (js_findIndex P xs))"

subsection \<open>Strings\<close>

text \<open>\<open>toLowerCase\<close> on the ASCII range; the model's characters are bytes.\<close>

definition js_lower_char :: "char \<Rightarrow> char" where
  "js_lower_char c =
     (let n = (of_char c :: nat) in if 65 \<le> n \<and> n \<le> 90 then char_of (n + 32) else c)"

definition js_toLowerCase :: "string \<Rightarrow> string" where
  "js_toLowerCase s = map js_lower_char s"

text \<open>\<open>haystack.includes(needle)\<close> is the contiguous-sublist relation of the library.\<close>

abbreviation js_includes :: "string \<Rightarrow> string \<Rightarrow> bool" where
  "js_includes haystack needle \<equiv> sublist needle haystack"

text \<open>\<open>s || d\<close>: the empty string and the number 0 are falsy.\<close>

definition str_or :: "string \<Rightarrow> string \<Rightarrow> string" where
  "str_or s d = (if s = [] then d else s)"

definition num_or :: "int \<Rightarrow> int \<Rightarrow> int" where
  "num_or n d = (if n = 0 then d else n)"

text \<open>The white space that \<open>String.prototype.trim\<close> and \<open>parseInt\<close> skip, on the
  model's characters: tab, line feed, vertical tab, form feed, carriage return, space
  and no-break space.\<close>

definition js_ws :: "char \<Rightarrow> bool" where
  "js_ws c \<longleftrightarrow> (of_char c :: nat) \<in> {9..13} \<or> (of_char c :: nat) \<in> {32, 160}"

definition js_trim :: "string \<Rightarrow> string" where
  "js_trim s = rev (dropWhile js_ws (rev (dropWhile js_ws s)))"

text \<open>\<open>s.split(c)\<close> for a one-character separator: the empty string splits into one
  empty piece.\<close>

fun js_split :: "char \<Rightarrow> string \<Rightarrow> string list" where
  "js_split c [] = [[]]"
| "js_split c (x # xs) =
     (if x = c then [] # js_split c xs
      else (case js_split c xs of [] \<Rightarrow> [[x]] | w # ws \<Rightarrow> (x # w) # ws))"

text \<open>\<open>xs.join(sep)\<close>.\<close>

fun js_join :: "string \<Rightarrow> string list \<Rightarrow> string" where
  "js_join sep [] = []"
| "js_join sep [x] = x"
| "js_join sep (x # y # zs) = x @ sep @ js_join sep (y # zs)"

text \<open>The test \<open>/^https?:/i.test(url)\<close>.\<close>

definition is_http_url :: "string \<Rightarrow> bool" where
  "is_http_url url \<longleftrightarrow>
     take 5 (js_toLowerCase url) = ''http:'' \<or> take 6 (js_toLowerCase url) = ''https:''"

section \<open>Exceptions with state\<close>

text \<open>An \<open>async\<close> function of the background context reads and writes module variables
  and browser storage and may throw; what it wrote before throwing stays written. It is
  a function from the state to the new state and either an error (\<open>Inl\<close>) or a result.\<close>

type_synonym ('s, 'e, 'a) exn_state = "'s \<Rightarrow> 's \<times> ('e + 'a)"

definition es_return :: "'a \<Rightarrow> ('s, 'e, 'a) exn_state" where
  "es_return x s = (s, Inr x)"

definition es_throw :: "'e \<Rightarrow> ('s, 'e, 'a) exn_state" where
  "es_throw e s = (s, Inl e)"

definition es_bind ::
  "('s, 'e, 'a) exn_state \<Rightarrow> ('a \<Rightarrow> ('s, 'e, 'b) exn_state) \<Rightarrow> ('s, 'e, 'b) exn_state"
where
  "es_bind m f s = (case m s of (s', Inl e) \<Rightarrow> (s', Inl e) | (s', Inr x) \<Rightarrow> f x s')"

definition es_modify :: "('s \<Rightarrow> 's) \<Rightarrow> ('s, 'e, unit) exn_state" where
  "es_modify f s = (f s, Inr ())"

definition es_gets :: "('s \<Rightarrow> 'a) \<Rightarrow> ('s, 'e, 'a) exn_state" where
  "es_gets f s = (s, Inr (f s))"

text \<open>\<open>if (!cond) throw new Error(e)\<close>.\<close>

definition es_assert :: "('s \<Rightarrow> bool) \<Rightarrow> 'e \<Rightarrow> ('s, 'e, unit) exn_state" where
  "es_assert P e s = (if P s then (s, Inr ()) else (s, Inl e))"

text \<open>A value of a sum type lifted into the monad: \<open>Inl\<close> throws.\<close>

definition es_lift :: "('e' \<Rightarrow> 'e) \<Rightarrow> 'e' + 'a \<Rightarrow> ('s, 'e, 'a) exn_state" where
  "es_lift f r s = (case r of Inl e \<Rightarrow> (s, Inl (f e)) | Inr x \<Rightarrow> (s, Inr x))"

section \<open>Lemmas\<close>

subsection \<open>Bytes\<close>

lemma byte_unat_le [simp]: "unat (w :: byte) \<le> 255"
proof -
  have "unat w < 256" using unsigned_less [of w] by simp
  then show ?thesis by simp
qed

subsection \<open>\<open>findIndex\<close>\<close>

lemma js_findIndex_None_iff:
  "js_findIndex P xs = None \<longleftrightarrow> (\<forall>x \<in> set xs. \<not> P x)"
  by (induction xs) auto

lemma js_findIndex_Some:
  assumes "js_findIndex P xs = Some i"
  shows "i < length xs \<and> P (xs ! i) \<and> (\<forall>j < i. \<not> P (xs ! j))"
  using assms
proof (induction xs arbitrary: i)
  case Nil
  then show ?case by simp
next
  case (Cons x xs)
  show ?case
  proof (cases "P x")
    case True
    with Cons.prems show ?thesis by simp
  next
    case False
    with Cons.prems obtain k where k: "js_findIndex P xs = Some k" and i: "i = Suc k"
      by auto
    from Cons.IH [OF k] False i show ?thesis
      by (auto simp: nth_Cons' less_Suc_eq_0_disj)
  qed
qed

lemma js_findIndex_unique:
  assumes "distinct (map f xs)" and "i < length xs" and "f (xs ! i) = v"
  shows "js_findIndex (\<lambda>x. f x = v) xs = Some i"
proof -
  have ex: "\<exists>x \<in> set xs. f x = v"
    using assms(2,3) nth_mem by blast
  then obtain k where k: "js_findIndex (\<lambda>x. f x = v) xs = Some k"
    by (cases "js_findIndex (\<lambda>x. f x = v) xs") (auto simp: js_findIndex_None_iff)
  from js_findIndex_Some [OF k] have "k < length xs" and "f (xs ! k) = v"
    by auto
  with assms have "k = i"
    by (metis distinct_conv_nth length_map nth_map)
  with k show ?thesis by simp
qed

subsection \<open>Strings and defaults\<close>

lemma str_or_simps [simp]: "str_or [] d = d" "s \<noteq> [] \<Longrightarrow> str_or s d = s"
  by (simp_all add: str_or_def)

lemma num_or_simps [simp]: "num_or 0 d = d" "n \<noteq> 0 \<Longrightarrow> num_or n d = n"
  by (simp_all add: num_or_def)

subsection \<open>\<open>trim\<close> and \<open>split\<close>\<close>

lemma js_trim_Cons_ws: "js_ws c \<Longrightarrow> js_trim (c # s) = js_trim s"
  by (simp add: js_trim_def)

lemma js_trim_idem: "js_trim (js_trim s) = js_trim s"
proof -
  define t where "t = dropWhile js_ws s"
  define u where "u = rev (dropWhile js_ws (rev t))"
  have tr: "js_trim s = u" by (simp add: js_trim_def t_def u_def)
  have split: "t = u @ rev (takeWhile js_ws (rev t))"
    by (metis rev_append rev_rev_ident takeWhile_dropWhile_id u_def)
  have h1: "dropWhile js_ws u = u"
  proof (cases u)
    case (Cons a us)
    then have t: "t = a # (us @ rev (takeWhile js_ws (rev t)))" using split by simp
    have "t \<noteq> []" "hd t = a" by (subst t, simp)+
    then have "\<not> js_ws a" unfolding t_def by (metis hd_dropWhile)
    then show ?thesis using Cons by simp
  qed simp
  have h2: "dropWhile js_ws (rev u) = rev u"
  proof (cases "rev u")
    case (Cons a us)
    then have "dropWhile js_ws (rev t) \<noteq> []" "hd (dropWhile js_ws (rev t)) = a"
      by (simp_all add: u_def)
    then have "\<not> js_ws a" by (metis hd_dropWhile)
    then show ?thesis using Cons by simp
  qed simp
  show ?thesis using h1 h2 tr by (simp add: js_trim_def)
qed

lemma js_trim_subset: "set (js_trim s) \<subseteq> set s"
  by (auto simp: js_trim_def dest!: set_dropWhileD)

lemma js_split_nonempty: "js_split c v \<noteq> []"
  by (induction v) (auto split: list.split)

lemma js_split_no_sep: "c \<notin> set x \<Longrightarrow> js_split c x = [x]"
  by (induction x) auto

lemma js_split_append: "c \<notin> set x \<Longrightarrow> js_split c (x @ c # r) = x # js_split c r"
  by (induction x) (auto simp: js_split_nonempty split: list.split)

lemma js_split_pieces: "w \<in> set (js_split c v) \<Longrightarrow> c \<notin> set w"
  by (induction v arbitrary: w) (auto split: if_splits list.splits)

lemma js_split_space:
  "c \<noteq> CHR '' '' \<Longrightarrow> map js_trim (js_split c (CHR '' '' # v)) = map js_trim (js_split c v)"
  using js_split_nonempty [of c v]
  by (cases "js_split c v") (simp_all add: js_trim_Cons_ws js_ws_def)

lemmas js_evals = js_toLowerCase_def js_lower_char_def sublist_code prefix_code

subsection \<open>The exception-state combinators\<close>

lemmas es_defs = es_return_def es_throw_def es_bind_def es_modify_def es_gets_def
  es_assert_def es_lift_def

lemma es_bind_return [simp]: "es_bind (es_return x) f = f x"
  by (simp add: fun_eq_iff es_defs)

lemma es_bind_modify [simp]: "es_bind (es_modify g) f s = f () (g s)"
  by (simp add: es_defs)

lemma es_bind_gets [simp]: "es_bind (es_gets g) f s = f (g s) s"
  by (simp add: es_defs)

lemma es_bind_throw [simp]: "es_bind (es_throw e) f s = (s, Inl e)"
  by (simp add: es_defs)

lemma es_bind_assert [simp]:
  "es_bind (es_assert P e) f s = (if P s then f () s else (s, Inl e))"
  by (simp add: es_defs)

lemma es_bind_lift [simp]:
  "es_bind (es_lift g r) f s = (case r of Inl e \<Rightarrow> (s, Inl (g e)) | Inr x \<Rightarrow> f x s)"
  by (simp add: es_defs split: sum.split)

lemma es_bind_assoc [simp]: "es_bind (es_bind m f) g = es_bind m (\<lambda>x. es_bind (f x) g)"
  by (simp add: fun_eq_iff es_bind_def split: prod.split sum.split)

lemma es_bind_apply:
  "es_bind m f s = (case m s of (s', Inl e) \<Rightarrow> (s', Inl e) | (s', Inr x) \<Rightarrow> f x s')"
  by (simp add: es_bind_def)

lemma es_simple_apply [simp]:
  "es_return x s = (s, Inr x)" "es_throw e s = (s, Inl e)" "es_modify g s = (g s, Inr ())"
  "es_gets g s = (s, Inr (g s))"
  "es_assert P e s = (if P s then (s, Inr ()) else (s, Inl e))"
  "es_lift h r s = (case r of Inl e' \<Rightarrow> (s, Inl (h e')) | Inr x \<Rightarrow> (s, Inr x))"
  by (simp_all add: es_defs)

subsection \<open>Lists and maps\<close>

lemma distinct_map_list_update:
  assumes "distinct (map f xs)" and "i < length xs" and "f y = f (xs ! i)"
  shows "distinct (map f (xs[i := y]))"
  using assms by (simp add: map_update distinct_list_update)

lemma map_of_filter_key:
  "map_of (filter (\<lambda>p. fst p \<noteq> k) ps) = (map_of ps)(k := None)"
  by (induction ps) (auto simp: fun_eq_iff)

lemma map_of_list_update_key:
  assumes "distinct (map fst xs)" and "i < length xs" and "fst y = fst (xs ! i)"
  shows "map_of (xs[i := y]) = (map_of xs)(fst y \<mapsto> snd y)"
  using assms
proof (induction xs arbitrary: i)
  case Nil
  then show ?case by simp
next
  case (Cons x xs)
  show ?case
  proof (cases i)
    case 0
    with Cons.prems show ?thesis by (cases x; cases y) (auto simp: fun_eq_iff)
  next
    case (Suc k)
    with Cons.prems have "xs ! k \<in> set xs" by simp
    with Cons.prems Suc have "fst y \<noteq> fst x" by force
    with Cons.IH [of k] Cons.prems Suc show ?thesis
      by (cases x) (auto simp: fun_eq_iff)
  qed
qed

end
