(* ===== verification/Vault.thy ===== *)
theory Vault
  imports Prelude
begin

text \<open>
  The decrypted vault document of \<open>src/extension/background.js\<close> and the pure parts of
  its CRUD handlers: the upsert of \<open>SAVE_CREDENTIAL\<close> (\<open>findIndex\<close> by id, replace or
  push), the filter of \<open>DELETE_CREDENTIAL\<close>, and the origin filters of
  \<open>GET_CREDENTIALS_FOR_ORIGIN\<close> and \<open>getCredsForOrigin\<close>. The lemmas show the upsert and
  delete semantics on every branch, that distinct ids are preserved, that the list
  operations refine a map from ids to credentials, and that the origin filter is exact.
\<close>

section \<open>Data\<close>

text \<open>A credential object as the popup and the content script build it:
  \<open>{id, origins, username, password, notes}\<close>; the content script adds a legacy
  \<open>origin\<close> field, which the background stores unchanged (\<open>cred_origin\<close>).\<close>

record credential =
  cred_id :: string
  cred_origins :: "string list"
  cred_username :: string
  cred_password :: string
  cred_notes :: string
  cred_origin :: "string option"

text \<open>The vault document \<open>{ creds: [...] }\<close>.\<close>

record vault_doc =
  creds :: "credential list"

definition empty_vault :: vault_doc where
  "empty_vault = \<lparr>creds = []\<rparr>"

section \<open>Operations\<close>

text \<open>\<open>SAVE_CREDENTIAL\<close>, lines 183--184:
  \<open>idx = vault.creds.findIndex(c => c.id === credential.id);
   if (idx >= 0) vault.creds[idx] = credential; else vault.creds.push(credential)\<close>.\<close>

definition vault_upsert :: "credential \<Rightarrow> vault_doc \<Rightarrow> vault_doc" where
  "vault_upsert c v =
     (case js_findIndex (\<lambda>x. cred_id x = cred_id c) (creds v) of
        Some i \<Rightarrow> v\<lparr>creds := (creds v)[i := c]\<rparr>
      | None \<Rightarrow> v\<lparr>creds := creds v @ [c]\<rparr>)"

text \<open>\<open>DELETE_CREDENTIAL\<close>, lines 203--204: a fresh document \<open>{creds: next}\<close>.\<close>

definition vault_delete :: "string \<Rightarrow> vault_doc \<Rightarrow> vault_doc" where
  "vault_delete i v = \<lparr>creds = filter (\<lambda>c. cred_id c \<noteq> i) (creds v)\<rparr>"

text \<open>\<open>GET_CREDENTIALS_FOR_ORIGIN\<close>, line 173 (\<open>c.origins?.includes(origin)\<close>), and
  \<open>getCredsForOrigin\<close>, line 242 (\<open>(c.origins || []).includes(origin)\<close>): a missing
  \<open>origins\<close> array is the empty list of the model, so both are this filter.\<close>

definition creds_for_origin :: "string \<Rightarrow> vault_doc \<Rightarrow> credential list" where
  "creds_for_origin org v = filter (\<lambda>c. org \<in> set (cred_origins c)) (creds v)"

section \<open>Invariant and abstraction\<close>

definition vault_ids :: "vault_doc \<Rightarrow> string list" where
  "vault_ids v = map cred_id (creds v)"

definition vault_wf :: "vault_doc \<Rightarrow> bool" where
  "vault_wf v \<longleftrightarrow> distinct (vault_ids v)"

text \<open>The abstract vault: a map from ids to credentials.\<close>

definition vault_map :: "vault_doc \<Rightarrow> string \<rightharpoonup> credential" where
  "vault_map v = map_of (map (\<lambda>c. (cred_id c, c)) (creds v))"

text \<open>Sample credentials for the witnesses below.\<close>

definition sample_cred :: "string \<Rightarrow> string \<Rightarrow> string \<Rightarrow> credential" where
  "sample_cred i org pw =
     \<lparr>cred_id = i, cred_origins = [org], cred_username = ''user'', cred_password = pw,
      cred_notes = [], cred_origin = None\<rparr>"

section \<open>Upsert\<close>

lemma vault_upsert_existing:
  assumes "js_findIndex (\<lambda>x. cred_id x = cred_id c) (creds v) = Some i"
  shows "creds (vault_upsert c v) = (creds v)[i := c]"
  using assms by (simp add: vault_upsert_def)

lemma vault_upsert_new:
  assumes "\<forall>x \<in> set (creds v). cred_id x \<noteq> cred_id c"
  shows "creds (vault_upsert c v) = creds v @ [c]"
  using assms by (simp add: vault_upsert_def js_findIndex_None_iff [THEN iffD2])

lemma vault_wf_index:
  assumes "vault_wf v" and "i < length (creds v)" and "cred_id (creds v ! i) = cred_id c"
  shows "js_findIndex (\<lambda>x. cred_id x = cred_id c) (creds v) = Some i"
  using assms js_findIndex_unique [of cred_id "creds v" i "cred_id c"]
  by (simp add: vault_wf_def vault_ids_def)

lemma vault_upsert_wf [model_invs]: "vault_wf v \<Longrightarrow> vault_wf (vault_upsert c v)"
proof (cases "js_findIndex (\<lambda>x. cred_id x = cred_id c) (creds v)")
  case None
  then have "creds (vault_upsert c v) = creds v @ [c]"
    by (simp add: vault_upsert_def)
  moreover assume "vault_wf v"
  ultimately show ?thesis
    using None by (auto simp: vault_wf_def vault_ids_def js_findIndex_None_iff)
next
  case (Some i)
  moreover assume "vault_wf v"
  ultimately show ?thesis
    using js_findIndex_Some [OF Some]
    by (simp add: vault_upsert_def vault_wf_def vault_ids_def distinct_map_list_update)
qed

lemma vault_delete_wf [model_invs]: "vault_wf v \<Longrightarrow> vault_wf (vault_delete i v)"
  by (simp add: vault_delete_def vault_wf_def vault_ids_def distinct_map_filter)

lemma vault_map_upsert:
  assumes "vault_wf v"
  shows "vault_map (vault_upsert c v) = (vault_map v)(cred_id c \<mapsto> c)"
proof (cases "js_findIndex (\<lambda>x. cred_id x = cred_id c) (creds v)")
  case None
  then have "vault_map v (cred_id c) = None"
    by (auto simp: vault_map_def map_of_eq_None_iff js_findIndex_None_iff)
  moreover from None have "creds (vault_upsert c v) = creds v @ [c]"
    by (simp add: vault_upsert_def)
  ultimately show ?thesis
    by (auto simp: vault_map_def map_add_def fun_eq_iff split: option.split)
next
  case (Some i)
  note found = js_findIndex_Some [OF Some]
  let ?ps = "map (\<lambda>c. (cred_id c, c)) (creds v)"
  have "distinct (map fst ?ps)"
    using assms by (simp add: vault_wf_def vault_ids_def comp_def)
  moreover have "i < length ?ps" and "fst (cred_id c, c) = fst (?ps ! i)"
    using found by simp_all
  ultimately have "map_of (?ps[i := (cred_id c, c)]) = (map_of ?ps)(cred_id c \<mapsto> c)"
    using map_of_list_update_key by fastforce
  with Some show ?thesis
    by (simp add: vault_upsert_def vault_map_def map_update)
qed

lemma vault_map_delete:
  "vault_map (vault_delete i v) = (vault_map v)(i := None)"
  by (simp add: vault_map_def vault_delete_def filter_map comp_def map_of_filter_key [symmetric])

section \<open>Properties of the vault operations\<close>

text \<open>Saving a credential whose id is already in a well-formed vault replaces that
  entry at its own index and leaves every other entry and the length unchanged.\<close>

theorem vault_save_replaces_in_place:
  assumes "vault_wf v" and "i < length (creds v)" and "cred_id (creds v ! i) = cred_id c"
  shows "creds (vault_upsert c v) = (creds v)[i := c] \<and>
         length (creds (vault_upsert c v)) = length (creds v)"
  using vault_upsert_existing [OF vault_wf_index [OF assms]] by simp

theorem vault_save_replaces_in_place_witness:
  "vault_wf \<lparr>creds = [sample_cred ''a'' ''https://a.example'' ''p1'',
                      sample_cred ''b'' ''https://b.example'' ''p2'']\<rparr> \<and>
   creds (vault_upsert (sample_cred ''b'' ''https://b.example'' ''p3'')
     \<lparr>creds = [sample_cred ''a'' ''https://a.example'' ''p1'',
               sample_cred ''b'' ''https://b.example'' ''p2'']\<rparr>) =
   [sample_cred ''a'' ''https://a.example'' ''p1'', sample_cred ''b'' ''https://b.example'' ''p3'']"
proof -
  let ?v = "\<lparr>creds = [sample_cred ''a'' ''https://a.example'' ''p1'',
                      sample_cred ''b'' ''https://b.example'' ''p2'']\<rparr>"
  have wf: "vault_wf ?v" by (simp add: vault_wf_def vault_ids_def sample_cred_def)
  show ?thesis
    using wf vault_save_replaces_in_place [OF wf, of 1 "sample_cred ''b'' ''https://b.example'' ''p3''"]
    by (simp add: sample_cred_def)
qed

text \<open>Saving a credential whose id is in no entry appends it at the end.\<close>

theorem vault_save_appends_new:
  assumes "\<forall>x \<in> set (creds v). cred_id x \<noteq> cred_id c"
  shows "creds (vault_upsert c v) = creds v @ [c]"
  using vault_upsert_new [OF assms] .

theorem vault_save_appends_new_witness:
  "cred_id (sample_cred ''a'' ''https://a.example'' ''p1'') \<noteq>
     cred_id (sample_cred ''b'' ''https://a.example'' ''p2'') \<and>
   creds (vault_upsert (sample_cred ''b'' ''https://a.example'' ''p2'')
     \<lparr>creds = [sample_cred ''a'' ''https://a.example'' ''p1'']\<rparr>) =
   [sample_cred ''a'' ''https://a.example'' ''p1'', sample_cred ''b'' ''https://a.example'' ''p2'']"
  using vault_save_appends_new [of "\<lparr>creds = [sample_cred ''a'' ''https://a.example'' ''p1'']\<rparr>"
      "sample_cred ''b'' ''https://a.example'' ''p2''"]
  by (simp add: sample_cred_def)

text \<open>Deleting removes the id from the vault's ids and keeps every other id, and
  deleting an id that is in no entry leaves the vault unchanged.\<close>

theorem vault_delete_removes_or_noop:
  "set (vault_ids (vault_delete i v)) = set (vault_ids v) - {i} \<and>
   (i \<notin> set (vault_ids v) \<longrightarrow> vault_delete i v = v)"
  by (cases v) (auto simp: vault_delete_def vault_ids_def filter_id_conv)

theorem vault_delete_removes_or_noop_witness:
  "''z'' \<notin> set (vault_ids \<lparr>creds = [sample_cred ''a'' ''https://a.example'' ''p1'']\<rparr>) \<and>
   vault_delete ''z'' \<lparr>creds = [sample_cred ''a'' ''https://a.example'' ''p1'']\<rparr> =
     \<lparr>creds = [sample_cred ''a'' ''https://a.example'' ''p1'']\<rparr> \<and>
   set (vault_ids (vault_delete ''a'' \<lparr>creds = [sample_cred ''a'' ''https://a.example'' ''p1'',
                                              sample_cred ''b'' ''https://b.example'' ''p2'']\<rparr>)) =
     {''b''}"
proof -
  let ?v = "\<lparr>creds = [sample_cred ''a'' ''https://a.example'' ''p1'']\<rparr>"
  let ?w = "\<lparr>creds = [sample_cred ''a'' ''https://a.example'' ''p1'',
                      sample_cred ''b'' ''https://b.example'' ''p2'']\<rparr>"
  have absent: "''z'' \<notin> set (vault_ids ?v)" by (simp add: vault_ids_def sample_cred_def)
  moreover have "vault_delete ''z'' ?v = ?v"
    using absent vault_delete_removes_or_noop [of "''z''" ?v] by blast
  moreover have "set (vault_ids (vault_delete ''a'' ?w)) = {''b''}"
    using vault_delete_removes_or_noop [of "''a''" ?w] by (auto simp: vault_ids_def sample_cred_def)
  ultimately show ?thesis by blast
qed

text \<open>C40: The list operations refine the abstract vault, a map from ids to credentials:
  on a vault with distinct ids, saving is a map update at the credential's id and
  deleting removes the id, and both keep the ids distinct.\<close>

theorem vault_refines_map:
  assumes "vault_wf v"
  shows "vault_map (vault_upsert c v) = (vault_map v)(cred_id c \<mapsto> c) \<and>
         vault_map (vault_delete i v) = (vault_map v)(i := None) \<and>
         vault_wf (vault_upsert c v) \<and> vault_wf (vault_delete i v)"
  using vault_map_upsert [OF assms] vault_map_delete vault_upsert_wf [OF assms]
    vault_delete_wf [OF assms] by blast

theorem vault_refines_map_witness:
  "vault_wf \<lparr>creds = [sample_cred ''a'' ''https://a.example'' ''p1'']\<rparr> \<and>
   vault_map (vault_upsert (sample_cred ''a'' ''https://a.example'' ''p2'')
     \<lparr>creds = [sample_cred ''a'' ''https://a.example'' ''p1'']\<rparr>) ''a'' =
   Some (sample_cred ''a'' ''https://a.example'' ''p2'')"
proof -
  let ?v = "\<lparr>creds = [sample_cred ''a'' ''https://a.example'' ''p1'']\<rparr>"
  have wf: "vault_wf ?v" by (simp add: vault_wf_def vault_ids_def)
  show ?thesis
    using wf vault_refines_map [OF wf, of "sample_cred ''a'' ''https://a.example'' ''p2''" "''a''"]
    by (simp add: sample_cred_def)
qed

end
