(* ===== verification/Base64.thy ===== *)
theory Base64
  imports Prelude
begin

text \<open>
  The byte/Base64 conversions of \<open>src/extension/scripts/crypto.js\<close>
  (\<open>bytesToBase64\<close>, \<open>base64ToBytes\<close>), through which the vault's salt, IV and ciphertext
  are stored. Both wrap the platform functions \<open>btoa\<close> and \<open>atob\<close>, which are modelled
  from the WHATWG "forgiving-base64" algorithms: \<open>btoa\<close> throws on a code unit above 255,
  encodes 24-bit groups into four characters and pads with \<open>=\<close>; \<open>atob\<close> drops ASCII
  whitespace, removes one or two trailing \<open>=\<close> when the length is a multiple of 4,
  fails on a remainder of 1 or a character outside the alphabet, and decodes the
  remaining 6-bit groups. A JavaScript "binary string" is the list of its code units.
  The main result is the round trip: \<open>base64ToBytes\<close> returns exactly the bytes that
  \<open>bytesToBase64\<close> encoded.
\<close>

section \<open>The platform functions \<open>btoa\<close> and \<open>atob\<close>\<close>

definition b64_alphabet :: string where
  "b64_alphabet = ''ABCDEFGHIJKLMNOPQRSTUVWXYZabcdefghijklmnopqrstuvwxyz0123456789+/''"

definition b64_char :: "nat \<Rightarrow> char" where
  "b64_char n = b64_alphabet ! n"

definition b64_index :: "char \<Rightarrow> nat option" where
  "b64_index c = js_findIndex (\<lambda>x. x = c) b64_alphabet"

fun b64_encode :: "nat list \<Rightarrow> string" where
  "b64_encode (a # b # c # rest) =
     [b64_char (a div 4), b64_char (a mod 4 * 16 + b div 16),
      b64_char (b mod 16 * 4 + c div 64), b64_char (c mod 64)] @ b64_encode rest"
| "b64_encode [a, b] =
     [b64_char (a div 4), b64_char (a mod 4 * 16 + b div 16), b64_char (b mod 16 * 4),
      CHR ''='']"
| "b64_encode [a] = [b64_char (a div 4), b64_char (a mod 4 * 16), CHR ''='', CHR ''='']"
| "b64_encode [] = []"

definition js_btoa :: "nat list \<Rightarrow> string option" where
  "js_btoa bin = (if \<forall>u \<in> set bin. u \<le> 255 then Some (b64_encode bin) else None)"

definition ascii_whitespace :: "char \<Rightarrow> bool" where
  "ascii_whitespace c \<longleftrightarrow> of_char c \<in> {9, 10, 12, 13, 32::nat}"

definition strip_b64_padding :: "string \<Rightarrow> string" where
  "strip_b64_padding d =
     (if length d mod 4 = 0 \<and> take 2 (rev d) = ''=='' then take (length d - 2) d
      else if length d mod 4 = 0 \<and> take 1 (rev d) = ''='' then take (length d - 1) d
      else d)"

fun b64_decode_groups :: "nat list \<Rightarrow> nat list" where
  "b64_decode_groups (s1 # s2 # s3 # s4 # rest) =
     [s1 * 4 + s2 div 16, s2 mod 16 * 16 + s3 div 4, s3 mod 4 * 64 + s4]
     @ b64_decode_groups rest"
| "b64_decode_groups [s1, s2, s3] = [s1 * 4 + s2 div 16, s2 mod 16 * 16 + s3 div 4]"
| "b64_decode_groups [s1, s2] = [s1 * 4 + s2 div 16]"
| "b64_decode_groups _ = []"

definition js_atob :: "string \<Rightarrow> nat list option" where
  "js_atob s =
     (let d = strip_b64_padding (filter (\<lambda>c. \<not> ascii_whitespace c) s) in
      if length d mod 4 = 1 then None
      else map_option b64_decode_groups (those (map b64_index d)))"

section \<open>\<open>bytesToBase64\<close> and \<open>base64ToBytes\<close>\<close>

text \<open>Lines 27--32: \<open>bin += String.fromCharCode(bytes[i])\<close> for every byte, then
  \<open>btoa(bin)\<close>; \<open>btoa\<close> may throw, so the result is an option.\<close>

definition bytesToBase64 :: "bytes \<Rightarrow> string option" where
  "bytesToBase64 bs = js_btoa (map unat bs)"

text \<open>Lines 34--39: \<open>atob(b64)\<close> (which may throw), then
  \<open>out[i] = bin.charCodeAt(i)\<close>: a \<open>Uint8Array\<close> store, which reduces modulo 256.\<close>

definition base64ToBytes :: "string \<Rightarrow> bytes option" where
  "base64ToBytes b64 = map_option (map of_nat) (js_atob b64)"

section \<open>The round trip\<close>

text \<open>The 6-bit groups of an encoding, without padding: \<open>b64_encode\<close> is these groups
  spelled in the alphabet, followed by the padding.\<close>

fun b64_groups :: "nat list \<Rightarrow> nat list" where
  "b64_groups (a # b # c # rest) =
     [a div 4, a mod 4 * 16 + b div 16, b mod 16 * 4 + c div 64, c mod 64] @ b64_groups rest"
| "b64_groups [a, b] = [a div 4, a mod 4 * 16 + b div 16, b mod 16 * 4]"
| "b64_groups [a] = [a div 4, a mod 4 * 16]"
| "b64_groups [] = []"

definition b64_pad :: "nat \<Rightarrow> string" where
  "b64_pad n = replicate ((3 - n mod 3) mod 3) (CHR ''='')"

lemma b64_encode_groups:
  "b64_encode xs = map b64_char (b64_groups xs) @ b64_pad (length xs)"
  by (induction xs rule: b64_encode.induct) (simp_all add: b64_pad_def numeral_2_eq_2)

lemma b64_groups_bound:
  "\<forall>x \<in> set xs. x \<le> 255 \<Longrightarrow> \<forall>n \<in> set (b64_groups xs). n < 64"
  by (induction xs rule: b64_groups.induct) auto

lemma length_b64_groups:
  "length (b64_groups xs) mod 4 \<noteq> 1 \<and>
   (length (b64_groups xs) + (3 - length xs mod 3) mod 3) mod 4 = 0"
  by (induction xs rule: b64_groups.induct) auto

lemma b64_alphabet_props:
  "length b64_alphabet = 64" "distinct b64_alphabet"
  "\<forall>c \<in> set b64_alphabet. \<not> ascii_whitespace c \<and> c \<noteq> CHR ''=''"
  by (simp_all add: b64_alphabet_def ascii_whitespace_def)

lemma b64_char_in_alphabet: "n < 64 \<Longrightarrow> b64_char n \<in> set b64_alphabet"
  using b64_alphabet_props(1) by (simp add: b64_char_def)

lemma b64_index_char: "n < 64 \<Longrightarrow> b64_index (b64_char n) = Some n"
  using js_findIndex_unique [of "\<lambda>x. x" b64_alphabet n] b64_alphabet_props(1,2)
  by (simp add: b64_index_def b64_char_def)

lemma those_b64_index:
  "\<forall>n \<in> set ns. n < 64 \<Longrightarrow> those (map b64_index (map b64_char ns)) = Some ns"
  by (induction ns) (simp_all add: b64_index_char)

lemma strip_b64_padding_encoded:
  assumes "\<forall>c \<in> set s. c \<noteq> CHR ''=''" and "(length s + (3 - n mod 3) mod 3) mod 4 = 0"
  shows "strip_b64_padding (s @ b64_pad n) = s"
proof -
  have last_ok: "s = ys @ [z] \<Longrightarrow> z \<noteq> CHR ''=''" for ys z
    using assms(1) by auto
  consider "n mod 3 = 0" | "n mod 3 = 1" | "n mod 3 = 2" by arith
  then show ?thesis
  proof cases
    case 1
    show ?thesis
    proof (cases s rule: rev_exhaust)
      case Nil
      with 1 show ?thesis by (simp add: strip_b64_padding_def b64_pad_def)
    next
      case (snoc ys z)
      with last_ok have "z \<noteq> CHR ''=''" by blast
      with 1 snoc show ?thesis
        by (cases "rev ys") (simp_all add: strip_b64_padding_def b64_pad_def)
    qed
  next
    case 2
    with assms(2) show ?thesis by (simp add: strip_b64_padding_def b64_pad_def numeral_2_eq_2)
  next
    case 3
    show ?thesis
    proof (cases s rule: rev_exhaust)
      case Nil
      with 3 assms(2) show ?thesis by simp
    next
      case (snoc ys z)
      with last_ok have "z \<noteq> CHR ''=''" by blast
      with 3 snoc assms(2) show ?thesis
        by (simp add: strip_b64_padding_def b64_pad_def)
    qed
  qed
qed

lemma b64_div_mod:
  fixes a b c :: nat
  shows "b \<le> 255 \<Longrightarrow> (a mod 4 * 16 + b div 16) div 16 = a mod 4"
    and "b \<le> 255 \<Longrightarrow> (a mod 4 * 16 + b div 16) mod 16 = b div 16"
    and "c \<le> 255 \<Longrightarrow> (b mod 16 * 4 + c div 64) div 4 = b mod 16"
    and "c \<le> 255 \<Longrightarrow> (b mod 16 * 4 + c div 64) mod 4 = c div 64"
  by simp_all

lemma b64_decode_groups_inverse:
  "\<forall>x \<in> set xs. x \<le> 255 \<Longrightarrow> b64_decode_groups (b64_groups xs) = xs"
proof (induction xs rule: b64_groups.induct)
  case (1 a b c rest)
  then have "b \<le> 255" "c \<le> 255" by simp_all
  with 1 show ?case
    by (simp only: b64_groups.simps b64_decode_groups.simps b64_div_mod)
       (simp add: div_mult_mod_eq)
next
  case (2 a b)
  then have "b \<le> 255" by simp
  then show ?case
    by (simp only: b64_groups.simps b64_decode_groups.simps b64_div_mod)
       (simp add: div_mult_mod_eq)
next
  case (3 a)
  then show ?case by simp
next
  case 4
  then show ?case by simp
qed

theorem js_atob_btoa:
  assumes "\<forall>u \<in> set bin. u \<le> 255"
  shows "js_atob (b64_encode bin) = Some bin"
proof -
  let ?gs = "b64_groups bin"
  have lt: "\<forall>n \<in> set ?gs. n < 64"
    using assms by (rule b64_groups_bound)
  then have chars: "\<forall>c \<in> set (map b64_char ?gs). c \<in> set b64_alphabet"
    by (auto intro: b64_char_in_alphabet)
  have ws: "filter (\<lambda>c. \<not> ascii_whitespace c) (b64_encode bin) = b64_encode bin"
    using chars b64_alphabet_props(3)
    by (auto simp: b64_encode_groups b64_pad_def filter_id_conv ascii_whitespace_def)
  have strip: "strip_b64_padding (b64_encode bin) = map b64_char ?gs"
    unfolding b64_encode_groups
    using chars b64_alphabet_props(3) length_b64_groups [of bin]
    by (intro strip_b64_padding_encoded) auto
  show ?thesis
    using length_b64_groups [of bin] those_b64_index [OF lt]
      b64_decode_groups_inverse [OF assms]
    by (simp add: js_atob_def ws strip)
qed

text \<open>The round trip of \<open>crypto.js\<close>: \<open>bytesToBase64\<close> never throws, and
  \<open>base64ToBytes\<close> recovers every byte.\<close>

lemma bytesToBase64_Some: "bytesToBase64 bs = Some (b64_encode (map unat bs))"
  by (simp add: bytesToBase64_def js_btoa_def)

lemma base64ToBytes_b64_encode: "base64ToBytes (b64_encode (map unat bs)) = Some bs"
proof -
  have "\<forall>u \<in> set (map unat bs). u \<le> 255" by simp
  then have "js_atob (b64_encode (map unat bs)) = Some (map unat bs)"
    by (rule js_atob_btoa)
  then show ?thesis
    by (simp add: base64ToBytes_def comp_def)
qed

text \<open>C39: The Base64 round trip of \<open>crypto.js\<close>: \<open>bytesToBase64\<close> never throws on a
  byte array, and \<open>base64ToBytes\<close> of its result returns exactly the same bytes.\<close>

theorem base64_roundtrip: "Option.bind (bytesToBase64 bs) base64ToBytes = Some bs"
  by (simp add: bytesToBase64_Some base64ToBytes_b64_encode)

end
