(* ===== verification/Cipher.thy ===== *)
theory Cipher
  imports Base64
begin

text \<open>
  The cipher core of \<open>src/extension/scripts/crypto.js\<close>: \<open>deriveKeyPBKDF2\<close>,
  \<open>encryptJSON\<close> and \<open>decryptJSON\<close>. WebCrypto is modelled symbolically, as an ideal
  primitive: a derived key is the constructor \<open>Pbkdf2Key\<close> of its inputs (PBKDF2 is
  taken as collision-free), a key from \<open>generateKey\<close> is a fresh \<open>GeneratedKey\<close>, and
  an AES-GCM ciphertext is the sealed box \<open>AesGcm key iv plaintext\<close>, which
  \<open>subtle.decrypt\<close> opens only with the same key and IV (the integrity tag). JSON
  serialisation is the identity on the plain data objects the vault stores. The IV is
  a real byte string: it comes from \<open>crypto.getRandomValues\<close>, a stream the caller
  supplies, and is stored through \<open>bytesToBase64\<close>, so decryption depends on the Base64
  round trip. The lemmas: encryption never fails with a key and decryption returns the
  encrypted document; any other key, or a stored IV that decodes to other bytes, fails
  authentication; the stored IV is 12 bytes.
\<close>

section \<open>Keys, ciphertexts and the envelope\<close>

datatype crypto_key =
    Pbkdf2Key string bytes nat  \<comment> \<open>password, salt, iterations\<close>
  | GeneratedKey bytes            \<comment> \<open>\<open>subtle.generateKey\<close>, identified by its randomness\<close>

datatype 'a ciphertext = AesGcm (ct_key: crypto_key) (ct_iv: bytes) (ct_plain: 'a)

text \<open>The envelope \<open>{v: 1, alg: 'AES-256-GCM', iv, ct}\<close>; \<open>iv\<close> is Base64 text, \<open>ct\<close>
  the ciphertext (its Base64 spelling is not modelled, the ciphertext being symbolic).\<close>

record 'a enc_record =
  enc_v :: nat
  enc_alg :: string
  enc_iv :: string
  enc_ct :: "'a ciphertext"

datatype crypto_error =
    NoPayload           \<comment> \<open>\<open>throw new Error('No payload')\<close>\<close>
  | InvalidBase64       \<comment> \<open>\<open>atob\<close> throws \<open>InvalidCharacterError\<close>\<close>
  | OperationError      \<comment> \<open>\<open>subtle.decrypt\<close>: the tag does not verify\<close>
  | NoKey               \<comment> \<open>\<open>subtle.encrypt\<close> with a null key throws \<open>TypeError\<close>\<close>

section \<open>Operations\<close>

text \<open>\<open>crypto.getRandomValues(new Uint8Array(n))\<close>: the first \<open>n\<close> values of the
  random stream the caller supplies.\<close>

definition getRandomValues :: "(nat \<Rightarrow> byte) \<Rightarrow> nat \<Rightarrow> bytes" where
  "getRandomValues rnd n = map rnd [0..<n]"

text \<open>Lines 4--25: import the UTF-8 password as a PBKDF2 base key and derive an
  extractable AES-256-GCM key with SHA-256 and the given iterations.\<close>

definition deriveKeyPBKDF2 :: "string \<Rightarrow> bytes \<Rightarrow> nat \<Rightarrow> crypto_key" where
  "deriveKeyPBKDF2 pw salt iterations = Pbkdf2Key pw salt iterations"

text \<open>Lines 41--56. \<open>rnd\<close> is the stream of \<open>getRandomValues\<close>; \<open>fresh\<close> the randomness of
  \<open>generateKey\<close> in the \<open>randomIfNoKey\<close> branch.\<close>

definition encryptJSON ::
  "'a \<Rightarrow> crypto_key option \<Rightarrow> bool \<Rightarrow> (nat \<Rightarrow> byte) \<Rightarrow> bytes \<Rightarrow> crypto_error + 'a enc_record"
where
  "encryptJSON obj key randomIfNoKey rnd fresh =
     (let key' = (if key = None \<and> randomIfNoKey then Some (GeneratedKey fresh) else key);
          iv = getRandomValues rnd 12
      in case key' of
           None \<Rightarrow> Inl NoKey
         | Some k \<Rightarrow>
             (case bytesToBase64 iv of
                None \<Rightarrow> Inl InvalidBase64
              | Some iv64 \<Rightarrow>
                  Inr \<lparr>enc_v = 1, enc_alg = ''AES-256-GCM'', enc_iv = iv64,
                       enc_ct = AesGcm k iv obj\<rparr>))"

text \<open>\<open>subtle.decrypt({name: 'AES-GCM', iv}, key, ct)\<close>: the tag verifies only for the
  key and IV the box was sealed with.\<close>

fun aes_gcm_decrypt :: "crypto_key \<Rightarrow> bytes \<Rightarrow> 'a ciphertext \<Rightarrow> crypto_error + 'a" where
  "aes_gcm_decrypt key iv (AesGcm k iv' pt) =
     (if k = key \<and> iv' = iv then Inr pt else Inl OperationError)"

text \<open>Lines 58--65. \<open>v\<close> and \<open>alg\<close> are not inspected.\<close>

definition decryptJSON :: "'a enc_record option \<Rightarrow> crypto_key \<Rightarrow> crypto_error + 'a" where
  "decryptJSON payload key =
     (case payload of
        None \<Rightarrow> Inl NoPayload
      | Some p \<Rightarrow>
          (case base64ToBytes (enc_iv p) of
             None \<Rightarrow> Inl InvalidBase64
           | Some iv \<Rightarrow> aes_gcm_decrypt key iv (enc_ct p)))"

section \<open>Properties\<close>

lemma getRandomValues_length [simp]: "length (getRandomValues rnd n) = n"
  by (simp add: getRandomValues_def)

lemma base64ToBytes_encoded:
  "bytesToBase64 bs = Some s \<Longrightarrow> base64ToBytes s = Some bs"
  using base64ToBytes_b64_encode [of bs] by (simp add: bytesToBase64_Some)

lemma encryptJSON_key:
  "encryptJSON obj (Some k) b rnd fresh =
     Inr \<lparr>enc_v = 1, enc_alg = ''AES-256-GCM'',
          enc_iv = b64_encode (map unat (getRandomValues rnd 12)),
          enc_ct = AesGcm k (getRandomValues rnd 12) obj\<rparr>"
  by (simp add: encryptJSON_def bytesToBase64_Some Let_def)

lemma decryptJSON_sealed:
  assumes "bytesToBase64 iv = Some iv64"
  shows "decryptJSON (Some \<lparr>enc_v = n, enc_alg = a, enc_iv = iv64, enc_ct = AesGcm k iv obj\<rparr>) key =
           (if k = key then Inr obj else Inl OperationError)"
  using base64ToBytes_encoded [OF assms] by (simp add: decryptJSON_def)

lemma decryptJSON_record:
  assumes "base64ToBytes (enc_iv r) = Some (ct_iv (enc_ct r))"
  shows "decryptJSON (Some r) key =
           (if key = ct_key (enc_ct r) then Inr (ct_plain (enc_ct r)) else Inl OperationError)"
  using assms by (cases "enc_ct r") (auto simp: decryptJSON_def)

lemmas cipher_simps [model_simps] = encryptJSON_key decryptJSON_sealed bytesToBase64_Some

text \<open>C37: Round trip of the cipher core: for every document, password, salt and
  iteration count, \<open>encryptJSON\<close> under the derived key succeeds, stores a version-1
  AES-256-GCM envelope whose IV is 12 bytes, and \<open>decryptJSON\<close> under the same derived
  key returns the document.\<close>

theorem cipher_roundtrip:
  "case encryptJSON doc (Some (deriveKeyPBKDF2 pw salt n)) b rnd fresh of
     Inl err \<Rightarrow> False
   | Inr r \<Rightarrow> enc_v r = 1 \<and> enc_alg r = ''AES-256-GCM'' \<and>
              map_option length (base64ToBytes (enc_iv r)) = Some 12 \<and>
              decryptJSON (Some r) (deriveKeyPBKDF2 pw salt n) = Inr doc"
  by (simp add: encryptJSON_key decryptJSON_def base64ToBytes_b64_encode)

text \<open>C38: Authenticated decryption rejects a wrong passphrase: a record encrypted under
  the key derived from one passphrase fails with \<open>OperationError\<close> under the key derived
  from any other passphrase (same salt and iterations).\<close>

theorem cipher_wrong_passphrase:
  assumes "pw1 \<noteq> pw2"
  shows "case encryptJSON doc (Some (deriveKeyPBKDF2 pw1 salt n)) b rnd fresh of
           Inl err \<Rightarrow> False
         | Inr r \<Rightarrow> decryptJSON (Some r) (deriveKeyPBKDF2 pw2 salt n) = Inl OperationError"
  using assms
  by (simp add: encryptJSON_key decryptJSON_def base64ToBytes_b64_encode deriveKeyPBKDF2_def)

theorem cipher_wrong_passphrase_witness:
  "''secret'' \<noteq> ''guess'' \<and>
   (case encryptJSON (0::nat) (Some (deriveKeyPBKDF2 ''secret'' [1, 2] 310000)) False (\<lambda>_. 0) [] of
      Inl err \<Rightarrow> False
    | Inr r \<Rightarrow> decryptJSON (Some r) (deriveKeyPBKDF2 ''guess'' [1, 2] 310000) = Inl OperationError)"
proof -
  have ne: "''secret'' \<noteq> ''guess''" by simp
  show ?thesis
    using cipher_wrong_passphrase [OF ne, where doc = "0::nat" and salt = "[1, 2]" and n = 310000
        and b = False and rnd = "\<lambda>_. 0" and fresh = "[]"] by simp
qed

end
