(* ===== verification/Generator.thy ===== *)
theory Generator
  imports Prelude "HOL-Library.State_Monad" "HOL-Library.Multiset"
begin

text \<open>
  The password generator of \<open>src/extension/scripts/generator.js\<close>. Its source of
  randomness, \<open>crypto.getRandomValues(new Uint32Array(1))\<close>, is a stream
  \<open>rs :: nat \<Rightarrow> 32 word\<close> supplied by the caller; the state threaded through the
  generator (HOL-Library's \<open>State_Monad\<close>) is the number of values drawn so far, so
  every draw of \<open>rnd()\<close> reads the next value of the stream. \<open>x % n\<close> on the drawn
  value is \<open>unat x mod n\<close>. Strings are character lists; \<open>s[k]\<close> is \<open>s ! k\<close>.
\<close>

section \<open>Character classes\<close>

definition lowers :: string where "lowers = ''abcdefghijklmnopqrstuvwxyz''"
definition uppers :: string where "uppers = ''ABCDEFGHIJKLMNOPQRSTUVWXYZ''"
definition digits :: string where "digits = ''0123456789''"

definition is_lower :: "char \<Rightarrow> bool" where
  "is_lower c \<longleftrightarrow> (of_char c :: nat) \<in> {97..122}"
definition is_upper :: "char \<Rightarrow> bool" where
  "is_upper c \<longleftrightarrow> (of_char c :: nat) \<in> {65..90}"
definition is_digit :: "char \<Rightarrow> bool" where
  "is_digit c \<longleftrightarrow> (of_char c :: nat) \<in> {48..57}"

text \<open>Lines 33--38: the printable ASCII characters 33--126 that are not alphanumeric.\<close>

definition symbols :: string where
  "symbols = filter (\<lambda>ch. \<not> (is_digit ch \<or> is_upper ch \<or> is_lower ch)) (map char_of [33..<127::nat])"

text \<open>The regular expressions of lines 67--70.\<close>

definition has_lower :: "string \<Rightarrow> bool" where "has_lower s \<longleftrightarrow> (\<exists>c\<in>set s. is_lower c)"
definition has_upper :: "string \<Rightarrow> bool" where "has_upper s \<longleftrightarrow> (\<exists>c\<in>set s. is_upper c)"
definition has_digit :: "string \<Rightarrow> bool" where "has_digit s \<longleftrightarrow> (\<exists>c\<in>set s. is_digit c)"
definition has_symbol :: "string \<Rightarrow> bool" where
  "has_symbol s \<longleftrightarrow> (\<exists>c\<in>set s. \<not> (is_digit c \<or> is_upper c \<or> is_lower c))"

section \<open>Drawing and shuffling\<close>

text \<open>Lines 48--52: one value of the stream.\<close>

definition gen_rnd :: "(nat \<Rightarrow> 32 word) \<Rightarrow> (nat, 32 word) state" where
  "gen_rnd rs = State (\<lambda>n. (rs n, Suc n))"

text \<open>Lines 4--9.\<close>

primrec pick_loop :: "(nat \<Rightarrow> 32 word) \<Rightarrow> string \<Rightarrow> nat \<Rightarrow> string \<Rightarrow> (nat, string) state" where
  "pick_loop rs chars 0 out = State_Monad.return out"
| "pick_loop rs chars (Suc k) out =
     do { r \<leftarrow> gen_rnd rs; pick_loop rs chars k (out @ [chars ! (unat r mod length chars)]) }"

definition pick :: "(nat \<Rightarrow> 32 word) \<Rightarrow> string \<Rightarrow> nat \<Rightarrow> (nat, string) state" where
  "pick rs chars n = (if chars = [] \<or> n = 0 then State_Monad.return [] else pick_loop rs chars n [])"

text \<open>Lines 11--18: Fisher--Yates, \<open>i\<close> from \<open>arr.length - 1\<close> down to \<open>1\<close>.\<close>

definition swap :: "'a list \<Rightarrow> nat \<Rightarrow> nat \<Rightarrow> 'a list" where
  "swap xs i j = xs[i := xs ! j, j := xs ! i]"

primrec shuffle_loop :: "(nat \<Rightarrow> 32 word) \<Rightarrow> nat \<Rightarrow> 'a list \<Rightarrow> (nat, 'a list) state" where
  "shuffle_loop rs 0 arr = State_Monad.return arr"
| "shuffle_loop rs (Suc i) arr =
     do { r \<leftarrow> gen_rnd rs; shuffle_loop rs i (swap arr (Suc i) (unat r mod (Suc i + 1))) }"

definition shuffle :: "(nat \<Rightarrow> 32 word) \<Rightarrow> string \<Rightarrow> (nat, string) state" where
  "shuffle rs str = shuffle_loop rs (length str - 1) str"

text \<open>Line 62: \<open>for (let i = base.length; i < length; i++) rest += pool[rnd() % pool.length]\<close>.\<close>

function rest_loop :: "(nat \<Rightarrow> 32 word) \<Rightarrow> string \<Rightarrow> nat \<Rightarrow> nat \<Rightarrow> string \<Rightarrow> (nat, string) state" where
  "rest_loop rs pool len i acc =
     (if i < len then
        do { r \<leftarrow> gen_rnd rs; rest_loop rs pool len (Suc i) (acc @ [pool ! (unat r mod length pool)]) }
      else State_Monad.return acc)"
  by pat_completeness auto
termination by (relation "measure (\<lambda>(rs, pool, len, i, acc). len - i)") auto

declare rest_loop.simps [simp del]

text \<open>Lines 73--77.\<close>

definition replaceWith :: "(nat \<Rightarrow> 32 word) \<Rightarrow> string \<Rightarrow> string \<Rightarrow> (nat, string) state" where
  "replaceWith rs chars pwd =
     do { r1 \<leftarrow> gen_rnd rs; r2 \<leftarrow> gen_rnd rs;
          let pos = unat r1 mod length pwd;
          let ch = chars ! (unat r2 mod length chars);
          State_Monad.return (take pos pwd @ [ch] @ drop (pos + 1) pwd) }"

section \<open>\<open>generatePassword\<close>\<close>

text \<open>The options object: \<open>opt_length\<close> is \<open>options.length\<close> (\<open>0\<close> when absent, as
  \<open>||\<close> treats it), a class flag is \<open>Some False\<close> only when explicitly \<open>false\<close>.\<close>

record gen_options =
  opt_length :: int
  opt_lower :: "bool option"
  opt_upper :: "bool option"
  opt_digits :: "bool option"
  opt_symbols :: "bool option"

definition gen_length :: "gen_options \<Rightarrow> int" where
  "gen_length opts = max 8 (min 128 (num_or (opt_length opts) 16))"

definition gen_pool :: "gen_options \<Rightarrow> string" where
  "gen_pool opts =
     (let pool = (if opt_lower opts \<noteq> Some False then lowers else []) @
                 (if opt_upper opts \<noteq> Some False then uppers else []) @
                 (if opt_digits opts \<noteq> Some False then digits else []) @
                 (if opt_symbols opts \<noteq> Some False then symbols else [])
      in if pool = [] then lowers @ uppers @ digits @ symbols else pool)"

definition when_class :: "bool \<Rightarrow> (nat, string) state \<Rightarrow> (nat, string) state" where
  "when_class b m = (if b then m else State_Monad.return [])"

definition patch :: "(nat \<Rightarrow> 32 word) \<Rightarrow> bool \<Rightarrow> string \<Rightarrow> string \<Rightarrow> (nat, string) state" where
  "patch rs b chars pwd = (if b then replaceWith rs chars pwd else State_Monad.return pwd)"

text \<open>Lines 20--85.\<close>

definition generatePassword :: "(nat \<Rightarrow> 32 word) \<Rightarrow> gen_options \<Rightarrow> (nat, string) state" where
  "generatePassword rs opts =
     (let len = nat (gen_length opts);
          useLower = (opt_lower opts \<noteq> Some False); useUpper = (opt_upper opts \<noteq> Some False);
          useDigits = (opt_digits opts \<noteq> Some False); useSymbols = (opt_symbols opts \<noteq> Some False);
          pool = gen_pool opts
      in do {
           b1 \<leftarrow> when_class useLower (pick rs lowers 1);
           b2 \<leftarrow> when_class useUpper (pick rs uppers 1);
           b3 \<leftarrow> when_class useDigits (pick rs digits 1);
           b4 \<leftarrow> when_class useSymbols (pick rs symbols 1);
           let base = b1 @ b2 @ b3 @ b4;
           rest \<leftarrow> rest_loop rs pool len (length base) [];
           pwd \<leftarrow> shuffle rs (base @ rest);
           let hasL = has_lower pwd; let hasU = has_upper pwd;
           let hasD = has_digit pwd; let hasS = has_symbol pwd;
           p1 \<leftarrow> patch rs (useLower \<and> \<not> hasL) lowers pwd;
           p2 \<leftarrow> patch rs (useUpper \<and> \<not> hasU) uppers p1;
           p3 \<leftarrow> patch rs (useDigits \<and> \<not> hasD) digits p2;
           patch rs (useSymbols \<and> \<not> hasS) symbols p3
         })"


text \<open>The defaults: \<open>generatePassword({})\<close>.\<close>

definition default_gen_options :: gen_options where
  "default_gen_options = \<lparr>opt_length = 0, opt_lower = None, opt_upper = None, opt_digits = None,
     opt_symbols = None\<rparr>"

section \<open>Properties\<close>

lemma run_gen_rnd [simp]: "run_state (gen_rnd rs) n = (rs n, Suc n)"
  by (simp add: gen_rnd_def)

lemma map_upt_Cons: "map f [0..<Suc m] = f 0 # map (\<lambda>k. f (Suc k)) [0..<m]"
  by (induction m) auto

lemma pick_loop_run:
  "run_state (pick_loop rs chars k out) n =
     (out @ map (\<lambda>i. chars ! (unat (rs (n + i)) mod length chars)) [0..<k], n + k)"
proof (induction k arbitrary: out n)
  case 0 then show ?case by simp
next
  case (Suc k)
  show ?case
    by (simp add: Suc.IH map_upt_Cons del: upt_Suc)
qed

lemma pick_one:
  "chars \<noteq> [] \<Longrightarrow> run_state (pick rs chars 1) n = ([chars ! (unat (rs n) mod length chars)], Suc n)"
  by (simp add: pick_def pick_loop_run)

lemma rest_loop_run:
  "run_state (rest_loop rs pool len i acc) n =
     (acc @ map (\<lambda>k. pool ! (unat (rs (n + k)) mod length pool)) [0..<len - i], n + (len - i))"
proof (induction rs pool len i acc arbitrary: n rule: rest_loop.induct)
  case (1 rs pool len i acc)
  show ?case
  proof (cases "i < len")
    case True
    then obtain m where m: "len - i = Suc m" "len - Suc i = m" by (metis Suc_diff_Suc)
    show ?thesis
      by (subst rest_loop.simps) (simp add: True 1 [OF True] m map_upt_Cons del: upt_Suc)
  next
    case False
    then show ?thesis by (subst rest_loop.simps) simp
  qed
qed

lemma length_swap [simp]: "length (swap xs i j) = length xs"
  by (simp add: swap_def)

lemma mset_swap_in: "i < length xs \<Longrightarrow> j < length xs \<Longrightarrow> mset (swap xs i j) = mset xs"
  by (simp add: swap_def mset_swap)

lemma shuffle_loop_run:
  "i < length arr \<Longrightarrow>
     mset (fst (run_state (shuffle_loop rs i arr) n)) = mset arr \<and>
     snd (run_state (shuffle_loop rs i arr) n) = n + i"
proof (induction i arbitrary: arr n)
  case 0 then show ?case by simp
next
  case (Suc i)
  let ?j = "unat (rs n) mod (Suc i + 1)"
  have "?j < Suc i + 1" by simp
  then have "?j < length arr" using Suc.prems by linarith
  then have "mset (swap arr (Suc i) ?j) = mset arr" using Suc.prems by (simp add: mset_swap_in)
  moreover have "i < length (swap arr (Suc i) ?j)" using Suc.prems by simp
  ultimately show ?case using Suc.IH by simp
qed

lemma class_facts:
  "lowers \<noteq> []" "\<forall>c\<in>set lowers. is_lower c" "uppers \<noteq> []" "\<forall>c\<in>set uppers. is_upper c"
  "digits \<noteq> []" "\<forall>c\<in>set digits. is_digit c" "symbols \<noteq> []"
  "\<forall>c\<in>set symbols. \<not> (is_digit c \<or> is_upper c \<or> is_lower c)"
  by (simp_all add: lowers_def uppers_def digits_def is_lower_def is_upper_def is_digit_def)
     (simp_all add: symbols_def is_lower_def is_upper_def is_digit_def upt_conv_Cons)

lemma pool_facts:
  "gen_pool opts \<noteq> []"
  "opt_lower opts \<noteq> Some False \<Longrightarrow> set lowers \<subseteq> set (gen_pool opts)"
  "opt_upper opts \<noteq> Some False \<Longrightarrow> set uppers \<subseteq> set (gen_pool opts)"
  "opt_digits opts \<noteq> Some False \<Longrightarrow> set digits \<subseteq> set (gen_pool opts)"
  "opt_symbols opts \<noteq> Some False \<Longrightarrow> set symbols \<subseteq> set (gen_pool opts)"
  using class_facts(1) by (auto simp: gen_pool_def Let_def)

lemma gen_length_bounds: "8 \<le> gen_length opts" "gen_length opts \<le> 128"
  by (simp_all add: gen_length_def)

lemma nth_mod_mem [simp]: "xs \<noteq> [] \<Longrightarrow> xs ! (k mod length xs) \<in> set xs"
  by simp

lemma when_pick_run:
  assumes "chars \<noteq> []"
  shows "run_state (when_class b (pick rs chars 1)) n =
           (if b then ([chars ! (unat (rs n) mod length chars)], Suc n) else ([], n))"
  using assms by (simp add: when_class_def pick_def pick_loop_run)

lemma when_pick_props:
  assumes "chars \<noteq> []" and "run_state (when_class b (pick rs chars 1)) n = (w, n')"
  shows "length w \<le> 1 \<and> set w \<subseteq> (if b then set chars else {}) \<and> (b \<longrightarrow> (\<exists>c\<in>set w. c \<in> set chars))"
  using assms(2) assms(1) unfolding when_pick_run [OF assms(1)] by (auto split: if_splits)

lemma patch_skip [simp]: "patch rs False chars pwd = State_Monad.return pwd"
  by (simp add: patch_def)

text \<open>The run of the generator: a permutation of one character of each selected class
  followed by characters of the pool, up to the clamped length; no patch fires.\<close>

lemma generatePassword_run:
  "\<exists>base rest. mset (fst (run_state (generatePassword rs opts) n)) = mset (base @ rest) \<and>
     length base \<le> 4 \<and> length rest = nat (gen_length opts) - length base \<and>
     set base \<union> set rest \<subseteq> set (gen_pool opts) \<and>
     (opt_lower opts \<noteq> Some False \<longrightarrow> (\<exists>c\<in>set base. is_lower c)) \<and>
     (opt_upper opts \<noteq> Some False \<longrightarrow> (\<exists>c\<in>set base. is_upper c)) \<and>
     (opt_digits opts \<noteq> Some False \<longrightarrow> (\<exists>c\<in>set base. is_digit c)) \<and>
     (opt_symbols opts \<noteq> Some False \<longrightarrow> (\<exists>c\<in>set base. \<not> (is_digit c \<or> is_upper c \<or> is_lower c)))"
proof -
  let ?L = "opt_lower opts \<noteq> Some False" and ?U = "opt_upper opts \<noteq> Some False"
  let ?D = "opt_digits opts \<noteq> Some False" and ?S = "opt_symbols opts \<noteq> Some False"
  let ?pool = "gen_pool opts" and ?len = "nat (gen_length opts)"
  obtain b1 n1 where r1: "run_state (when_class ?L (pick rs lowers 1)) n = (b1, n1)" by force
  obtain b2 n2 where r2: "run_state (when_class ?U (pick rs uppers 1)) n1 = (b2, n2)" by force
  obtain b3 n3 where r3: "run_state (when_class ?D (pick rs digits 1)) n2 = (b3, n3)" by force
  obtain b4 n4 where r4: "run_state (when_class ?S (pick rs symbols 1)) n3 = (b4, n4)" by force
  let ?base = "b1 @ b2 @ b3 @ b4"
  obtain rest n5 where r5: "run_state (rest_loop rs ?pool ?len (length ?base) []) n4 = (rest, n5)" by force
  obtain pwd n6 where r6: "run_state (shuffle rs (?base @ rest)) n5 = (pwd, n6)" by force
  note p1 = when_pick_props [OF class_facts(1) r1] and p2 = when_pick_props [OF class_facts(3) r2]
  note p3 = when_pick_props [OF class_facts(5) r3] and p4 = when_pick_props [OF class_facts(7) r4]
  have lb: "length ?base \<le> 4" using p1 p2 p3 p4 by simp
  have len8: "8 \<le> ?len" using gen_length_bounds(1) [of opts] by linarith
  have rest: "rest = map (\<lambda>k. ?pool ! (unat (rs (n4 + k)) mod length ?pool)) [0..<?len - length ?base]"
    using r5 by (simp add: rest_loop_run)
  have rest_pool: "set rest \<subseteq> set ?pool"
    using pool_facts(1) [of opts] by (auto simp: rest)
  have base_pool: "set ?base \<subseteq> set ?pool"
    using p1 p2 p3 p4 pool_facts [of opts] by (auto split: if_splits)
  have "length (?base @ rest) - 1 < length (?base @ rest)" using lb len8 by (simp add: rest)
  then have perm: "mset pwd = mset (?base @ rest)"
    using shuffle_loop_run [of "length (?base @ rest) - 1" "?base @ rest" rs n5] r6 by (simp add: shuffle_def)
  then have sets: "set pwd = set (?base @ rest)" by (metis set_mset_mset)
  have cl: "(?L \<longrightarrow> (\<exists>c\<in>set ?base. is_lower c)) \<and> (?U \<longrightarrow> (\<exists>c\<in>set ?base. is_upper c)) \<and>
            (?D \<longrightarrow> (\<exists>c\<in>set ?base. is_digit c)) \<and>
            (?S \<longrightarrow> (\<exists>c\<in>set ?base. \<not> (is_digit c \<or> is_upper c \<or> is_lower c)))"
  proof (intro conjI impI)
    assume ?L then obtain c where "c \<in> set b1" "c \<in> set lowers" using p1 by blast
    then show "\<exists>c\<in>set ?base. is_lower c" using class_facts(2) by auto
  next
    assume ?U then obtain c where "c \<in> set b2" "c \<in> set uppers" using p2 by blast
    then show "\<exists>c\<in>set ?base. is_upper c" using class_facts(4) by auto
  next
    assume ?D then obtain c where "c \<in> set b3" "c \<in> set digits" using p3 by blast
    then show "\<exists>c\<in>set ?base. is_digit c" using class_facts(6) by auto
  next
    assume ?S then obtain c where "c \<in> set b4" "c \<in> set symbols" using p4 by blast
    then show "\<exists>c\<in>set ?base. \<not> (is_digit c \<or> is_upper c \<or> is_lower c)" using class_facts(8) by auto
  qed
  then have flags: "(?L \<and> \<not> has_lower pwd) = False" "(?U \<and> \<not> has_upper pwd) = False"
    "(?D \<and> \<not> has_digit pwd) = False" "(?S \<and> \<not> has_symbol pwd) = False"
    using sets unfolding has_lower_def has_upper_def has_digit_def has_symbol_def set_append
    by blast+
  have "fst (run_state (generatePassword rs opts) n) = pwd"
    using r1 r2 r3 r4 r5 r6 flags
    by (simp only: generatePassword_def Let_def flags patch_skip run_state_bind run_state_return
        split_conv fst_conv)
  then show ?thesis
    using perm lb rest base_pool rest_pool cl by (intro exI [of _ ?base] exI [of _ rest]) simp
qed

lemma generatePassword_length:
  "length (fst (run_state (generatePassword rs opts) n)) = nat (gen_length opts)"
proof -
  obtain base rest where m: "mset (fst (run_state (generatePassword rs opts) n)) = mset (base @ rest)"
    and lb: "length base \<le> 4" and lr: "length rest = nat (gen_length opts) - length base"
    using generatePassword_run [of rs opts n] by blast
  have "8 \<le> nat (gen_length opts)" using gen_length_bounds(1) [of opts] by linarith
  then show ?thesis using arg_cong [OF m, of size] lb lr by simp
qed

text \<open>C24: The generated password has the clamped length: \<open>options.length\<close> (16 when
  absent) clamped to 8..128, whatever the options and the random draws.\<close>

theorem generatePassword_length_bounds:
  "int (length (fst (run_state (generatePassword rs opts) n))) = gen_length opts \<and>
   8 \<le> length (fst (run_state (generatePassword rs opts) n)) \<and>
   length (fst (run_state (generatePassword rs opts) n)) \<le> 128"
  using generatePassword_length [of rs opts n] gen_length_bounds [of opts] by linarith

text \<open>C25: Class coverage: every character of the generated password is drawn from the
  pool of the selected classes, and each selected class (all by default) occurs in it,
  so the verify-and-patch step never fires.\<close>

theorem generatePassword_classes:
  "set (fst (run_state (generatePassword rs opts) n)) \<subseteq> set (gen_pool opts) \<and>
   (opt_lower opts \<noteq> Some False \<longrightarrow> has_lower (fst (run_state (generatePassword rs opts) n))) \<and>
   (opt_upper opts \<noteq> Some False \<longrightarrow> has_upper (fst (run_state (generatePassword rs opts) n))) \<and>
   (opt_digits opts \<noteq> Some False \<longrightarrow> has_digit (fst (run_state (generatePassword rs opts) n))) \<and>
   (opt_symbols opts \<noteq> Some False \<longrightarrow> has_symbol (fst (run_state (generatePassword rs opts) n)))"
proof -
  obtain base rest where m: "mset (fst (run_state (generatePassword rs opts) n)) = mset (base @ rest)"
    and p: "set base \<union> set rest \<subseteq> set (gen_pool opts)"
    and c: "(opt_lower opts \<noteq> Some False \<longrightarrow> (\<exists>c\<in>set base. is_lower c)) \<and>
     (opt_upper opts \<noteq> Some False \<longrightarrow> (\<exists>c\<in>set base. is_upper c)) \<and>
     (opt_digits opts \<noteq> Some False \<longrightarrow> (\<exists>c\<in>set base. is_digit c)) \<and>
     (opt_symbols opts \<noteq> Some False \<longrightarrow> (\<exists>c\<in>set base. \<not> (is_digit c \<or> is_upper c \<or> is_lower c)))"
    using generatePassword_run [of rs opts n] by blast
  have s: "set (fst (run_state (generatePassword rs opts) n)) = set base \<union> set rest"
    using arg_cong [OF m, of set_mset] by simp
  show ?thesis
    using p c unfolding s has_lower_def has_upper_def has_digit_def has_symbol_def by blast
qed

theorem generatePassword_classes_witness:
  "has_lower (fst (run_state (generatePassword (\<lambda>i. of_nat i) default_gen_options) 0)) \<and>
   has_symbol (fst (run_state (generatePassword (\<lambda>i. of_nat i) default_gen_options) 0))"
  using generatePassword_classes [of "\<lambda>i. of_nat i" default_gen_options 0]
  by (simp add: default_gen_options_def)

text \<open>C26: \<open>shuffle\<close> is a permutation: its output has the same multiset of characters
  as its input, and it draws \<open>length - 1\<close> values.\<close>

theorem shuffle_permutes:
  "mset (fst (run_state (shuffle rs s) n)) = mset s \<and>
   snd (run_state (shuffle rs s) n) = n + (length s - 1)"
proof (cases s)
  case Nil then show ?thesis by (simp add: shuffle_def)
next
  case (Cons c cs)
  then show ?thesis using shuffle_loop_run [of "length s - 1" s rs n] by (simp add: shuffle_def)
qed

text \<open>C27: The counting loop of line 62 terminates from every start index: it returns after
  exactly \<open>length - i\<close> draws, extending the accumulator by one character per draw.\<close>

theorem rest_loop_terminates:
  "\<exists>acc'. run_state (rest_loop rs pool len i acc) n = (acc', n + (len - i)) \<and>
          length acc' = length acc + (len - i) \<and> take (length acc) acc' = acc"
  by (simp add: rest_loop_run)

end
