(* ===== verification/Background.thy ===== *)
theory Background
  imports Vault Cipher Generator
begin

text \<open>
  The session controller of \<open>src/extension/background.js\<close>. Its state is the record
  \<open>bg_state\<close>: the module variables \<open>derivedKey\<close>, \<open>unlockedAt\<close> and \<open>autolockMs\<close>
  (lost when the browser restarts the service worker), the metadata in
  \<open>chrome.storage.local\<close>, the encrypted vault in IndexedDB (\<open>scripts/storage.js\<close>,
  store \<open>vault\<close>, key \<open>default\<close>), the exported key in \<open>chrome.storage.session\<close> and the
  \<open>autolock\<close> alarm of \<open>chrome.alarms\<close> (its due time). Every \<open>async\<close> function is an
  exception-with-state computation (\<open>exn_state\<close> of the prelude); the message listener
  catches every exception into an error response. Each handler runs to completion
  before the next event: the interleaving of handlers at \<open>await\<close> points is studied
  separately. What each event brings from the environment (the time, the randomness of
  \<open>getRandomValues\<close>) is the record \<open>bg_env\<close>.
\<close>

section \<open>State, environment, messages\<close>

record bg_meta =
  meta_kdf :: string
  meta_iterations :: nat
  meta_saltB64 :: string
  meta_autolockMs :: int
  meta_createdAt :: timestamp
  meta_updatedAt :: timestamp

record bg_state =
  derivedKey :: "crypto_key option"
  unlockedAt :: timestamp
  autolockMs :: int
  local_meta :: "bg_meta option"
  idb_vault :: "vault_doc enc_record option"
  session_jwk :: "crypto_key option"
  autolock_alarm :: "timestamp option"

record bg_env =
  env_now :: timestamp
  env_salt_rnd :: "nat \<Rightarrow> byte"
  env_iv_rnd :: "nat \<Rightarrow> byte"
  env_gen_rnd :: "nat \<Rightarrow> 32 word"  \<comment> \<open>the draws of \<open>getRandomValues\<close> in \<open>generatePassword\<close>\<close>

text \<open>The messages of \<open>chrome.runtime.onMessage\<close>. \<open>SET_AUTOLOCK\<close> carries
  \<open>Number(ms)\<close> when it is finite, \<open>None\<close> for \<open>NaN\<close> and the infinities;
  \<open>GENERATE_PASSWORD\<close> carries \<open>options || {}\<close> (an absent object is the record of
  defaults: no length, no class flag).\<close>

datatype bg_msg =
    STATUS
  | UNLOCK string
  | LOCK
  | GET_CREDENTIALS_FOR_ORIGIN string
  | SAVE_CREDENTIAL credential
  | LIST_CREDENTIALS
  | DELETE_CREDENTIAL string
  | GENERATE_PASSWORD gen_options
  | SET_AUTOLOCK "int option"
  | UNKNOWN_MESSAGE

datatype bg_error =
    ECrypto crypto_error
  | EMetaNotInitialized  \<comment> \<open>\<open>'Meta not initialized'\<close>\<close>
  | EVaultLocked         \<comment> \<open>\<open>'Vault is locked'\<close>\<close>
  | ELocked              \<comment> \<open>\<open>'Locked'\<close>\<close>
  | EInvalidMaster       \<comment> \<open>\<open>'Invalid master password'\<close>\<close>
  | EInvalidAutolock     \<comment> \<open>\<open>'Invalid autolock value; must be >= 1 minute'\<close>\<close>
  | EMetaNull            \<comment> \<open>\<open>TypeError\<close>: \<open>meta.autolockMs = ms\<close> with \<open>meta = null\<close>\<close>
  | EUnknownMessage      \<comment> \<open>\<open>'Unknown message'\<close>\<close>

datatype response =
    RespOk
  | RespStatus bool
  | RespCreds "credential list"
  | RespPassword string
  | RespError bg_error

type_synonym 'a bg = "(bg_state, bg_error, 'a) exn_state"

text \<open>A fresh service worker: line 18--20 and empty browser storage.\<close>

definition bg_init :: bg_state where
  "bg_init = \<lparr>derivedKey = None, unlockedAt = 0, autolockMs = 5 * 60 * 1000,
     local_meta = None, idb_vault = None, session_jwk = None, autolock_alarm = None\<rparr>"

section \<open>Storage\<close>

text \<open>\<open>scripts/storage.js\<close>: the object store \<open>vault\<close> holds one record, under the key
  \<open>default\<close>; \<open>idbGet\<close> (lines 37--43) reads it (\<open>null\<close> when absent) and \<open>idbSet\<close>
  (lines 45--51) replaces it in one transaction. \<open>loadMeta\<close>/\<open>saveMeta\<close> (background.js
  lines 22--29) read and write \<open>chrome.storage.local.meta\<close>.\<close>

definition idbGet :: "bg_state \<Rightarrow> vault_doc enc_record option" where
  "idbGet s = idb_vault s"

definition idbSet :: "vault_doc enc_record \<Rightarrow> bg_state \<Rightarrow> bg_state" where
  "idbSet enc s = s\<lparr>idb_vault := Some enc\<rparr>"

definition loadMeta :: "bg_state \<Rightarrow> bg_meta option" where
  "loadMeta s = local_meta s"

definition saveMeta :: "bg_meta \<Rightarrow> bg_state \<Rightarrow> bg_state" where
  "saveMeta m s = s\<lparr>local_meta := Some m\<rparr>"

section \<open>Helpers\<close>

text \<open>\<open>Math.round(x / 60000)\<close> for an integer \<open>x\<close>: \<open>floor(x / 60000 + 1/2)\<close>.\<close>

definition js_round_minutes :: "int \<Rightarrow> int" where
  "js_round_minutes x = (x + 30000) div 60000"

text \<open>Lines 31--41. The \<open>clear\<close>/\<open>create\<close> pair replaces the alarm; it fires
  \<open>delayInMinutes\<close> minutes later.\<close>

definition autolock_minutes :: "int \<Rightarrow> int" where
  "autolock_minutes ms = max 1 (js_round_minutes (num_or ms (5 * 60 * 1000)))"

definition resetAutolockTimer :: "timestamp \<Rightarrow> bg_state \<Rightarrow> bg_state" where
  "resetAutolockTimer now s =
     s\<lparr>unlockedAt := now,
       autolock_alarm := Some (now + nat (autolock_minutes (autolockMs s)) * 60000)\<rparr>"

text \<open>Lines 43--47. The alarm is not cleared.\<close>

definition lockVault :: "bg_state \<Rightarrow> bg_state" where
  "lockVault s = s\<lparr>derivedKey := None, unlockedAt := 0, session_jwk := None\<rparr>"

text \<open>Lines 49--66: create the metadata with a fresh 16-byte salt on first use,
  otherwise adopt its auto-lock duration.\<close>

definition ensureInit :: "bg_env \<Rightarrow> unit bg" where
  "ensureInit e s =
     (case loadMeta s of
        None \<Rightarrow>
          (case bytesToBase64 (getRandomValues (env_salt_rnd e) 16) of
             None \<Rightarrow> (s, Inl (ECrypto InvalidBase64))
           | Some salt \<Rightarrow>
               (saveMeta \<lparr>meta_kdf = ''PBKDF2'', meta_iterations = 310000,
                   meta_saltB64 = salt, meta_autolockMs = autolockMs s,
                   meta_createdAt = env_now e, meta_updatedAt = env_now e\<rparr> s, Inr ()))
      | Some m \<Rightarrow> (s\<lparr>autolockMs := num_or (meta_autolockMs m) (autolockMs s)\<rparr>, Inr ()))"

text \<open>Lines 68--73.\<close>

definition deriveKeyFromMeta :: "string \<Rightarrow> crypto_key bg" where
  "deriveKeyFromMeta pw s =
     (case loadMeta s of
        None \<Rightarrow> (s, Inl EMetaNotInitialized)
      | Some m \<Rightarrow>
          (case base64ToBytes (meta_saltB64 m) of
             None \<Rightarrow> (s, Inl (ECrypto InvalidBase64))
           | Some salt \<Rightarrow> (s, Inr (deriveKeyPBKDF2 pw salt (meta_iterations m)))))"

text \<open>Lines 90--103: import the exported key (an extractable key the worker exported
  itself, so the import succeeds) and re-arm the timer.\<close>

definition tryRestoreKeyFromSession :: "bg_env \<Rightarrow> bg_state \<Rightarrow> bg_state" where
  "tryRestoreKeyFromSession e s =
     (case session_jwk s of
        None \<Rightarrow> s
      | Some jwk \<Rightarrow> resetAutolockTimer (env_now e) (s\<lparr>derivedKey := Some jwk\<rparr>))"

text \<open>\<open>if (!derivedKey) await tryRestoreKeyFromSession();\<close>\<close>

definition restoreIfLocked :: "bg_env \<Rightarrow> bg_state \<Rightarrow> bg_state" where
  "restoreIfLocked e s = (if derivedKey s = None then tryRestoreKeyFromSession e s else s)"

text \<open>Lines 75--81.\<close>

definition getVaultJson :: "bg_env \<Rightarrow> vault_doc bg" where
  "getVaultJson e s =
     (case idbGet s of
        None \<Rightarrow> (s, Inr empty_vault)
      | Some enc \<Rightarrow>
          (let s1 = restoreIfLocked e s in
           case derivedKey s1 of
             None \<Rightarrow> (s1, Inl EVaultLocked)
           | Some k \<Rightarrow> es_lift ECrypto (decryptJSON (Some enc) k) s1))"

text \<open>Lines 83--88.\<close>

definition setVaultJson :: "bg_env \<Rightarrow> vault_doc \<Rightarrow> unit bg" where
  "setVaultJson e json s =
     (let s1 = restoreIfLocked e s in
      case derivedKey s1 of
        None \<Rightarrow> (s1, Inl EVaultLocked)
      | Some k \<Rightarrow>
          (case encryptJSON json (Some k) False (env_iv_rnd e) [] of
             Inl ce \<Rightarrow> (s1, Inl (ECrypto ce))
           | Inr enc \<Rightarrow> (idbSet enc s1, Inr ())))"

section \<open>The message handlers\<close>

text \<open>The prologue of every CRUD handler:
  \<open>if (!derivedKey) await tryRestoreKeyFromSession();
   if (!derivedKey) throw new Error('Locked'); resetAutolockTimer();\<close>\<close>

definition crud_prologue :: "bg_env \<Rightarrow> unit bg" where
  "crud_prologue e =
     es_bind (es_modify (restoreIfLocked e)) (\<lambda>_.
     es_bind (es_assert (\<lambda>s. derivedKey s \<noteq> None) ELocked) (\<lambda>_.
     es_modify (resetAutolockTimer (env_now e))))"

text \<open>Lines 133--161. Decryption of the existing vault checks the password; on first
  use the empty vault is encrypted under the new key, which defines the master
  password. Either failure is reported as an invalid master password.\<close>

definition unlock_check :: "bg_env \<Rightarrow> crypto_key \<Rightarrow> unit bg" where
  "unlock_check e key s =
     (case idbGet s of
        Some enc \<Rightarrow>
          (case decryptJSON (Some enc) key of
             Inl _ \<Rightarrow> (s, Inl EInvalidMaster)
           | Inr _ \<Rightarrow> (s, Inr ()))
      | None \<Rightarrow>
          (case encryptJSON empty_vault (Some key) False (env_iv_rnd e) [] of
             Inl _ \<Rightarrow> (s, Inl EInvalidMaster)
           | Inr enc \<Rightarrow> (idbSet enc s, Inr ())))"

definition handle_unlock :: "bg_env \<Rightarrow> string \<Rightarrow> response bg" where
  "handle_unlock e pw =
     es_bind (ensureInit e) (\<lambda>_.
     es_bind (deriveKeyFromMeta pw) (\<lambda>key.
     es_bind (unlock_check e key) (\<lambda>_.
     es_bind (es_modify (\<lambda>s. s\<lparr>derivedKey := Some key\<rparr>)) (\<lambda>_.
     es_bind (es_modify (resetAutolockTimer (env_now e))) (\<lambda>_.
     es_bind (es_modify (\<lambda>s. s\<lparr>session_jwk := derivedKey s\<rparr>)) (\<lambda>_.
     es_return RespOk))))))"

text \<open>Lines 214--228.\<close>

definition handle_set_autolock :: "bg_env \<Rightarrow> int option \<Rightarrow> response bg" where
  "handle_set_autolock e ms s =
     (case ms of
        None \<Rightarrow> (s, Inr (RespError EInvalidAutolock))
      | Some n \<Rightarrow>
          if n < 60 * 1000 then (s, Inr (RespError EInvalidAutolock))
          else
            (case loadMeta s of
               None \<Rightarrow> (s, Inl EMetaNull)
             | Some m \<Rightarrow>
                 (let s1 = (saveMeta (m\<lparr>meta_autolockMs := n\<rparr>) s)\<lparr>autolockMs := n\<rparr>
                  in (if derivedKey s1 \<noteq> None then resetAutolockTimer (env_now e) s1 else s1,
                      Inr RespOk))))"

text \<open>Lines 125--236: dispatch on \<open>msg.type\<close>.\<close>

fun bg_handler :: "bg_env \<Rightarrow> bg_msg \<Rightarrow> response bg" where
  "bg_handler e STATUS =
     es_bind (es_modify (restoreIfLocked e)) (\<lambda>_.
     es_gets (\<lambda>s. RespStatus (derivedKey s \<noteq> None)))"
| "bg_handler e (UNLOCK pw) = handle_unlock e pw"
| "bg_handler e LOCK = es_bind (es_modify lockVault) (\<lambda>_. es_return RespOk)"
| "bg_handler e (GET_CREDENTIALS_FOR_ORIGIN org) =
     es_bind (crud_prologue e) (\<lambda>_.
     es_bind (getVaultJson e) (\<lambda>vault.
     es_return (RespCreds (creds_for_origin org vault))))"
| "bg_handler e (SAVE_CREDENTIAL c) =
     es_bind (crud_prologue e) (\<lambda>_.
     es_bind (getVaultJson e) (\<lambda>vault.
     es_bind (setVaultJson e (vault_upsert c vault)) (\<lambda>_.
     es_return RespOk)))"
| "bg_handler e LIST_CREDENTIALS =
     es_bind (crud_prologue e) (\<lambda>_.
     es_bind (getVaultJson e) (\<lambda>vault.
     es_return (RespCreds (creds vault))))"
| "bg_handler e (DELETE_CREDENTIAL i) =
     es_bind (crud_prologue e) (\<lambda>_.
     es_bind (getVaultJson e) (\<lambda>vault.
     es_bind (setVaultJson e (vault_delete i vault)) (\<lambda>_.
     es_return RespOk)))"
| "bg_handler e (GENERATE_PASSWORD opts) =
     es_return (RespPassword (fst (run_state (generatePassword (env_gen_rnd e) opts) 0)))"
| "bg_handler e (SET_AUTOLOCK ms) = handle_set_autolock e ms"
| "bg_handler e UNKNOWN_MESSAGE = es_return (RespError EUnknownMessage)"

text \<open>The \<open>try\<close>/\<open>catch\<close> around the dispatch (lines 127, 230--233): every exception
  becomes \<open>{ok: false, error}\<close>.\<close>

definition handle_message :: "bg_env \<Rightarrow> bg_msg \<Rightarrow> bg_state \<Rightarrow> bg_state \<times> response" where
  "handle_message e msg s =
     (case bg_handler e msg s of
        (s', Inl err) \<Rightarrow> (s', RespError err)
      | (s', Inr r) \<Rightarrow> (s', r))"

text \<open>Lines 117--123: the \<open>autolock\<close> alarm locks only if a key is in memory.\<close>

definition onAlarm :: "bg_state \<Rightarrow> bg_state" where
  "onAlarm s = (if derivedKey s \<noteq> None then lockVault s else s)"

text \<open>Lines 105--106: \<open>onInstalled\<close> runs \<open>ensureInit\<close> (the context menus it creates
  are user interface).\<close>

definition onInstalled :: "bg_env \<Rightarrow> bg_state \<Rightarrow> bg_state" where
  "onInstalled e s = fst (ensureInit e s)"

text \<open>A restart of the service worker re-runs the module: lines 18--20 reset the module
  variables; browser storage and alarms survive.\<close>

definition worker_restart :: "bg_state \<Rightarrow> bg_state" where
  "worker_restart s = s\<lparr>derivedKey := None, unlockedAt := 0, autolockMs := 5 * 60 * 1000\<rparr>"

end
