(* ===== verification/Session.thy ===== *)
theory Session
  imports Background
begin

text \<open>
  The service worker of \<open>background.js\<close> as a transition system. An event is a message
  (handled to completion by \<open>handle_message\<close>), the firing of the \<open>autolock\<close> alarm (the
  browser removes a one-shot alarm when it fires, then runs \<open>onAlarm\<close>; it fires only
  once due), a restart of the worker (\<open>worker_restart\<close>), or the install event
  (\<open>onInstalled\<close>). The reachable states are those of the runs from a fresh install
  (\<open>bg_init\<close>). The invariant \<open>bg_inv\<close> says: the in-memory auto-lock duration is at
  least one minute; the metadata, once created, has the fixed KDF parameters and a
  16-byte salt; the stored record is a version-1 AES-256-GCM envelope whose stored IV
  decodes to the IV it was sealed with, sealed under a key derived from the metadata's
  salt and iterations, around a vault with distinct ids; and every key the worker holds
  in memory or in the session export is the key of that record, the in-memory one
  being the exported one. Closed forms of each handler under the invariant carry the
  preservation proof and the functional lemmas.
\<close>

section \<open>Events and runs\<close>

datatype bg_event =
    Msg bg_env bg_msg
  | AlarmFire bg_env
  | Restart
  | Installed bg_env

definition fire_alarm :: "bg_state \<Rightarrow> bg_state" where
  "fire_alarm s = onAlarm (s\<lparr>autolock_alarm := None\<rparr>)"

definition alarm_due :: "bg_env \<Rightarrow> bg_state \<Rightarrow> bool" where
  "alarm_due e s = (case autolock_alarm s of None \<Rightarrow> False | Some t \<Rightarrow> t \<le> env_now e)"

inductive bg_trans :: "bg_state \<Rightarrow> bg_event \<Rightarrow> bg_state \<Rightarrow> bool" where
  msg: "bg_trans s (Msg e m) (fst (handle_message e m s))"
| alarm: "alarm_due e s \<Longrightarrow> bg_trans s (AlarmFire e) (fire_alarm s)"
| restart: "bg_trans s Restart (worker_restart s)"
| installed: "bg_trans s (Installed e) (onInstalled e s)"

inductive bg_reachable :: "bg_state \<Rightarrow> bool" where
  init: "bg_reachable bg_init"
| step: "bg_reachable s \<Longrightarrow> bg_trans s ev s' \<Longrightarrow> bg_reachable s'"

text \<open>An executable run of a list of events; \<open>None\<close> when an alarm fires before it
  is due.\<close>

fun bg_run :: "bg_state \<Rightarrow> bg_event list \<Rightarrow> bg_state option" where
  "bg_run s [] = Some s"
| "bg_run s (Msg e m # evs) = bg_run (fst (handle_message e m s)) evs"
| "bg_run s (AlarmFire e # evs) = (if alarm_due e s then bg_run (fire_alarm s) evs else None)"
| "bg_run s (Restart # evs) = bg_run (worker_restart s) evs"
| "bg_run s (Installed e # evs) = bg_run (onInstalled e s) evs"

section \<open>The invariant\<close>

definition meta_ok :: "bg_meta \<Rightarrow> bool" where
  "meta_ok m \<longleftrightarrow>
     meta_kdf m = ''PBKDF2'' \<and> meta_iterations m = 310000 \<and>
     map_option length (base64ToBytes (meta_saltB64 m)) = Some 16 \<and>
     60000 \<le> meta_autolockMs m"

text \<open>The key a record is sealed under is derived from the metadata's salt and
  iterations.\<close>

definition key_of_meta :: "bg_meta \<Rightarrow> crypto_key \<Rightarrow> bool" where
  "key_of_meta m k =
     (case k of
        Pbkdf2Key pw salt it \<Rightarrow> base64ToBytes (meta_saltB64 m) = Some salt \<and> it = meta_iterations m
      | GeneratedKey _ \<Rightarrow> False)"

definition record_ok :: "bg_meta \<Rightarrow> vault_doc enc_record \<Rightarrow> bool" where
  "record_ok m r \<longleftrightarrow>
     enc_v r = 1 \<and> enc_alg r = ''AES-256-GCM'' \<and>
     base64ToBytes (enc_iv r) = Some (ct_iv (enc_ct r)) \<and> length (ct_iv (enc_ct r)) = 12 \<and>
     key_of_meta m (ct_key (enc_ct r)) \<and> vault_wf (ct_plain (enc_ct r))"

definition store_ok :: "bg_state \<Rightarrow> bool" where
  "store_ok s =
     (case idb_vault s of
        None \<Rightarrow> True
      | Some r \<Rightarrow> (case local_meta s of None \<Rightarrow> False | Some m \<Rightarrow> record_ok m r))"

text \<open>A key opens the store: it is the key the stored record is sealed under.\<close>

definition key_opens :: "bg_state \<Rightarrow> crypto_key \<Rightarrow> bool" where
  "key_opens s k = (case idb_vault s of None \<Rightarrow> False | Some r \<Rightarrow> k = ct_key (enc_ct r))"

definition bg_inv :: "bg_state \<Rightarrow> bool" where
  "bg_inv s \<longleftrightarrow>
     60000 \<le> autolockMs s \<and> pred_option meta_ok (local_meta s) \<and> store_ok s \<and>
     pred_option (key_opens s) (session_jwk s) \<and>
     (derivedKey s = None \<or> derivedKey s = session_jwk s)"

section \<open>Closed forms of the handlers\<close>

text \<open>The decrypted vault of the store (\<open>getVaultJson\<close>'s result when a key opens it).\<close>

definition vault_plain :: "bg_state \<Rightarrow> vault_doc" where
  "vault_plain s = (case idb_vault s of None \<Rightarrow> empty_vault | Some r \<Rightarrow> ct_plain (enc_ct r))"

text \<open>The record \<open>encryptJSON\<close> writes for a document under a key.\<close>

definition seal :: "crypto_key \<Rightarrow> (nat \<Rightarrow> byte) \<Rightarrow> vault_doc \<Rightarrow> vault_doc enc_record" where
  "seal k rnd d =
     \<lparr>enc_v = 1, enc_alg = ''AES-256-GCM'',
      enc_iv = b64_encode (map unat (getRandomValues rnd 12)),
      enc_ct = AesGcm k (getRandomValues rnd 12) d\<rparr>"

text \<open>Resuming with a key: the key in memory and the timer re-armed.\<close>

definition bg_resume :: "bg_env \<Rightarrow> crypto_key \<Rightarrow> bg_state \<Rightarrow> bg_state" where
  "bg_resume e k s = resetAutolockTimer (env_now e) (s\<lparr>derivedKey := Some k\<rparr>)"

text \<open>The master password of the store: the password its key is derived from.\<close>

definition vault_master :: "bg_state \<Rightarrow> string option" where
  "vault_master s =
     (case idb_vault s of
        None \<Rightarrow> None
      | Some r \<Rightarrow> (case ct_key (enc_ct r) of Pbkdf2Key pw _ _ \<Rightarrow> Some pw | _ \<Rightarrow> None))"

text \<open>The metadata \<open>ensureInit\<close> creates, the key \<open>deriveKeyFromMeta\<close> derives from it, the
  state after \<open>ensureInit\<close>, and the commit of a successful unlock (key in memory, timer
  armed, key exported).\<close>

definition fresh_meta :: "bg_env \<Rightarrow> bg_state \<Rightarrow> bg_meta" where
  "fresh_meta e s = \<lparr>meta_kdf = ''PBKDF2'', meta_iterations = 310000,
     meta_saltB64 = b64_encode (map unat (getRandomValues (env_salt_rnd e) 16)),
     meta_autolockMs = autolockMs s, meta_createdAt = env_now e, meta_updatedAt = env_now e\<rparr>"

definition meta_key :: "string \<Rightarrow> bg_meta \<Rightarrow> crypto_key" where
  "meta_key pw m = Pbkdf2Key pw (the (base64ToBytes (meta_saltB64 m))) (meta_iterations m)"

definition unlock_state :: "bg_env \<Rightarrow> bg_state \<Rightarrow> bg_state" where
  "unlock_state e s =
     (case local_meta s of
        None \<Rightarrow> saveMeta (fresh_meta e s) s
      | Some m \<Rightarrow> s\<lparr>autolockMs := meta_autolockMs m\<rparr>)"

definition unlock_commit :: "bg_env \<Rightarrow> crypto_key \<Rightarrow> bg_state \<Rightarrow> bg_state" where
  "unlock_commit e k s = (bg_resume e k s)\<lparr>session_jwk := Some k\<rparr>"

section \<open>Closed forms of the handlers under the invariant\<close>

lemma restoreIfLocked_eq:
  "restoreIfLocked e s =
     (case derivedKey s of
        Some _ \<Rightarrow> s
      | None \<Rightarrow> (case session_jwk s of None \<Rightarrow> s | Some k \<Rightarrow> bg_resume e k s))"
  by (simp add: restoreIfLocked_def tryRestoreKeyFromSession_def bg_resume_def split: option.split)

lemma resetAutolockTimer_idem [simp]:
  "resetAutolockTimer t (resetAutolockTimer t s) = resetAutolockTimer t s"
  by (simp add: resetAutolockTimer_def)

lemma store_frame [simp]:
  "store_ok (resetAutolockTimer t s) = store_ok s"
  "store_ok (s\<lparr>derivedKey := x\<rparr>) = store_ok s"
  "store_ok (s\<lparr>session_jwk := y\<rparr>) = store_ok s"
  "store_ok (s\<lparr>autolockMs := n\<rparr>) = store_ok s"
  "store_ok (s\<lparr>autolock_alarm := a\<rparr>) = store_ok s"
  "store_ok (lockVault s) = store_ok s"
  by (simp_all add: store_ok_def resetAutolockTimer_def lockVault_def split: option.split)

lemma key_opens_frame [simp]:
  "key_opens (resetAutolockTimer t s) = key_opens s"
  "key_opens (s\<lparr>derivedKey := x\<rparr>) = key_opens s"
  "key_opens (s\<lparr>session_jwk := y\<rparr>) = key_opens s"
  "key_opens (s\<lparr>autolockMs := n\<rparr>) = key_opens s"
  "key_opens (s\<lparr>autolock_alarm := a\<rparr>) = key_opens s"
  "key_opens (s\<lparr>local_meta := mm\<rparr>) = key_opens s"
  by (simp_all add: fun_eq_iff key_opens_def resetAutolockTimer_def)

lemma vault_plain_frame [simp]:
  "vault_plain (resetAutolockTimer t s) = vault_plain s"
  "vault_plain (s\<lparr>derivedKey := x\<rparr>) = vault_plain s"
  "vault_plain (s\<lparr>session_jwk := y\<rparr>) = vault_plain s"
  "vault_plain (s\<lparr>autolockMs := n\<rparr>) = vault_plain s"
  "vault_plain (s\<lparr>local_meta := mm\<rparr>) = vault_plain s"
  by (simp_all add: vault_plain_def resetAutolockTimer_def)

lemma reset_fields [simp]:
  "derivedKey (resetAutolockTimer t s) = derivedKey s"
  "session_jwk (resetAutolockTimer t s) = session_jwk s"
  "idb_vault (resetAutolockTimer t s) = idb_vault s"
  "local_meta (resetAutolockTimer t s) = local_meta s"
  "autolockMs (resetAutolockTimer t s) = autolockMs s"
  by (simp_all add: resetAutolockTimer_def)

lemma bg_resume_fields [simp]:
  "derivedKey (bg_resume e k s) = Some k" "session_jwk (bg_resume e k s) = session_jwk s"
  "idb_vault (bg_resume e k s) = idb_vault s" "local_meta (bg_resume e k s) = local_meta s"
  "autolockMs (bg_resume e k s) = autolockMs s"
  "store_ok (bg_resume e k s) = store_ok s" "key_opens (bg_resume e k s) = key_opens s"
  "vault_plain (bg_resume e k s) = vault_plain s"
  by (simp_all add: bg_resume_def)

lemma crud_prologue_inv:
  assumes "bg_inv s"
  shows "crud_prologue e s =
           (case session_jwk s of None \<Rightarrow> (s, Inl ELocked) | Some k \<Rightarrow> (bg_resume e k s, Inr ()))"
proof (cases "derivedKey s")
  case None
  then show ?thesis
    by (auto simp: crud_prologue_def restoreIfLocked_eq bg_resume_def split: option.split)
next
  case (Some k)
  with assms have "session_jwk s = Some k" by (simp add: bg_inv_def)
  moreover have eq: "s\<lparr>derivedKey := Some k\<rparr> = s" using Some by simp
  ultimately show ?thesis
    using Some by (simp add: crud_prologue_def restoreIfLocked_eq bg_resume_def eq)
qed

lemma getVaultJson_opened:
  assumes "derivedKey s = Some k" and "store_ok s" and "key_opens s k"
  shows "getVaultJson e s = (s, Inr (vault_plain s))"
proof -
  from assms(3) obtain r where r: "idb_vault s = Some r" and k: "k = ct_key (enc_ct r)"
    by (auto simp: key_opens_def split: option.splits)
  from assms(2) r have "base64ToBytes (enc_iv r) = Some (ct_iv (enc_ct r))"
    by (auto simp: store_ok_def record_ok_def split: option.splits)
  with assms(1) r k show ?thesis
    by (simp add: getVaultJson_def idbGet_def restoreIfLocked_def decryptJSON_record vault_plain_def)
qed

lemma encryptJSON_seal:
  "encryptJSON d (Some k) False rnd [] = Inr (seal k rnd d)"
  by (simp add: encryptJSON_key seal_def)

lemma setVaultJson_key:
  assumes "derivedKey s = Some k"
  shows "setVaultJson e d s = (idbSet (seal k (env_iv_rnd e) d) s, Inr ())"
  using assms by (simp add: setVaultJson_def restoreIfLocked_def encryptJSON_seal)

lemma crud_opened:
  assumes "bg_inv s" and "session_jwk s = Some k"
  shows "getVaultJson e (bg_resume e k s) = (bg_resume e k s, Inr (vault_plain s))"
proof -
  from assms have "key_opens s k" by (simp add: bg_inv_def)
  moreover from assms have "store_ok s" by (simp add: bg_inv_def)
  ultimately show ?thesis
    by (subst getVaultJson_opened) simp_all
qed

lemma handle_list_inv:
  assumes "bg_inv s"
  shows "handle_message e LIST_CREDENTIALS s =
           (case session_jwk s of
              None \<Rightarrow> (s, RespError ELocked)
            | Some k \<Rightarrow> (bg_resume e k s, RespCreds (creds (vault_plain s))))"
  using assms crud_opened [OF assms]
  by (simp add: handle_message_def es_bind_apply crud_prologue_inv [OF assms] split: option.split)

lemma handle_get_inv:
  assumes "bg_inv s"
  shows "handle_message e (GET_CREDENTIALS_FOR_ORIGIN org) s =
           (case session_jwk s of
              None \<Rightarrow> (s, RespError ELocked)
            | Some k \<Rightarrow> (bg_resume e k s, RespCreds (creds_for_origin org (vault_plain s))))"
  using assms crud_opened [OF assms]
  by (simp add: handle_message_def es_bind_apply crud_prologue_inv [OF assms] split: option.split)

lemma handle_save_inv:
  assumes "bg_inv s"
  shows "handle_message e (SAVE_CREDENTIAL c) s =
           (case session_jwk s of
              None \<Rightarrow> (s, RespError ELocked)
            | Some k \<Rightarrow>
                (idbSet (seal k (env_iv_rnd e) (vault_upsert c (vault_plain s))) (bg_resume e k s),
                 RespOk))"
  using assms crud_opened [OF assms]
  by (simp add: handle_message_def es_bind_apply crud_prologue_inv [OF assms] setVaultJson_key
      split: option.split)

lemma handle_delete_inv:
  assumes "bg_inv s"
  shows "handle_message e (DELETE_CREDENTIAL i) s =
           (case session_jwk s of
              None \<Rightarrow> (s, RespError ELocked)
            | Some k \<Rightarrow>
                (idbSet (seal k (env_iv_rnd e) (vault_delete i (vault_plain s))) (bg_resume e k s),
                 RespOk))"
  using assms crud_opened [OF assms]
  by (simp add: handle_message_def es_bind_apply crud_prologue_inv [OF assms] setVaultJson_key
      split: option.split)

lemma meta_salt:
  assumes "meta_ok m"
  obtains salt where "base64ToBytes (meta_saltB64 m) = Some salt" and "length salt = 16"
  using assms by (cases "base64ToBytes (meta_saltB64 m)") (auto simp: meta_ok_def)

lemma ensureInit_inv:
  assumes "pred_option meta_ok (local_meta s)"
  shows "ensureInit e s = (unlock_state e s, Inr ())"
  using assms
  by (auto simp: ensureInit_def unlock_state_def loadMeta_def bytesToBase64_Some fresh_meta_def
      meta_ok_def split: option.split)

lemma deriveKeyFromMeta_ok:
  assumes "local_meta s = Some m" and "meta_ok m"
  shows "deriveKeyFromMeta pw s = (s, Inr (meta_key pw m))"
proof -
  obtain salt where "base64ToBytes (meta_saltB64 m) = Some salt"
    using meta_salt [OF assms(2)] by blast
  with assms(1) show ?thesis
    by (simp add: deriveKeyFromMeta_def loadMeta_def meta_key_def deriveKeyPBKDF2_def)
qed

lemma fresh_meta_ok: "60000 \<le> autolockMs s \<Longrightarrow> meta_ok (fresh_meta e s)"
  by (simp add: meta_ok_def fresh_meta_def base64ToBytes_b64_encode)

lemma key_of_meta_key: "meta_ok m \<Longrightarrow> key_of_meta m (meta_key pw m)"
  by (erule meta_salt) (simp add: key_of_meta_def meta_key_def)

lemma seal_record_ok:
  "key_of_meta m k \<Longrightarrow> vault_wf d \<Longrightarrow> record_ok m (seal k rnd d)"
  by (simp add: record_ok_def seal_def base64ToBytes_b64_encode)

lemma record_ok_autolock [simp]:
  "record_ok (m\<lparr>meta_autolockMs := n\<rparr>) r = record_ok m r"
  by (simp add: record_ok_def key_of_meta_def split: crypto_key.split)

lemma unlock_state_fields [simp]:
  "derivedKey (unlock_state e s) = derivedKey s"
  "session_jwk (unlock_state e s) = session_jwk s"
  "idb_vault (unlock_state e s) = idb_vault s"
  by (simp_all add: unlock_state_def saveMeta_def split: option.split)

lemma unlock_state_meta:
  assumes "bg_inv s"
  shows "\<exists>m. local_meta (unlock_state e s) = Some m \<and> meta_ok m \<and>
           (local_meta s \<noteq> None \<longrightarrow> local_meta s = Some m)"
  using assms fresh_meta_ok [of s e]
  by (auto simp: unlock_state_def saveMeta_def bg_inv_def split: option.split)

lemma unlock_state_inv:
  assumes "bg_inv s"
  shows "bg_inv (unlock_state e s)"
proof (cases "local_meta s")
  case None
  with assms have "idb_vault s = None" by (simp add: bg_inv_def store_ok_def split: option.splits)
  with None assms show ?thesis
    using fresh_meta_ok [of s e]
    by (simp add: bg_inv_def unlock_state_def saveMeta_def store_ok_def key_opens_def)
next
  case (Some m)
  with assms show ?thesis
    by (auto simp: bg_inv_def unlock_state_def meta_ok_def)
qed

lemma unlock_check_inv:
  assumes "store_ok s" and "local_meta s = Some m"
  shows "unlock_check e k s =
           (case idb_vault s of
              None \<Rightarrow> (idbSet (seal k (env_iv_rnd e) empty_vault) s, Inr ())
            | Some r \<Rightarrow> if k = ct_key (enc_ct r) then (s, Inr ()) else (s, Inl EInvalidMaster))"
proof (cases "idb_vault s")
  case None
  then show ?thesis by (simp add: unlock_check_def idbGet_def encryptJSON_seal)
next
  case (Some r)
  with assms have "base64ToBytes (enc_iv r) = Some (ct_iv (enc_ct r))"
    by (simp add: store_ok_def record_ok_def)
  with Some show ?thesis by (simp add: unlock_check_def idbGet_def decryptJSON_record)
qed

lemma handle_unlock_inv:
  assumes "bg_inv s" and "local_meta (unlock_state e s) = Some m" and "meta_ok m"
  shows "handle_message e (UNLOCK pw) s =
           (let s1 = unlock_state e s; k = meta_key pw m in
            case idb_vault s1 of
              None \<Rightarrow> (unlock_commit e k (idbSet (seal k (env_iv_rnd e) empty_vault) s1), RespOk)
            | Some r \<Rightarrow>
                if k = ct_key (enc_ct r) then (unlock_commit e k s1, RespOk)
                else (s1, RespError EInvalidMaster))"
proof -
  have inv1: "bg_inv (unlock_state e s)" using assms(1) by (rule unlock_state_inv)
  then have st: "store_ok (unlock_state e s)" by (simp add: bg_inv_def)
  have ei: "ensureInit e s = (unlock_state e s, Inr ())"
    using assms(1) by (simp add: bg_inv_def ensureInit_inv)
  show ?thesis
    using assms(2,3)
    by (simp add: handle_message_def handle_unlock_def es_bind_apply ei deriveKeyFromMeta_ok
        unlock_check_inv [OF st assms(2)] unlock_commit_def bg_resume_def idbSet_def Let_def
        split: option.split)
qed

lemma key_opens_cong: "idb_vault s' = idb_vault s \<Longrightarrow> key_opens s' = key_opens s"
  by (simp add: fun_eq_iff key_opens_def)

lemma store_ok_cong:
  "idb_vault s' = idb_vault s \<Longrightarrow> local_meta s' = local_meta s \<Longrightarrow> store_ok s' = store_ok s"
  by (simp add: store_ok_def split: option.split)

lemma handle_status:
  "handle_message e STATUS s = (restoreIfLocked e s, RespStatus (derivedKey (restoreIfLocked e s) \<noteq> None))"
  by (simp add: handle_message_def es_bind_apply es_gets_def)

lemma bg_inv_init: "bg_inv bg_init"
  by (simp add: bg_inv_def bg_init_def store_ok_def)

lemma bg_resume_inv:
  "bg_inv s \<Longrightarrow> session_jwk s = Some k \<Longrightarrow> bg_inv (bg_resume e k s)"
  by (simp add: bg_inv_def)

lemma opened_store:
  assumes "bg_inv s" and "session_jwk s = Some k"
  obtains m r where "local_meta s = Some m" and "idb_vault s = Some r" and "k = ct_key (enc_ct r)"
    and "record_ok m r" and "vault_plain s = ct_plain (enc_ct r)"
  using assms
  by (auto simp: bg_inv_def key_opens_def store_ok_def vault_plain_def split: option.splits)

lemma seal_store_inv:
  assumes "bg_inv s" and "derivedKey s = Some k" and "session_jwk s = Some k"
    and "local_meta s = Some m" and "key_of_meta m k" and "vault_wf d"
  shows "bg_inv (idbSet (seal k rnd d) s)"
  using assms seal_record_ok [OF assms(5,6)]
  by (simp add: bg_inv_def idbSet_def store_ok_def key_opens_def seal_def)

lemma crud_write_inv:
  assumes "bg_inv s" and "session_jwk s = Some k"
    and "vault_wf (vault_plain s) \<Longrightarrow> vault_wf d"
  shows "bg_inv (idbSet (seal k rnd d) (bg_resume e k s))"
proof -
  obtain m r where m: "local_meta s = Some m" and r: "idb_vault s = Some r"
    and k: "k = ct_key (enc_ct r)" and ok: "record_ok m r" and p: "vault_plain s = ct_plain (enc_ct r)"
    using opened_store [OF assms(1,2)] by blast
  from ok k have "key_of_meta m k" by (simp add: record_ok_def)
  moreover from ok p assms(3) have "vault_wf d" by (simp add: record_ok_def)
  ultimately show ?thesis
    using bg_resume_inv [OF assms(1,2)] m assms(2)
    by (intro seal_store_inv) simp_all
qed

lemma restoreIfLocked_inv: "bg_inv s \<Longrightarrow> bg_inv (restoreIfLocked e s)"
  by (auto simp: restoreIfLocked_eq intro: bg_resume_inv split: option.split)

lemma lockVault_inv: "bg_inv s \<Longrightarrow> bg_inv (lockVault s)"
  using store_ok_cong [of "lockVault s" s] by (simp add: bg_inv_def lockVault_def)

lemma fire_alarm_inv: "bg_inv s \<Longrightarrow> bg_inv (fire_alarm s)"
  using store_ok_cong [of "fire_alarm s" s] key_opens_cong [of "fire_alarm s" s]
  by (simp add: bg_inv_def fire_alarm_def onAlarm_def lockVault_def)

lemma worker_restart_inv: "bg_inv s \<Longrightarrow> bg_inv (worker_restart s)"
  using store_ok_cong [of "worker_restart s" s] key_opens_cong [of "worker_restart s" s]
  by (simp add: bg_inv_def worker_restart_def)

lemma unlock_inv:
  assumes "bg_inv s"
  shows "bg_inv (fst (handle_message e (UNLOCK pw) s))"
proof -
  obtain m where m: "local_meta (unlock_state e s) = Some m" and ok: "meta_ok m"
    using unlock_state_meta [OF assms] by blast
  have inv1: "bg_inv (unlock_state e s)" using assms by (rule unlock_state_inv)
  let ?k = "meta_key pw m"
  have km: "key_of_meta m ?k" using ok by (rule key_of_meta_key)
  show ?thesis
  proof (cases "idb_vault (unlock_state e s)")
    case None
    have rec: "record_ok m (seal ?k (env_iv_rnd e) empty_vault)"
      by (rule seal_record_ok [OF km]) (simp add: vault_wf_def vault_ids_def empty_vault_def)
    have "bg_inv (unlock_commit e ?k (idbSet (seal ?k (env_iv_rnd e) empty_vault) (unlock_state e s)))"
      using inv1 m ok rec
      by (simp add: bg_inv_def unlock_commit_def bg_resume_def resetAutolockTimer_def idbSet_def
          store_ok_def key_opens_def seal_def)
    then show ?thesis
      using None by (simp add: handle_unlock_inv [OF assms m ok] Let_def)
  next
    case (Some r)
    have "bg_inv (unlock_commit e (ct_key (enc_ct r)) (unlock_state e s))"
      using inv1 Some by (simp add: bg_inv_def unlock_commit_def key_opens_def)
    with inv1 Some show ?thesis
      by (simp add: handle_unlock_inv [OF assms m ok] Let_def)
  qed
qed

lemma set_autolock_inv:
  assumes "bg_inv s"
  shows "bg_inv (fst (handle_message e (SET_AUTOLOCK ms) s))"
proof (cases "\<exists>n m. ms = Some n \<and> 60000 \<le> n \<and> local_meta s = Some m")
  case True
  then obtain n m where ms: "ms = Some n" and n: "60000 \<le> n" and m: "local_meta s = Some m"
    by blast
  let ?s1 = "s\<lparr>local_meta := Some (m\<lparr>meta_autolockMs := n\<rparr>), autolockMs := n\<rparr>"
  have "store_ok ?s1"
    using assms m by (auto simp: bg_inv_def store_ok_def split: option.splits)
  then have "bg_inv ?s1"
    using assms m n key_opens_cong [of ?s1 s]
    by (simp add: bg_inv_def meta_ok_def)
  moreover have "bg_inv (resetAutolockTimer t ?s1)" if "bg_inv ?s1" for t
    using that key_opens_cong [of "resetAutolockTimer t ?s1" ?s1]
      store_ok_cong [of "resetAutolockTimer t ?s1" ?s1]
    by (simp add: bg_inv_def)
  ultimately show ?thesis
    using ms n m
    by (simp add: handle_message_def handle_set_autolock_def loadMeta_def saveMeta_def Let_def)
next
  case False
  then have "ms = None \<or> (\<exists>n. ms = Some n \<and> n < 60000) \<or>
             (\<exists>n. ms = Some n \<and> 60000 \<le> n \<and> local_meta s = None)"
    by (cases ms) auto
  then show ?thesis
    using assms
    by (elim disjE exE conjE) (simp_all add: handle_message_def handle_set_autolock_def loadMeta_def)
qed

lemma handle_message_inv:
  assumes "bg_inv s"
  shows "bg_inv (fst (handle_message e msg s))"
proof (cases msg)
  case STATUS
  then show ?thesis
    using restoreIfLocked_inv [OF assms] by (simp add: handle_status)
next
  case (UNLOCK pw)
  then show ?thesis using unlock_inv [OF assms] by simp
next
  case LOCK
  then show ?thesis using lockVault_inv [OF assms] by (simp add: handle_message_def)
next
  case (GET_CREDENTIALS_FOR_ORIGIN org)
  then show ?thesis
    using assms by (simp add: handle_get_inv bg_resume_inv split: option.split)
next
  case (SAVE_CREDENTIAL c)
  then show ?thesis
    using assms by (auto simp: handle_save_inv intro: crud_write_inv vault_upsert_wf
        split: option.split)
next
  case LIST_CREDENTIALS
  then show ?thesis
    using assms by (simp add: handle_list_inv bg_resume_inv split: option.split)
next
  case (DELETE_CREDENTIAL i)
  then show ?thesis
    using assms by (auto simp: handle_delete_inv intro: crud_write_inv vault_delete_wf
        split: option.split)
next
  case (GENERATE_PASSWORD opts)
  then show ?thesis using assms by (simp add: handle_message_def)
next
  case (SET_AUTOLOCK ms)
  then show ?thesis using set_autolock_inv [OF assms] by simp
next
  case UNKNOWN_MESSAGE
  then show ?thesis using assms by (simp add: handle_message_def)
qed

lemma bg_trans_inv: "bg_trans s ev s' \<Longrightarrow> bg_inv s \<Longrightarrow> bg_inv s'"
proof (induction rule: bg_trans.induct)
  case (msg s e m)
  then show ?case by (rule handle_message_inv)
next
  case (alarm e s)
  then show ?case using fire_alarm_inv by blast
next
  case (restart s)
  then show ?case by (rule worker_restart_inv)
next
  case (installed s e)
  then have "bg_inv (unlock_state e s)" by (rule unlock_state_inv)
  moreover have "onInstalled e s = unlock_state e s"
    using installed by (simp add: onInstalled_def ensureInit_inv bg_inv_def)
  ultimately show ?case by simp
qed

lemma bg_reachable_inv: "bg_reachable s \<Longrightarrow> bg_inv s"
  by (induction rule: bg_reachable.induct) (auto intro: bg_inv_init bg_trans_inv)

end
