(* ===== verification/Session_Props.thy ===== *)
theory Session_Props
  imports Session
begin

text \<open>
  The properties of the session controller of \<open>background.js\<close>, from the invariant of
  \<open>Session\<close>: what the reachable states satisfy, that unlocking accepts exactly the
  master password, what the first unlock creates, when a vault operation can fail,
  that saving and deleting are seen by the next listing through the encrypted store,
  that origin queries are exact, and that every vault operation re-arms the timer.
  Each property has a witness on sample states built by the worker's own handlers.
\<close>

section \<open>Vocabulary and sample states\<close>

text \<open>The vault operations of the message listener.\<close>

fun crud_msg :: "bg_msg \<Rightarrow> bool" where
  "crud_msg (GET_CREDENTIALS_FOR_ORIGIN _) = True"
| "crud_msg (SAVE_CREDENTIAL _) = True"
| "crud_msg LIST_CREDENTIALS = True"
| "crud_msg (DELETE_CREDENTIAL _) = True"
| "crud_msg _ = False"

definition demo_env :: "timestamp \<Rightarrow> bg_env" where
  "demo_env t = \<lparr>env_now = t, env_salt_rnd = (\<lambda>i. of_nat (i + 1)),
     env_iv_rnd = (\<lambda>i. of_nat (i + t)), env_gen_rnd = (\<lambda>i. of_nat i)\<rparr>"

definition demo_unlocked :: bg_state where
  "demo_unlocked = fst (handle_message (demo_env 1000) (UNLOCK ''correct horse'') bg_init)"

definition demo_two_sites :: bg_state where
  "demo_two_sites =
     fst (handle_message (demo_env 3000)
            (SAVE_CREDENTIAL (sample_cred ''b'' ''https://b.example'' ''pb''))
          (fst (handle_message (demo_env 2000)
                  (SAVE_CREDENTIAL (sample_cred ''a'' ''https://a.example'' ''pa'')) demo_unlocked)))"

section \<open>Helper lemmas\<close>

lemma meta_key_eq_iff:
  assumes "record_ok m r" and "meta_ok m"
  shows "meta_key pw m = ct_key (enc_ct r) \<longleftrightarrow>
         (case ct_key (enc_ct r) of Pbkdf2Key pw' _ _ \<Rightarrow> pw' = pw | _ \<Rightarrow> False)"
proof -
  obtain salt where salt: "base64ToBytes (meta_saltB64 m) = Some salt"
    using meta_salt [OF assms(2)] by blast
  from assms(1) have "key_of_meta m (ct_key (enc_ct r))" by (simp add: record_ok_def)
  with salt show ?thesis
    by (cases "ct_key (enc_ct r)") (auto simp: key_of_meta_def meta_key_def)
qed

lemma unlock_existing:
  assumes "bg_inv s" and "idb_vault s = Some r" and "local_meta s = Some m"
  shows "handle_message e (UNLOCK pw) s =
           (if vault_master s = Some pw
            then (unlock_commit e (ct_key (enc_ct r)) (s\<lparr>autolockMs := meta_autolockMs m\<rparr>), RespOk)
            else (s\<lparr>autolockMs := meta_autolockMs m\<rparr>, RespError EInvalidMaster))"
proof -
  have ok: "meta_ok m" and rec: "record_ok m r"
    using assms by (auto simp: bg_inv_def store_ok_def)
  have us: "unlock_state e s = s\<lparr>autolockMs := meta_autolockMs m\<rparr>"
    using assms(3) by (simp add: unlock_state_def)
  have "local_meta (unlock_state e s) = Some m" using assms(3) us by simp
  note closed = handle_unlock_inv [OF assms(1) this ok, of pw]
  have "meta_key pw m = ct_key (enc_ct r) \<longleftrightarrow> vault_master s = Some pw"
    using meta_key_eq_iff [OF rec ok] assms(2)
    by (simp add: vault_master_def split: crypto_key.split)
  then show ?thesis
    using closed assms(2) us by (auto simp: Let_def)
qed

lemma unlock_first_use:
  assumes "bg_inv s" and "idb_vault s = None"
  obtains m where "local_meta (unlock_state e s) = Some m" and "meta_ok m"
    and "handle_message e (UNLOCK pw) s =
           (unlock_commit e (meta_key pw m)
              (idbSet (seal (meta_key pw m) (env_iv_rnd e) empty_vault) (unlock_state e s)), RespOk)"
proof -
  obtain m where m: "local_meta (unlock_state e s) = Some m" and ok: "meta_ok m"
    using unlock_state_meta [OF assms(1)] by blast
  then show ?thesis
    using that handle_unlock_inv [OF assms(1) m ok, of pw] assms(2) by (simp add: Let_def)
qed

lemma store_of_meta:
  assumes "bg_inv s" and "idb_vault s = Some r"
  obtains m where "local_meta s = Some m" and "meta_ok m" and "record_ok m r"
  using assms by (auto simp: bg_inv_def store_ok_def split: option.splits)

lemma vault_plain_seal [simp]: "vault_plain (idbSet (seal k rnd d) s) = d"
  by (simp add: vault_plain_def idbSet_def seal_def)

lemma session_seal [simp]:
  "session_jwk (idbSet r s) = session_jwk s" "derivedKey (idbSet r s) = derivedKey s"
  "autolockMs (idbSet r s) = autolockMs s" "autolock_alarm (idbSet r s) = autolock_alarm s"
  "unlockedAt (idbSet r s) = unlockedAt s"
  by (simp_all add: idbSet_def)

lemma reach_msg: "bg_reachable s \<Longrightarrow> bg_reachable (fst (handle_message e m s))"
  by (rule bg_reachable.step [OF _ bg_trans.msg])

lemma demo_unlocked_reachable: "bg_reachable demo_unlocked"
  unfolding demo_unlocked_def by (rule reach_msg [OF bg_reachable.init])

lemma demo_two_sites_reachable: "bg_reachable demo_two_sites"
  unfolding demo_two_sites_def by (intro reach_msg demo_unlocked_reachable)

lemmas demo_evals = demo_unlocked_def demo_env_def handle_message_def handle_unlock_def
  bg_init_def ensureInit_def deriveKeyFromMeta_def unlock_check_def encryptJSON_key
  bytesToBase64_Some base64ToBytes_b64_encode resetAutolockTimer_def es_bind_apply
  loadMeta_def saveMeta_def idbGet_def idbSet_def deriveKeyPBKDF2_def

lemma demo_unlocked_facts:
  "vault_master demo_unlocked = Some ''correct horse''"
  "session_jwk demo_unlocked \<noteq> None"
  "idb_vault demo_unlocked \<noteq> None"
  "vault_plain demo_unlocked = empty_vault"
  by (simp_all add: demo_evals vault_master_def vault_plain_def empty_vault_def)


lemma unlock_commit_fields [simp]:
  "derivedKey (unlock_commit e k s) = Some k" "session_jwk (unlock_commit e k s) = Some k"
  "idb_vault (unlock_commit e k s) = idb_vault s" "local_meta (unlock_commit e k s) = local_meta s"
  "vault_plain (unlock_commit e k s) = vault_plain s"
  by (simp_all add: unlock_commit_def bg_resume_def resetAutolockTimer_def vault_plain_def)

lemma vault_master_frame [simp]:
  "vault_master (unlock_commit e k s) = vault_master s"
  "vault_master (idbSet (seal k rnd d) s) =
     (case k of Pbkdf2Key pw _ _ \<Rightarrow> Some pw | GeneratedKey _ \<Rightarrow> None)"
  by (simp_all add: vault_master_def unlock_commit_def bg_resume_def resetAutolockTimer_def
      idbSet_def seal_def)

lemma bg_resume_timer [simp]:
  "autolock_alarm (bg_resume e k s) = Some (env_now e + nat (autolock_minutes (autolockMs s)) * 60000)"
  "unlockedAt (bg_resume e k s) = env_now e"
  by (simp_all add: bg_resume_def resetAutolockTimer_def)

lemma write_effect:
  assumes "bg_inv s" and "session_jwk s = Some k"
  shows "session_jwk (fst (handle_message e (SAVE_CREDENTIAL c) s)) = Some k"
    "vault_plain (fst (handle_message e (SAVE_CREDENTIAL c) s)) = vault_upsert c (vault_plain s)"
    "session_jwk (fst (handle_message e (DELETE_CREDENTIAL i) s)) = Some k"
    "vault_plain (fst (handle_message e (DELETE_CREDENTIAL i) s)) = vault_delete i (vault_plain s)"
  using assms by (simp_all add: handle_save_inv handle_delete_inv)

lemma key_opens_decrypt:
  assumes "bg_inv s" and "key_opens s k"
  shows "\<exists>r. idb_vault s = Some r \<and> decryptJSON (Some r) k = Inr (ct_plain (enc_ct r)) \<and>
             vault_wf (ct_plain (enc_ct r))"
proof -
  from assms(2) obtain r where r: "idb_vault s = Some r" and k: "k = ct_key (enc_ct r)"
    by (auto simp: key_opens_def split: option.splits)
  obtain m where "record_ok m r" using store_of_meta [OF assms(1) r] by blast
  with r k show ?thesis by (auto simp: record_ok_def decryptJSON_record)
qed

lemma demo_two_sites_facts:
  "session_jwk demo_two_sites = session_jwk demo_unlocked"
  "vault_plain demo_two_sites =
     vault_upsert (sample_cred ''b'' ''https://b.example'' ''pb'')
       (vault_upsert (sample_cred ''a'' ''https://a.example'' ''pa'') empty_vault)"
proof -
  obtain k where k: "session_jwk demo_unlocked = Some k" using demo_unlocked_facts(2) by blast
  let ?s1 = "fst (handle_message (demo_env 2000)
                (SAVE_CREDENTIAL (sample_cred ''a'' ''https://a.example'' ''pa'')) demo_unlocked)"
  have inv0: "bg_inv demo_unlocked" by (rule bg_reachable_inv [OF demo_unlocked_reachable])
  have inv1: "bg_inv ?s1" by (intro bg_reachable_inv reach_msg demo_unlocked_reachable)
  note e1 = write_effect [OF inv0 k]
  note e2 = write_effect [OF inv1 e1(1)]
  show "session_jwk demo_two_sites = session_jwk demo_unlocked"
    "vault_plain demo_two_sites =
     vault_upsert (sample_cred ''b'' ''https://b.example'' ''pb'')
       (vault_upsert (sample_cred ''a'' ''https://a.example'' ''pa'') empty_vault)"
    unfolding demo_two_sites_def using e1 e2 k demo_unlocked_facts(4) by simp_all
qed

text \<open>C1: Every key the worker holds in memory or in the session export opens the
  stored vault: the vault record exists, decrypts under the key, and holds a vault
  with distinct credential ids.\<close>

theorem reachable_keys_open_vault:
  assumes "bg_reachable s" and "k \<in> set_option (derivedKey s) \<union> set_option (session_jwk s)"
  shows "\<exists>r. idb_vault s = Some r \<and> decryptJSON (Some r) k = Inr (ct_plain (enc_ct r)) \<and>
             vault_wf (ct_plain (enc_ct r))"
proof -
  have inv: "bg_inv s" using bg_reachable_inv [OF assms(1)] .
  then have "key_opens s k" using assms(2) by (auto simp: bg_inv_def)
  with inv show ?thesis by (rule key_opens_decrypt)
qed

theorem reachable_keys_open_vault_witness:
  "bg_reachable demo_unlocked \<and>
   decryptJSON (idb_vault demo_unlocked) (the (session_jwk demo_unlocked)) = Inr empty_vault"
proof -
  obtain k where k: "session_jwk demo_unlocked = Some k" using demo_unlocked_facts(2) by blast
  have "k \<in> set_option (derivedKey demo_unlocked) \<union> set_option (session_jwk demo_unlocked)"
    using k by simp
  from reachable_keys_open_vault [OF demo_unlocked_reachable this]
  obtain r where "idb_vault demo_unlocked = Some r" "decryptJSON (Some r) k = Inr (ct_plain (enc_ct r))"
    by blast
  then show ?thesis
    using k demo_unlocked_facts(4) demo_unlocked_reachable by (simp add: vault_plain_def)
qed

text \<open>C3: Once a vault exists, \<open>UNLOCK\<close> succeeds exactly when the password is the
  master password, the one the stored vault's key was derived from.\<close>

theorem unlock_accepts_exactly_master:
  assumes "bg_reachable s" and "idb_vault s \<noteq> None"
  shows "snd (handle_message e (UNLOCK pw) s) = RespOk \<longleftrightarrow> vault_master s = Some pw"
proof -
  have inv: "bg_inv s" using bg_reachable_inv [OF assms(1)] .
  obtain r where r: "idb_vault s = Some r" using assms(2) by blast
  obtain m where m: "local_meta s = Some m" using store_of_meta [OF inv r] by blast
  show ?thesis using unlock_existing [OF inv r m, of e pw] by simp
qed

theorem unlock_accepts_exactly_master_witness:
  "bg_reachable demo_unlocked \<and> idb_vault demo_unlocked \<noteq> None \<and>
   snd (handle_message (demo_env 5000) (UNLOCK ''correct horse'') demo_unlocked) = RespOk \<and>
   snd (handle_message (demo_env 5000) (UNLOCK ''guess'') demo_unlocked) \<noteq> RespOk"
  using unlock_accepts_exactly_master [OF demo_unlocked_reachable demo_unlocked_facts(3)]
    demo_unlocked_reachable demo_unlocked_facts(1,3) by simp

text \<open>C4: A wrong password changes nothing but the duration adopted from the
  metadata: the key in memory, the session export, the store and the timer are kept and
  the answer is \<open>Invalid master password\<close>.\<close>

theorem unlock_wrong_password_keeps_state:
  assumes "bg_reachable s" and "idb_vault s \<noteq> None" and "vault_master s \<noteq> Some pw"
  shows "\<exists>m. local_meta s = Some m \<and>
             handle_message e (UNLOCK pw) s =
               (s\<lparr>autolockMs := meta_autolockMs m\<rparr>, RespError EInvalidMaster)"
proof -
  have inv: "bg_inv s" using bg_reachable_inv [OF assms(1)] .
  obtain r where r: "idb_vault s = Some r" using assms(2) by blast
  obtain m where m: "local_meta s = Some m" using store_of_meta [OF inv r] by blast
  show ?thesis using unlock_existing [OF inv r m, of e pw] m assms(3) by simp
qed

theorem unlock_wrong_password_keeps_state_witness:
  "bg_reachable demo_unlocked \<and> idb_vault demo_unlocked \<noteq> None \<and>
   vault_master demo_unlocked \<noteq> Some ''guess'' \<and>
   snd (handle_message (demo_env 5000) (UNLOCK ''guess'') demo_unlocked) = RespError EInvalidMaster \<and>
   session_jwk (fst (handle_message (demo_env 5000) (UNLOCK ''guess'') demo_unlocked)) =
     session_jwk demo_unlocked"
proof -
  have ne: "vault_master demo_unlocked \<noteq> Some ''guess''" using demo_unlocked_facts(1) by simp
  obtain m :: bg_meta where "handle_message (demo_env 5000) (UNLOCK ''guess'') demo_unlocked =
      (demo_unlocked\<lparr>autolockMs := meta_autolockMs m\<rparr>, RespError EInvalidMaster)"
    using unlock_wrong_password_keeps_state [OF demo_unlocked_reachable demo_unlocked_facts(3) ne]
    by blast
  then show ?thesis using ne demo_unlocked_reachable demo_unlocked_facts(3) by simp
qed

text \<open>C5: The first unlock, on a worker without a vault, defines the master password:
  it succeeds for any password, stores the empty vault sealed under the key derived
  from it, and holds and exports that key.\<close>

theorem first_unlock_sets_master:
  assumes "bg_reachable s" and "idb_vault s = None"
  shows "snd (handle_message e (UNLOCK pw) s) = RespOk \<and>
         vault_master (fst (handle_message e (UNLOCK pw) s)) = Some pw \<and>
         vault_plain (fst (handle_message e (UNLOCK pw) s)) = empty_vault \<and>
         derivedKey (fst (handle_message e (UNLOCK pw) s)) \<noteq> None \<and>
         session_jwk (fst (handle_message e (UNLOCK pw) s)) =
           derivedKey (fst (handle_message e (UNLOCK pw) s))"
proof -
  have inv: "bg_inv s" using bg_reachable_inv [OF assms(1)] .
  obtain m where "handle_message e (UNLOCK pw) s =
           (unlock_commit e (meta_key pw m)
              (idbSet (seal (meta_key pw m) (env_iv_rnd e) empty_vault) (unlock_state e s)), RespOk)"
    using unlock_first_use [OF inv assms(2)] by blast
  then show ?thesis by (simp add: meta_key_def)
qed

theorem first_unlock_sets_master_witness:
  "bg_reachable bg_init \<and> idb_vault bg_init = None \<and>
   vault_master (fst (handle_message (demo_env 1000) (UNLOCK ''correct horse'') bg_init)) =
     Some ''correct horse''"
  using first_unlock_sets_master [OF bg_reachable.init, of "demo_env 1000" "''correct horse''"]
    bg_reachable.init by (simp add: bg_init_def)


text \<open>C6: A vault operation fails only when the worker is locked: with no key to
  resume from the session export it answers \<open>Locked\<close> and changes nothing; with one it
  never answers an error (no decryption or lock error can occur).\<close>

theorem crud_fails_only_when_locked:
  assumes "bg_reachable s" and "crud_msg msg"
  shows "(session_jwk s = None \<longrightarrow> handle_message e msg s = (s, RespError ELocked)) \<and>
         (session_jwk s \<noteq> None \<longrightarrow> (\<forall>err. snd (handle_message e msg s) \<noteq> RespError err))"
proof -
  have inv: "bg_inv s" using bg_reachable_inv [OF assms(1)] .
  show ?thesis
    using assms(2)
    by (cases msg)
       (auto simp: handle_list_inv [OF inv] handle_get_inv [OF inv] handle_save_inv [OF inv]
         handle_delete_inv [OF inv] split: option.split)
qed

theorem crud_fails_only_when_locked_witness:
  "bg_reachable bg_init \<and> crud_msg LIST_CREDENTIALS \<and>
   handle_message (demo_env 0) LIST_CREDENTIALS bg_init = (bg_init, RespError ELocked) \<and>
   bg_reachable demo_unlocked \<and>
   snd (handle_message (demo_env 2000) LIST_CREDENTIALS demo_unlocked) \<noteq> RespError ELocked"
proof -
  have l: "crud_msg LIST_CREDENTIALS" by simp
  note a = crud_fails_only_when_locked [OF bg_reachable.init l, where e = "demo_env 0"]
  note b = crud_fails_only_when_locked [OF demo_unlocked_reachable l, where e = "demo_env 2000"]
  show ?thesis
    using a b demo_unlocked_facts(2) bg_reachable.init demo_unlocked_reachable
    by (simp add: bg_init_def)
qed

text \<open>C8: Writes are seen by the next read through the encrypted store: after
  \<open>SAVE_CREDENTIAL c\<close> (resp. \<open>DELETE_CREDENTIAL i\<close>) on an unlocked worker,
  \<open>LIST_CREDENTIALS\<close> returns the credentials of the upserted (resp. filtered) vault.\<close>

theorem write_then_list:
  assumes "bg_reachable s" and "session_jwk s \<noteq> None"
  shows "snd (handle_message e2 LIST_CREDENTIALS (fst (handle_message e1 (SAVE_CREDENTIAL c) s))) =
           RespCreds (creds (vault_upsert c (vault_plain s))) \<and>
         snd (handle_message e2 LIST_CREDENTIALS (fst (handle_message e1 (DELETE_CREDENTIAL i) s))) =
           RespCreds (creds (vault_delete i (vault_plain s)))"
proof -
  have inv: "bg_inv s" using bg_reachable_inv [OF assms(1)] .
  obtain k where k: "session_jwk s = Some k" using assms(2) by blast
  have inv1: "bg_inv (fst (handle_message e1 (SAVE_CREDENTIAL c) s))"
    and inv2: "bg_inv (fst (handle_message e1 (DELETE_CREDENTIAL i) s))"
    by (intro bg_reachable_inv reach_msg assms(1))+
  show ?thesis
    using write_effect [OF inv k]
    by (simp add: handle_list_inv [OF inv1] handle_list_inv [OF inv2])
qed

theorem write_then_list_witness:
  "bg_reachable demo_unlocked \<and> session_jwk demo_unlocked \<noteq> None \<and>
   snd (handle_message (demo_env 3000) LIST_CREDENTIALS
          (fst (handle_message (demo_env 2000)
                 (SAVE_CREDENTIAL (sample_cred ''a'' ''https://a.example'' ''pa'')) demo_unlocked))) =
     RespCreds [sample_cred ''a'' ''https://a.example'' ''pa'']"
  using write_then_list [OF demo_unlocked_reachable demo_unlocked_facts(2),
      of "demo_env 3000" "demo_env 2000" "sample_cred ''a'' ''https://a.example'' ''pa''"]
    demo_unlocked_reachable demo_unlocked_facts(2,4)
  by (simp add: vault_upsert_def empty_vault_def)

text \<open>C7: Origin queries are exact: \<open>GET_CREDENTIALS_FOR_ORIGIN org\<close> answers only on an
  unlocked worker, and then with exactly the stored credentials whose origin list
  contains \<open>org\<close>, in vault order.\<close>

theorem get_for_origin_scoped:
  assumes "bg_reachable s"
    and "snd (handle_message e (GET_CREDENTIALS_FOR_ORIGIN org) s) = RespCreds cs"
  shows "session_jwk s \<noteq> None \<and> cs = creds_for_origin org (vault_plain s) \<and>
         (\<forall>c\<in>set cs. org \<in> set (cred_origins c) \<and> c \<in> set (creds (vault_plain s)))"
proof -
  have inv: "bg_inv s" using bg_reachable_inv [OF assms(1)] .
  show ?thesis
    using assms(2) by (auto simp: handle_get_inv [OF inv] creds_for_origin_def split: option.splits)
qed

theorem get_for_origin_scoped_witness:
  "bg_reachable demo_two_sites \<and>
   snd (handle_message (demo_env 4000) (GET_CREDENTIALS_FOR_ORIGIN ''https://a.example'')
          demo_two_sites) = RespCreds [sample_cred ''a'' ''https://a.example'' ''pa'']"
proof -
  have inv: "bg_inv demo_two_sites" by (rule bg_reachable_inv [OF demo_two_sites_reachable])
  let ?cs = "[sample_cred ''a'' ''https://a.example'' ''pa'']"
  have r: "snd (handle_message (demo_env 4000) (GET_CREDENTIALS_FOR_ORIGIN ''https://a.example'')
          demo_two_sites) = RespCreds ?cs"
    using demo_two_sites_facts demo_unlocked_facts(2)
    by (auto simp: handle_get_inv [OF inv] creds_for_origin_def vault_upsert_def empty_vault_def
        sample_cred_def split: option.split)
  have "session_jwk demo_two_sites \<noteq> None \<and>
        ?cs = creds_for_origin ''https://a.example'' (vault_plain demo_two_sites)"
    using get_for_origin_scoped [OF demo_two_sites_reachable r] by blast
  then show ?thesis using r demo_two_sites_reachable by simp
qed

text \<open>C10: Every vault operation on an unlocked worker slides the auto-lock window: it
  resumes the key and re-arms the alarm to the current time plus the duration rounded
  to whole minutes (at least one).\<close>

theorem crud_rearms_autolock:
  assumes "bg_reachable s" and "crud_msg msg" and "session_jwk s \<noteq> None"
  shows "autolock_alarm (fst (handle_message e msg s)) =
           Some (env_now e + nat (autolock_minutes (autolockMs s)) * 60000) \<and>
         unlockedAt (fst (handle_message e msg s)) = env_now e \<and>
         derivedKey (fst (handle_message e msg s)) = session_jwk s"
proof -
  have inv: "bg_inv s" using bg_reachable_inv [OF assms(1)] .
  obtain k where k: "session_jwk s = Some k" using assms(3) by blast
  show ?thesis
    using assms(2) k
    by (cases msg)
       (simp_all add: handle_list_inv [OF inv] handle_get_inv [OF inv] handle_save_inv [OF inv]
         handle_delete_inv [OF inv])
qed

theorem crud_rearms_autolock_witness:
  "bg_reachable demo_unlocked \<and> crud_msg LIST_CREDENTIALS \<and> session_jwk demo_unlocked \<noteq> None \<and>
   autolock_alarm (fst (handle_message (demo_env 2000) LIST_CREDENTIALS demo_unlocked)) =
     Some 302000"
proof -
  have l: "crud_msg LIST_CREDENTIALS" by simp
  have ms: "autolockMs demo_unlocked = 300000"
    by (simp add: demo_evals)
  show ?thesis
    using crud_rearms_autolock [OF demo_unlocked_reachable l demo_unlocked_facts(2), where e = "demo_env 2000"]
      demo_unlocked_reachable demo_unlocked_facts(2) ms
    by (simp add: demo_env_def autolock_minutes_def js_round_minutes_def)
qed

end
