(* ===== verification/Autolock.thy ===== *)
theory Autolock
  imports Session_Props
begin

text \<open>
  The auto-lock timer of \<open>background.js\<close> and its interplay with worker restarts:
  the rounding of the duration to whole minutes (\<open>resetAutolockTimer\<close>), the lock on
  expiry (\<open>onAlarm\<close>), the explicit \<open>LOCK\<close>, the \<open>STATUS\<close> query, the configuration
  message \<open>SET_AUTOLOCK\<close> with its floor, and the behaviour after the browser restarts
  the service worker: a vault operation resumes from the session export, and an alarm
  that fires in a restarted worker does not lock. Every reachable state holding a key
  has an armed alarm, whose firing locks (liveness).
\<close>

section \<open>Helper lemmas\<close>

inductive_cases bg_trans_alarmE: "bg_trans s (AlarmFire e) s'"

lemma js_round_minutes_bounds:
  "js_round_minutes x * 60000 \<le> x + 30000" "x + 30000 < js_round_minutes x * 60000 + 60000"
  unfolding js_round_minutes_def
  using div_mult_mod_eq [of "x + 30000" 60000] pos_mod_bound [of 60000 "x + 30000"]
    pos_mod_sign [of 60000 "x + 30000"]
  by linarith+

lemma autolock_minutes_floor: "60000 \<le> ms \<Longrightarrow> autolock_minutes ms = js_round_minutes ms"
  using js_round_minutes_bounds(2) [of ms] by (simp add: autolock_minutes_def max_def)

lemma autolock_minutes_default: "autolock_minutes 300000 = 5"
  by (simp add: autolock_minutes_def js_round_minutes_def)

lemma worker_restart_fields [simp]:
  "derivedKey (worker_restart s) = None" "session_jwk (worker_restart s) = session_jwk s"
  "idb_vault (worker_restart s) = idb_vault s" "local_meta (worker_restart s) = local_meta s"
  "autolockMs (worker_restart s) = 300000" "autolock_alarm (worker_restart s) = autolock_alarm s"
  "vault_plain (worker_restart s) = vault_plain s"
  by (simp_all add: worker_restart_def vault_plain_def)

lemma fire_alarm_restarted: "fire_alarm (worker_restart s) = (worker_restart s)\<lparr>autolock_alarm := None\<rparr>"
  by (simp add: fire_alarm_def onAlarm_def worker_restart_def)

lemma fire_alarm_live:
  "derivedKey s \<noteq> None \<Longrightarrow> fire_alarm s = lockVault (s\<lparr>autolock_alarm := None\<rparr>)"
  by (simp add: fire_alarm_def onAlarm_def)

lemma lockVault_fields [simp]:
  "derivedKey (lockVault s) = None" "session_jwk (lockVault s) = None"
  "idb_vault (lockVault s) = idb_vault s" "autolock_alarm (lockVault s) = autolock_alarm s"
  by (simp_all add: lockVault_def)

lemma reachable_restart: "bg_reachable s \<Longrightarrow> bg_reachable (worker_restart s)"
  by (rule bg_reachable.step [OF _ bg_trans.restart])

lemma demo_unlocked_alarm: "autolock_alarm demo_unlocked = Some 301000"
  by (simp add: demo_evals autolock_minutes_default)

lemma demo_unlocked_live: "derivedKey demo_unlocked = session_jwk demo_unlocked"
  by (simp add: demo_evals)

text \<open>Rounding of the auto-lock duration: for every configured duration of at least
  one minute the alarm delay is at least one minute and within 30 seconds of the
  duration (\<open>Math.round\<close> to whole minutes).\<close>

theorem autolock_delay_bounds:
  assumes "60000 \<le> ms"
  shows "1 \<le> autolock_minutes ms \<and> \<bar>autolock_minutes ms * 60000 - ms\<bar> \<le> 30000"
  using js_round_minutes_bounds [of ms] autolock_minutes_floor [OF assms] assms
  unfolding abs_le_iff by linarith

theorem autolock_delay_bounds_witness:
  "60000 \<le> (90000::int) \<and> autolock_minutes 90000 * 60000 = 120000"
  using autolock_delay_bounds [of 90000]
  by (simp add: autolock_minutes_def js_round_minutes_def)

text \<open>C11: The alarm locks a live worker: when the \<open>autolock\<close> alarm fires while a key is
  in memory, the key and its session export are discarded, the store is kept, and the
  next vault operation answers \<open>Locked\<close>.\<close>

theorem alarm_locks_live_worker:
  assumes "bg_reachable s" and "derivedKey s \<noteq> None" and "bg_trans s (AlarmFire e) s'"
  shows "derivedKey s' = None \<and> session_jwk s' = None \<and> idb_vault s' = idb_vault s \<and>
         handle_message e' LIST_CREDENTIALS s' = (s', RespError ELocked)"
proof -
  have s': "s' = fire_alarm s" using assms(3) by (rule bg_trans_alarmE) simp
  have "bg_inv s'" using bg_reachable_inv [OF bg_reachable.step [OF assms(1,3)]] .
  then show ?thesis
    using s' assms(2) by (simp add: fire_alarm_live handle_list_inv)
qed

theorem alarm_locks_live_worker_witness:
  "bg_reachable demo_unlocked \<and> derivedKey demo_unlocked \<noteq> None \<and>
   bg_trans demo_unlocked (AlarmFire (demo_env 301000)) (fire_alarm demo_unlocked) \<and>
   snd (handle_message (demo_env 302000) LIST_CREDENTIALS (fire_alarm demo_unlocked)) =
     RespError ELocked"
proof -
  have due: "alarm_due (demo_env 301000) demo_unlocked"
    by (simp add: alarm_due_def demo_unlocked_alarm demo_env_def)
  have tr: "bg_trans demo_unlocked (AlarmFire (demo_env 301000)) (fire_alarm demo_unlocked)"
    by (rule bg_trans.alarm [OF due])
  have live: "derivedKey demo_unlocked \<noteq> None"
    using demo_unlocked_facts(2) demo_unlocked_live by simp
  show ?thesis
    using alarm_locks_live_worker [OF demo_unlocked_reachable live tr] demo_unlocked_reachable
      live tr by simp
qed

text \<open>C12: An alarm that fires in a restarted worker does not lock: after the browser
  restarts the service worker, the due \<open>autolock\<close> alarm finds no key in memory, so the
  session export survives and the next vault operation is served from it.\<close>

theorem alarm_after_restart_keeps_session:
  assumes "bg_reachable s" and "session_jwk s = Some k" and "alarm_due e s"
  shows "bg_trans s Restart (worker_restart s) \<and>
         bg_trans (worker_restart s) (AlarmFire e) (fire_alarm (worker_restart s)) \<and>
         session_jwk (fire_alarm (worker_restart s)) = Some k \<and>
         snd (handle_message e' LIST_CREDENTIALS (fire_alarm (worker_restart s))) =
           RespCreds (creds (vault_plain s))"
proof -
  have due: "alarm_due e (worker_restart s)"
    using assms(3) by (simp add: alarm_due_def)
  have "bg_inv (fire_alarm (worker_restart s))"
    using bg_reachable_inv [OF bg_reachable.step [OF reachable_restart [OF assms(1)]
          bg_trans.alarm [OF due]]] .
  then show ?thesis
    using assms(2) bg_trans.restart [of s] bg_trans.alarm [OF due]
    by (simp add: handle_list_inv fire_alarm_restarted vault_plain_def)
qed

theorem alarm_after_restart_keeps_session_witness:
  "bg_reachable demo_unlocked \<and> session_jwk demo_unlocked \<noteq> None \<and>
   alarm_due (demo_env 400000) demo_unlocked \<and>
   snd (handle_message (demo_env 400001) LIST_CREDENTIALS
          (fire_alarm (worker_restart demo_unlocked))) = RespCreds []"
proof -
  obtain k where k: "session_jwk demo_unlocked = Some k" using demo_unlocked_facts(2) by blast
  have due: "alarm_due (demo_env 400000) demo_unlocked"
    by (simp add: alarm_due_def demo_unlocked_alarm demo_env_def)
  show ?thesis
    using alarm_after_restart_keeps_session [OF demo_unlocked_reachable k due]
      demo_unlocked_reachable k due demo_unlocked_facts(4)
    by (simp add: empty_vault_def)
qed

text \<open>C15: Resume after a restart: after the browser restarts the service worker, a
  vault operation succeeds without the password, with the key of the session export,
  and re-arms the alarm, with the default duration of five minutes: the configured
  duration of the metadata is not read back by the restarted worker.\<close>

theorem resume_after_restart:
  assumes "bg_reachable s" and "session_jwk s = Some k" and "crud_msg msg"
  shows "derivedKey (fst (handle_message e msg (worker_restart s))) = Some k \<and>
         (\<forall>err. snd (handle_message e msg (worker_restart s)) \<noteq> RespError err) \<and>
         autolock_alarm (fst (handle_message e msg (worker_restart s))) =
           Some (env_now e + 300000)"
proof -
  have inv: "bg_inv (worker_restart s)"
    using bg_reachable_inv [OF reachable_restart [OF assms(1)]] .
  have k: "session_jwk (worker_restart s) = Some k" using assms(2) by simp
  show ?thesis
    using assms(3) k
    by (cases msg)
       (simp_all add: handle_list_inv [OF inv] handle_get_inv [OF inv] handle_save_inv [OF inv]
         handle_delete_inv [OF inv] autolock_minutes_default)
qed

theorem resume_after_restart_witness:
  "bg_reachable demo_unlocked \<and> session_jwk demo_unlocked \<noteq> None \<and>
   crud_msg LIST_CREDENTIALS \<and>
   snd (handle_message (demo_env 9000) LIST_CREDENTIALS (worker_restart demo_unlocked)) =
     RespCreds [] \<and>
   autolock_alarm (fst (handle_message (demo_env 9000) LIST_CREDENTIALS
                     (worker_restart demo_unlocked))) = Some 309000"
proof -
  obtain k where k: "session_jwk demo_unlocked = Some k" using demo_unlocked_facts(2) by blast
  have l: "crud_msg LIST_CREDENTIALS" by simp
  have inv: "bg_inv (worker_restart demo_unlocked)"
    using bg_reachable_inv [OF reachable_restart [OF demo_unlocked_reachable]] .
  have "snd (handle_message (demo_env 9000) LIST_CREDENTIALS (worker_restart demo_unlocked)) =
     RespCreds []"
    using k demo_unlocked_facts(4) by (simp add: handle_list_inv [OF inv] empty_vault_def)
  then show ?thesis
    using resume_after_restart [OF demo_unlocked_reachable k l, where e = "demo_env 9000"]
      demo_unlocked_reachable k by (simp add: demo_env_def)
qed

text \<open>C17: \<open>SET_AUTOLOCK\<close> on every branch: a duration below one minute is rejected with
  no change; otherwise, with metadata present, the duration is stored in the metadata
  and in memory and, on an unlocked worker, the alarm is re-armed with it; without
  metadata the handler throws (\<open>meta\<close> is \<open>null\<close>) and nothing changes.\<close>

theorem set_autolock_branches:
  "(n < 60000 \<longrightarrow> handle_message e (SET_AUTOLOCK (Some n)) s = (s, RespError EInvalidAutolock)) \<and>
   (60000 \<le> n \<longrightarrow> local_meta s = None \<longrightarrow>
      handle_message e (SET_AUTOLOCK (Some n)) s = (s, RespError EMetaNull)) \<and>
   (60000 \<le> n \<longrightarrow> local_meta s \<noteq> None \<longrightarrow>
      snd (handle_message e (SET_AUTOLOCK (Some n)) s) = RespOk \<and>
      autolockMs (fst (handle_message e (SET_AUTOLOCK (Some n)) s)) = n \<and>
      map_option meta_autolockMs (local_meta (fst (handle_message e (SET_AUTOLOCK (Some n)) s))) =
        Some n \<and>
      autolock_alarm (fst (handle_message e (SET_AUTOLOCK (Some n)) s)) =
        (if derivedKey s = None then autolock_alarm s
         else Some (env_now e + nat (autolock_minutes n) * 60000)))"
  by (auto simp: handle_message_def handle_set_autolock_def loadMeta_def saveMeta_def Let_def
      resetAutolockTimer_def)

theorem set_autolock_branches_witness:
  "handle_message (demo_env 5000) (SET_AUTOLOCK (Some 59999)) demo_unlocked =
     (demo_unlocked, RespError EInvalidAutolock) \<and>
   snd (handle_message (demo_env 5000) (SET_AUTOLOCK (Some 60000)) demo_unlocked) = RespOk \<and>
   autolock_alarm (fst (handle_message (demo_env 5000) (SET_AUTOLOCK (Some 60000)) demo_unlocked)) =
     Some 65000"
proof -
  have m: "local_meta demo_unlocked \<noteq> None" and d: "derivedKey demo_unlocked \<noteq> None"
    using demo_unlocked_facts(2) demo_unlocked_live by (simp_all add: demo_evals)
  show ?thesis
    using set_autolock_branches [where n = 59999 and e = "demo_env 5000" and s = demo_unlocked]
      set_autolock_branches [where n = 60000 and e = "demo_env 5000" and s = demo_unlocked] m d
    by (simp add: demo_env_def autolock_minutes_def js_round_minutes_def)
qed

text \<open>C16: \<open>LOCK\<close> discards the key in memory and its session export, so that the next
  vault operation answers \<open>Locked\<close> even after a restart; the alarm is left armed.\<close>

theorem lock_clears_session:
  assumes "bg_reachable s"
  shows "snd (handle_message e LOCK s) = RespOk \<and>
         derivedKey (fst (handle_message e LOCK s)) = None \<and>
         session_jwk (fst (handle_message e LOCK s)) = None \<and>
         autolock_alarm (fst (handle_message e LOCK s)) = autolock_alarm s \<and>
         snd (handle_message e' LIST_CREDENTIALS (worker_restart (fst (handle_message e LOCK s)))) =
           RespError ELocked"
proof -
  have lock: "handle_message e LOCK s = (lockVault s, RespOk)"
    by (simp add: handle_message_def)
  have "bg_inv (worker_restart (fst (handle_message e LOCK s)))"
    by (intro bg_reachable_inv reachable_restart reach_msg assms)
  then show ?thesis by (simp add: lock handle_list_inv)
qed

theorem lock_clears_session_witness:
  "bg_reachable demo_unlocked \<and>
   snd (handle_message (demo_env 6000) LIST_CREDENTIALS
          (worker_restart (fst (handle_message (demo_env 5000) LOCK demo_unlocked)))) =
     RespError ELocked"
  using lock_clears_session [OF demo_unlocked_reachable] demo_unlocked_reachable by simp

lemma save_keeps_master:
  assumes "bg_inv s" and "session_jwk s \<noteq> None"
  shows "vault_master (fst (handle_message e (SAVE_CREDENTIAL c) s)) = vault_master s"
proof -
  obtain k where k: "session_jwk s = Some k" using assms(2) by blast
  then have "key_opens s k" using assms(1) by (simp add: bg_inv_def)
  then obtain r where "idb_vault s = Some r" "k = ct_key (enc_ct r)"
    by (auto simp: key_opens_def split: option.splits)
  then show ?thesis
    using k by (simp add: handle_save_inv [OF assms(1)]) (simp add: vault_master_def)
qed

text \<open>C14: Locking and unlocking again with the master password gives the vault back:
  after \<open>LOCK\<close>, \<open>UNLOCK\<close> with the password of the stored record succeeds, the record is
  untouched, the key is held again, and \<open>LIST_CREDENTIALS\<close> answers the credentials stored
  before the lock.\<close>

theorem lock_unlock_restores_vault:
  assumes "bg_reachable s" and "vault_master s = Some pw"
  shows "let s1 = fst (handle_message e LOCK s); (s2, r) = handle_message e' (UNLOCK pw) s1
         in r = RespOk \<and> idb_vault s2 = idb_vault s \<and> session_jwk s2 \<noteq> None \<and>
            snd (handle_message e'' LIST_CREDENTIALS s2) = RespCreds (creds (vault_plain s))"
proof -
  let ?s1 = "fst (handle_message e LOCK s)"
  have s1: "?s1 = lockVault s" by (simp add: handle_message_def)
  have r1: "bg_reachable ?s1" by (rule reach_msg [OF assms(1)])
  have inv1: "bg_inv ?s1" using bg_reachable_inv [OF r1] .
  obtain r where r: "idb_vault s = Some r"
    using assms(2) by (auto simp: vault_master_def split: option.splits)
  have r': "idb_vault ?s1 = Some r" using r s1 by simp
  obtain m where m: "local_meta ?s1 = Some m" using store_of_meta [OF inv1 r'] by blast
  have vm: "vault_master ?s1 = Some pw" using assms(2) s1 by (simp add: vault_master_def)
  obtain k where u: "handle_message e' (UNLOCK pw) ?s1 =
      (unlock_commit e' k (?s1\<lparr>autolockMs := meta_autolockMs m\<rparr>), RespOk)"
    using unlock_existing [OF inv1 r' m, of e' pw] vm by simp
  let ?s2 = "unlock_commit e' k (?s1\<lparr>autolockMs := meta_autolockMs m\<rparr>)"
  have inv2: "bg_inv ?s2" using bg_reachable_inv [OF reach_msg [OF r1, of e' "UNLOCK pw"]] u by simp
  have "vault_plain ?s2 = vault_plain s" using s1 by (simp add: vault_plain_def)
  then have "snd (handle_message e'' LIST_CREDENTIALS ?s2) = RespCreds (creds (vault_plain s))"
    by (simp add: handle_list_inv [OF inv2])
  moreover have "idb_vault ?s2 = idb_vault s" using r r' by simp
  ultimately show ?thesis
    using u by (simp add: Let_def)
qed

theorem lock_unlock_restores_vault_witness:
  "snd (handle_message (demo_env 7000) (UNLOCK ''correct horse'')
      (fst (handle_message (demo_env 5000) LOCK demo_two_sites))) = RespOk \<and>
   snd (handle_message (demo_env 8000) LIST_CREDENTIALS
      (fst (handle_message (demo_env 7000) (UNLOCK ''correct horse'')
         (fst (handle_message (demo_env 5000) LOCK demo_two_sites))))) =
     RespCreds (creds (vault_plain demo_two_sites))"
proof -
  have vm: "vault_master demo_two_sites = Some ''correct horse''"
  proof -
    let ?s1 = "fst (handle_message (demo_env 2000)
                  (SAVE_CREDENTIAL (sample_cred ''a'' ''https://a.example'' ''pa'')) demo_unlocked)"
    have inv0: "bg_inv demo_unlocked" by (rule bg_reachable_inv [OF demo_unlocked_reachable])
    have inv1: "bg_inv ?s1" by (intro bg_reachable_inv reach_msg demo_unlocked_reachable)
    have j1: "session_jwk ?s1 \<noteq> None"
      using write_effect(1) [OF inv0] demo_unlocked_facts(2) by fastforce
    show ?thesis
      unfolding demo_two_sites_def
      using save_keeps_master [OF inv1 j1] save_keeps_master [OF inv0 demo_unlocked_facts(2)]
        demo_unlocked_facts(1) by simp
  qed
  show ?thesis
    using lock_unlock_restores_vault [OF demo_two_sites_reachable vm, where e = "demo_env 5000"
        and e' = "demo_env 7000" and e'' = "demo_env 8000"]
    by (simp add: Let_def split: prod.splits)
qed

text \<open>\<open>STATUS\<close> never fails and reports the worker unlocked exactly when a key is
  held or can be resumed from the session export.\<close>

theorem status_reports_session:
  assumes "bg_reachable s"
  shows "snd (handle_message e STATUS s) = RespStatus (session_jwk s \<noteq> None)"
proof -
  have inv: "bg_inv s" using bg_reachable_inv [OF assms] .
  then show ?thesis
    by (auto simp: handle_status restoreIfLocked_eq bg_inv_def split: option.split)
qed

theorem status_reports_session_witness:
  "bg_reachable bg_init \<and> snd (handle_message (demo_env 0) STATUS bg_init) = RespStatus False \<and>
   bg_reachable demo_unlocked \<and>
   snd (handle_message (demo_env 0) STATUS demo_unlocked) = RespStatus True"
  using status_reports_session [OF bg_reachable.init] status_reports_session [OF demo_unlocked_reachable]
    bg_reachable.init demo_unlocked_reachable demo_unlocked_facts(2)
  by (simp add: bg_init_def)

section \<open>Every live key has an armed alarm\<close>

lemma unlock_armed:
  assumes "bg_inv s" and "derivedKey s \<noteq> None \<longrightarrow> autolock_alarm s \<noteq> None"
  shows "derivedKey (fst (handle_message e (UNLOCK pw) s)) \<noteq> None \<longrightarrow>
         autolock_alarm (fst (handle_message e (UNLOCK pw) s)) \<noteq> None"
proof -
  obtain m where m: "local_meta (unlock_state e s) = Some m" and ok: "meta_ok m"
    using unlock_state_meta [OF assms(1)] by blast
  have "autolock_alarm (unlock_state e s) = autolock_alarm s"
    by (simp add: unlock_state_def saveMeta_def split: option.split)
  then show ?thesis
    using assms(2)
    by (simp add: handle_unlock_inv [OF assms(1) m ok] Let_def unlock_commit_def bg_resume_def
        resetAutolockTimer_def idbSet_def split: option.split)
qed

lemma message_armed:
  assumes "bg_inv s" and "derivedKey s \<noteq> None \<longrightarrow> autolock_alarm s \<noteq> None"
  shows "derivedKey (fst (handle_message e msg s)) \<noteq> None \<longrightarrow>
         autolock_alarm (fst (handle_message e msg s)) \<noteq> None"
proof (cases msg)
  case (UNLOCK pw)
  then show ?thesis using unlock_armed [OF assms] by simp
next
  case (SET_AUTOLOCK ms)
  then show ?thesis using assms(2)
    by (auto simp: handle_message_def handle_set_autolock_def loadMeta_def saveMeta_def Let_def
        resetAutolockTimer_def split: option.split)
next
  case STATUS
  then show ?thesis using assms(2) by (auto simp: handle_status restoreIfLocked_eq split: option.split)
next
  case LOCK
  then show ?thesis by (simp add: handle_message_def lockVault_def)
next
  case (GET_CREDENTIALS_FOR_ORIGIN org)
  then show ?thesis using assms(2) by (simp add: handle_get_inv [OF assms(1)] split: option.split)
next
  case LIST_CREDENTIALS
  then show ?thesis using assms(2) by (simp add: handle_list_inv [OF assms(1)] split: option.split)
next
  case (SAVE_CREDENTIAL c)
  then show ?thesis using assms(2) by (simp add: handle_save_inv [OF assms(1)] split: option.split)
next
  case (DELETE_CREDENTIAL i)
  then show ?thesis using assms(2) by (simp add: handle_delete_inv [OF assms(1)] split: option.split)
next
  case (GENERATE_PASSWORD opts)
  then show ?thesis using assms(2) by (simp add: handle_message_def)
next
  case UNKNOWN_MESSAGE
  then show ?thesis using assms(2) by (simp add: handle_message_def)
qed

lemma reachable_armed:
  "bg_reachable s \<Longrightarrow> derivedKey s \<noteq> None \<longrightarrow> autolock_alarm s \<noteq> None"
proof (induction rule: bg_reachable.induct)
  case init
  then show ?case by (simp add: bg_init_def)
next
  case (step s ev s')
  have inv: "bg_inv s" using bg_reachable_inv [OF step.hyps(1)] .
  from step.hyps(2) show ?case
  proof cases
    case (msg e m)
    then show ?thesis using message_armed [OF inv step.IH] by simp
  next
    case (alarm e)
    then show ?thesis by (simp add: fire_alarm_def onAlarm_def lockVault_def)
  next
    case restart
    then show ?thesis by (simp add: worker_restart_def)
  next
    case (installed e)
    then show ?thesis using step.IH inv
      by (simp add: onInstalled_def ensureInit_inv bg_inv_def unlock_state_def saveMeta_def
          split: option.split)
  qed
qed

text \<open>C13: Liveness of the auto-lock: in every reachable state that holds a key in memory
  the \<open>autolock\<close> alarm is armed, and once its time has come the alarm can fire and
  the firing discards the key and its session export.\<close>

theorem live_key_leads_to_lock:
  assumes "bg_reachable s" and "derivedKey s \<noteq> None"
  shows "\<exists>t. autolock_alarm s = Some t \<and>
           (\<forall>e. t \<le> env_now e \<longrightarrow> bg_trans s (AlarmFire e) (fire_alarm s) \<and>
                derivedKey (fire_alarm s) = None \<and> session_jwk (fire_alarm s) = None)"
proof -
  obtain t where t: "autolock_alarm s = Some t" using reachable_armed [OF assms(1)] assms(2) by blast
  have "bg_trans s (AlarmFire e) (fire_alarm s)" if "t \<le> env_now e" for e
    using t that by (intro bg_trans.alarm) (simp add: alarm_due_def)
  then show ?thesis
    using t assms(2) by (auto simp: fire_alarm_def onAlarm_def lockVault_def)
qed

theorem live_key_leads_to_lock_witness:
  "autolock_alarm demo_unlocked = Some 301000 \<and>
   bg_trans demo_unlocked (AlarmFire (demo_env 301000)) (fire_alarm demo_unlocked) \<and>
   derivedKey (fire_alarm demo_unlocked) = None"
proof -
  have live: "derivedKey demo_unlocked \<noteq> None"
    using demo_unlocked_facts(2) demo_unlocked_live by simp
  obtain t where t: "autolock_alarm demo_unlocked = Some t"
    and h: "\<forall>e. t \<le> env_now e \<longrightarrow> bg_trans demo_unlocked (AlarmFire e) (fire_alarm demo_unlocked) \<and>
              derivedKey (fire_alarm demo_unlocked) = None \<and> session_jwk (fire_alarm demo_unlocked) = None"
    using live_key_leads_to_lock [OF demo_unlocked_reachable live] by blast
  have "t = 301000" using t demo_unlocked_alarm by simp
  then show ?thesis
    using h [rule_format, of "demo_env 301000"] demo_unlocked_alarm by (simp add: demo_env_def)
qed

end
