(* ===== verification/Session_Abs.thy ===== *)
theory Session_Abs
  imports Autolock
begin

text \<open>
  The session state machine of the specification (section 4.3) and its refinement by
  the worker. The abstract states are \<open>Uninitialized\<close> (no metadata), \<open>Locked\<close> and
  \<open>Unlocked\<close>; the worker is abstracted by \<open>abs_sess\<close>, which counts it unlocked when
  it holds a key or can resume one from the session export (the export is what makes a
  session survive a restart). Every event of the worker is labelled with the abstract
  transition it performs: \<open>UNLOCK\<close> by its answer, \<open>LOCK\<close>, the vault operations, the
  queries, the alarm (expiry), the restart and the install (initialisation). Each
  step of a reachable worker is the abstract step of its label, with one exception,
  proved to occur: the alarm in a restarted worker holding only the export.
\<close>

section \<open>The abstract machine\<close>

datatype sess = Uninitialized | Locked | Unlocked

datatype sess_label = AInit | AUnlockOk | AUnlockFail | ALock | AExpire | ATouch | AQuery | ARestart

fun sess_step :: "sess \<Rightarrow> sess_label \<Rightarrow> sess" where
  "sess_step Uninitialized AInit = Locked"
| "sess_step _ AUnlockOk = Unlocked"
| "sess_step Uninitialized ALock = Uninitialized"
| "sess_step _ ALock = Locked"
| "sess_step Unlocked AExpire = Locked"
| "sess_step s _ = s"

section \<open>Abstraction and labels\<close>

definition abs_sess :: "bg_state \<Rightarrow> sess" where
  "abs_sess s =
     (if local_meta s = None then Uninitialized
      else if session_jwk s = None then Locked else Unlocked)"

fun msg_label :: "bg_msg \<Rightarrow> response \<Rightarrow> sess_label" where
  "msg_label (UNLOCK _) r = (if r = RespOk then AUnlockOk else AUnlockFail)"
| "msg_label LOCK _ = ALock"
| "msg_label (GET_CREDENTIALS_FOR_ORIGIN _) _ = ATouch"
| "msg_label (SAVE_CREDENTIAL _) _ = ATouch"
| "msg_label LIST_CREDENTIALS _ = ATouch"
| "msg_label (DELETE_CREDENTIAL _) _ = ATouch"
| "msg_label _ _ = AQuery"

fun ev_label :: "bg_event \<Rightarrow> bg_state \<Rightarrow> sess_label" where
  "ev_label (Msg e m) s = msg_label m (snd (handle_message e m s))"
| "ev_label (AlarmFire e) s = AExpire"
| "ev_label Restart s = ARestart"
| "ev_label (Installed e) s = AInit"

text \<open>The alarm fires in a worker that holds no key in memory but a session export.\<close>

fun alarm_in_resumable :: "bg_event \<Rightarrow> bg_state \<Rightarrow> bool" where
  "alarm_in_resumable (AlarmFire e) s = (derivedKey s = None \<and> session_jwk s \<noteq> None)"
| "alarm_in_resumable _ s = False"

section \<open>Simulation\<close>

lemma abs_sess_cong:
  "local_meta s' = local_meta s \<Longrightarrow> session_jwk s' = session_jwk s \<Longrightarrow> abs_sess s' = abs_sess s"
  by (simp add: abs_sess_def)

lemma abs_sess_unlocked:
  "local_meta s \<noteq> None \<Longrightarrow> session_jwk s \<noteq> None \<Longrightarrow> abs_sess s = Unlocked"
  by (simp add: abs_sess_def)

lemma abs_sess_locked:
  "local_meta s \<noteq> None \<Longrightarrow> session_jwk s = None \<Longrightarrow> abs_sess s = Locked"
  by (simp add: abs_sess_def)

lemma abs_sess_session:
  "bg_inv s \<Longrightarrow> session_jwk s \<noteq> None \<Longrightarrow> abs_sess s = Unlocked"
  by (auto simp: abs_sess_def bg_inv_def key_opens_def store_ok_def split: option.splits)

lemma sess_step_simps [simp]:
  "sess_step x AUnlockOk = Unlocked" "sess_step x AUnlockFail = x" "sess_step x ATouch = x"
  "sess_step x AQuery = x" "sess_step x ARestart = x"
  "sess_step x ALock = (if x = Uninitialized then Uninitialized else Locked)"
  "sess_step x AExpire = (if x = Unlocked then Locked else x)"
  "sess_step x AInit = (if x = Uninitialized then Locked else x)"
  by (cases x; simp)+

lemma idbSet_meta [simp]: "local_meta (idbSet r s) = local_meta s"
  by (simp add: idbSet_def)

lemma unlock_abs:
  assumes "bg_inv s"
  shows "abs_sess (fst (handle_message e (UNLOCK pw) s)) =
           sess_step (abs_sess s) (msg_label (UNLOCK pw) (snd (handle_message e (UNLOCK pw) s)))"
proof (cases "idb_vault s")
  case None
  obtain m where m: "local_meta (unlock_state e s) = Some m" and "meta_ok m"
    and "handle_message e (UNLOCK pw) s =
           (unlock_commit e (meta_key pw m)
              (idbSet (seal (meta_key pw m) (env_iv_rnd e) empty_vault) (unlock_state e s)), RespOk)"
    using unlock_first_use [OF assms None] by blast
  then show ?thesis by (simp add: abs_sess_unlocked idbSet_def)
next
  case (Some r)
  obtain m where m: "local_meta s = Some m" using store_of_meta [OF assms Some] by blast
  show ?thesis
    using unlock_existing [OF assms Some m, of e pw] m
    by (simp add: abs_sess_unlocked abs_sess_def)
qed


lemma crud_abs:
  assumes "bg_inv s" and "crud_msg m"
  shows "abs_sess (fst (handle_message e m s)) = abs_sess s"
  using assms(2)
  by (cases m)
     (auto intro!: abs_sess_cong simp: handle_list_inv [OF assms(1)] handle_get_inv [OF assms(1)]
       handle_save_inv [OF assms(1)] handle_delete_inv [OF assms(1)] split: option.split)

lemma set_autolock_abs:
  "abs_sess (fst (handle_message e (SET_AUTOLOCK ms) s)) = abs_sess s"
  by (auto simp: handle_message_def handle_set_autolock_def loadMeta_def saveMeta_def Let_def
      abs_sess_def split: option.split)

lemma msg_abs:
  assumes "bg_inv s"
  shows "abs_sess (fst (handle_message e m s)) =
           sess_step (abs_sess s) (msg_label m (snd (handle_message e m s)))"
proof (cases m)
  case STATUS
  have "abs_sess (restoreIfLocked e s) = abs_sess s"
    by (auto intro: abs_sess_cong simp: restoreIfLocked_eq split: option.split)
  then show ?thesis using STATUS by (simp add: handle_status)
next
  case (UNLOCK pw)
  then show ?thesis using unlock_abs [OF assms] by simp
next
  case LOCK
  then show ?thesis by (simp add: handle_message_def lockVault_def abs_sess_def)
next
  case (SET_AUTOLOCK ms)
  then show ?thesis using set_autolock_abs by simp
qed (simp_all add: crud_abs [OF assms], simp_all add: handle_message_def)

lemma alarm_abs:
  assumes "bg_inv s" and "\<not> (derivedKey s = None \<and> session_jwk s \<noteq> None)"
  shows "abs_sess (fire_alarm s) = sess_step (abs_sess s) AExpire"
proof (cases "derivedKey s")
  case None
  then have "session_jwk s = None" using assms(2) by simp
  then show ?thesis using None by (simp add: fire_alarm_def onAlarm_def abs_sess_def)
next
  case (Some k)
  then have "session_jwk s = Some k" using assms(1) by (simp add: bg_inv_def)
  then have "abs_sess s = Unlocked" using assms(1) by (simp add: abs_sess_session)
  then have "local_meta s \<noteq> None" by (auto simp: abs_sess_def split: if_splits)
  then show ?thesis
    using Some \<open>abs_sess s = Unlocked\<close> by (simp add: fire_alarm_live abs_sess_def lockVault_def)
qed

lemma installed_abs:
  assumes "bg_inv s"
  shows "abs_sess (onInstalled e s) = sess_step (abs_sess s) AInit"
proof -
  have eq: "onInstalled e s = unlock_state e s"
    using assms by (simp add: onInstalled_def ensureInit_inv bg_inv_def)
  obtain m where "local_meta (unlock_state e s) = Some m"
    and "local_meta s \<noteq> None \<longrightarrow> local_meta s = Some m"
    using unlock_state_meta [OF assms] by blast
  moreover have "local_meta s = None \<Longrightarrow> session_jwk s = None"
    using abs_sess_session [OF assms] by (cases "session_jwk s") (auto simp: abs_sess_def)
  ultimately show ?thesis by (auto simp: eq abs_sess_def)
qed

text \<open>C2: The worker refines the session machine of the specification: every step of
  a reachable worker moves its abstract state (\<open>Uninitialized\<close>, \<open>Locked\<close>,
  \<open>Unlocked\<close>) by the abstract transition of the step's label, except the alarm firing
  in a worker that holds only the session export.\<close>

theorem worker_refines_session_machine:
  assumes "bg_reachable s" and "bg_trans s ev s'" and "\<not> alarm_in_resumable ev s"
  shows "abs_sess s' = sess_step (abs_sess s) (ev_label ev s)"
proof -
  have inv: "bg_inv s" using bg_reachable_inv [OF assms(1)] .
  from assms(2,3) show ?thesis
  proof cases
    case (msg e m)
    then show ?thesis using msg_abs [OF inv] by simp
  next
    case (alarm e)
    then show ?thesis using alarm_abs [OF inv] assms(3) by simp
  next
    case restart
    then show ?thesis by (simp add: abs_sess_def)
  next
    case (installed e)
    then show ?thesis using installed_abs [OF inv] by simp
  qed
qed

theorem worker_refines_session_machine_witness:
  "bg_reachable demo_unlocked \<and>
   bg_trans demo_unlocked (Msg (demo_env 5000) LOCK) (fst (handle_message (demo_env 5000) LOCK demo_unlocked)) \<and>
   \<not> alarm_in_resumable (Msg (demo_env 5000) LOCK) demo_unlocked \<and>
   abs_sess (fst (handle_message (demo_env 5000) LOCK demo_unlocked)) = Locked"
proof -
  have tr: "bg_trans demo_unlocked (Msg (demo_env 5000) LOCK)
      (fst (handle_message (demo_env 5000) LOCK demo_unlocked))" by (rule bg_trans.msg)
  have na: "\<not> alarm_in_resumable (Msg (demo_env 5000) LOCK) demo_unlocked" by simp
  have u: "abs_sess demo_unlocked = Unlocked"
    using abs_sess_session [OF bg_reachable_inv [OF demo_unlocked_reachable]] demo_unlocked_facts(2) .
  show ?thesis
    using worker_refines_session_machine [OF demo_unlocked_reachable tr na] tr u
      demo_unlocked_reachable by (simp add: handle_message_def)
qed

text \<open>The exception is reachable: after an unlock and a restart of the worker, the
  due alarm leaves the worker abstractly \<open>Unlocked\<close>, where the specification's expiry
  moves it to \<open>Locked\<close>.\<close>

theorem restarted_alarm_misses_expiry:
  "\<exists>s ev s'. bg_reachable s \<and> bg_trans s ev s' \<and> abs_sess s = Unlocked \<and> ev_label ev s = AExpire \<and>
     abs_sess s' = Unlocked"
proof -
  let ?s = "worker_restart demo_unlocked" and ?e = "demo_env 400000"
  have r: "bg_reachable ?s" by (rule reachable_restart [OF demo_unlocked_reachable])
  have due: "alarm_due ?e ?s" by (simp add: alarm_due_def demo_unlocked_alarm demo_env_def)
  have inv: "bg_inv ?s" using bg_reachable_inv [OF r] .
  have inv': "bg_inv (fire_alarm ?s)" using bg_reachable_inv [OF bg_reachable.step [OF r bg_trans.alarm [OF due]]] .
  have "session_jwk ?s \<noteq> None" using demo_unlocked_facts(2) by simp
  then have "abs_sess ?s = Unlocked" "abs_sess (fire_alarm ?s) = Unlocked"
    using abs_sess_session [OF inv] abs_sess_session [OF inv'] by (simp_all add: fire_alarm_restarted)
  then show ?thesis using r bg_trans.alarm [OF due] by fastforce
qed

end
