(* ===== verification/Content.thy ===== *)
theory Content
  imports Background
begin

text \<open>
  The content script \<open>src/extension/content.js\<close> (the Field-Matching Engine of the
  specification) over a model of the page. The page is the list of its \<open>input\<close>
  elements in document order (an element is its index in that list) and the list of
  its forms; an input records the attributes and the computed style the script reads,
  its form owner (\<open>closest('form')\<close>), its value and the two \<open>dataset\<close> marks the
  script writes (\<open>passvaultEdited\<close>, \<open>passvaultApplied\<close>); a form records the \<open>type\<close>
  attributes of its \<open>button\<close> elements and the expando \<open>__passvault_hooked\<close>. Events
  the script dispatches are appended to a log (the page's own listeners see them); the
  script's capture listener for \<open>input\<close> events (lines 59--64) runs on each of them.
  The floating pickers are the lists of credentials they offer.
\<close>

section \<open>The page\<close>

record dom_input =
  in_type :: string          \<comment> \<open>the \<open>type\<close> attribute, \<open>''''\<close> when absent\<close>
  in_name :: string
  in_id :: string
  in_placeholder :: string
  in_autocomplete :: string
  in_width :: int             \<comment> \<open>\<open>getBoundingClientRect()\<close>\<close>
  in_height :: int
  in_display :: string        \<comment> \<open>\<open>getComputedStyle(el)\<close>\<close>
  in_visibility :: string
  in_disabled :: bool
  in_readOnly :: bool
  in_form :: "nat option"     \<comment> \<open>\<open>el.closest('form')\<close>, an index of \<open>pg_forms\<close>\<close>
  in_value :: string
  in_edited :: bool           \<comment> \<open>\<open>dataset.passvaultEdited === '1'\<close>\<close>
  in_applied :: bool          \<comment> \<open>\<open>dataset.passvaultApplied === '1'\<close>\<close>

record dom_form =
  form_buttons :: "string option list"  \<comment> \<open>the \<open>type\<close> attribute of each \<open>button\<close>\<close>
  form_hooked :: bool                   \<comment> \<open>\<open>form.__passvault_hooked\<close>\<close>

datatype page_event = InputEvent nat | ChangeEvent nat

record page =
  pg_inputs :: "dom_input list"
  pg_forms :: "dom_form list"
  pg_origin :: string                  \<comment> \<open>\<open>location.origin\<close>\<close>
  pg_events :: "page_event list"       \<comment> \<open>events dispatched by the script, in order\<close>
  pg_pickers :: "credential list list" \<comment> \<open>the open pickers, oldest first\<close>
  pg_hooks :: "(nat \<times> nat option \<times> nat) list"
    \<comment> \<open>the submit listeners: form, and the user and password fields they captured\<close>

text \<open>The \<open>type\<close> IDL attribute: the attribute lowercased when it names an input type
  of HTML, \<open>text\<close> otherwise (absent or unknown).\<close>

definition html_input_types :: "string list" where
  "html_input_types = [''button'', ''checkbox'', ''color'', ''date'', ''datetime-local'', ''email'',
     ''file'', ''hidden'', ''image'', ''month'', ''number'', ''password'', ''radio'', ''range'',
     ''reset'', ''search'', ''submit'', ''tel'', ''text'', ''time'', ''url'', ''week'']"

definition input_type_prop :: "dom_input \<Rightarrow> string" where
  "input_type_prop el =
     (let t = js_toLowerCase (in_type el) in if t \<in> set html_input_types then t else ''text'')"

section \<open>Field discovery (\<open>findFields\<close>, \<open>isVisible\<close>)\<close>

text \<open>Lines 44--48.\<close>

definition isVisible :: "dom_input \<Rightarrow> bool" where
  "isVisible el \<longleftrightarrow>
     0 < in_width el \<and> 0 < in_height el \<and>
     \<not> (in_display el = ''none'' \<or> in_visibility el = ''hidden'')"

text \<open>Lines 12--14: \<open>input[type="password" i]\<close> (the \<open>type\<close> attribute, ASCII
  case-insensitively), visible, neither disabled nor read-only; in document order.\<close>

definition pw_candidates :: "page \<Rightarrow> nat list" where
  "pw_candidates p =
     filter (\<lambda>i. let el = pg_inputs p ! i in
                 js_toLowerCase (in_type el) = ''password'' \<and> isVisible el \<and>
                 \<not> in_disabled el \<and> \<not> in_readOnly el)
       [0..<length (pg_inputs p)]"

text \<open>Line 21: \<open>form.querySelector('button[type="submit"], input[type="submit"],
  button:not([type])')\<close>.\<close>

definition form_has_submit :: "page \<Rightarrow> nat \<Rightarrow> bool" where
  "form_has_submit p f \<longleftrightarrow>
     f < length (pg_forms p) \<and>
     ((\<exists>b\<in>set (form_buttons (pg_forms p ! f)).
         b = None \<or> map_option js_toLowerCase b = Some ''submit'') \<or>
      (\<exists>el\<in>set (pg_inputs p). in_form el = Some f \<and> js_toLowerCase (in_type el) = ''submit''))"

text \<open>Lines 18--23: the first candidate whose form has a submit control, else the
  first candidate.\<close>

definition choose_pw :: "page \<Rightarrow> nat list \<Rightarrow> nat" where
  "choose_pw p cands =
     (case find (\<lambda>i. case in_form (pg_inputs p ! i) of
                        None \<Rightarrow> False | Some f \<Rightarrow> form_has_submit p f) cands of
        Some i \<Rightarrow> i
      | None \<Rightarrow> hd cands)"

text \<open>Lines 25--26: the inputs of the chosen field's form, or of the document.\<close>

definition scope_inputs :: "page \<Rightarrow> nat \<Rightarrow> nat list" where
  "scope_inputs p pw =
     (case in_form (pg_inputs p ! pw) of
        None \<Rightarrow> [0..<length (pg_inputs p)]
      | Some f \<Rightarrow> filter (\<lambda>i. in_form (pg_inputs p ! i) = Some f) [0..<length (pg_inputs p)])"

definition userHints :: "string list" where
  "userHints = [''user'', ''email'', ''login'', ''id'', ''mail'', ''account'', ''phone'']"

text \<open>Lines 29--39, the loop as written: each of the three tests assigns
  \<open>user = user || el\<close>.\<close>

fun user_loop :: "page \<Rightarrow> nat \<Rightarrow> nat option \<Rightarrow> nat list \<Rightarrow> nat option" where
  "user_loop p pw user [] = user"
| "user_loop p pw user (i # is) =
     (if i = pw then user_loop p pw user is
      else
        (let el = pg_inputs p ! i;
             t = js_toLowerCase (str_or (input_type_prop el) ''text'');
             nm = js_toLowerCase (in_name el);
             id = js_toLowerCase (in_id el);
             pl = js_toLowerCase (in_placeholder el);
             ac = js_toLowerCase (in_autocomplete el);
             u1 = (if t \<in> set [''text'', ''email'', ''username''] then (case user of None \<Rightarrow> Some i | Some u \<Rightarrow> Some u) else user);
             u2 = (if ac \<in> set [''username'', ''email''] then (case u1 of None \<Rightarrow> Some i | Some u \<Rightarrow> Some u) else u1);
             u3 = (if list_ex (\<lambda>h. js_includes nm h \<or> js_includes id h \<or> js_includes pl h) userHints
                   then (case u2 of None \<Rightarrow> Some i | Some u \<Rightarrow> Some u) else u2)
         in user_loop p pw u3 is))"

record fields =
  ff_form :: "nat option"
  ff_user :: "nat option"
  ff_pw :: nat

text \<open>Lines 10--42.\<close>

definition findFields :: "page \<Rightarrow> fields option" where
  "findFields p =
     (case pw_candidates p of
        [] \<Rightarrow> None
      | cands \<Rightarrow>
          (let pw = choose_pw p cands
           in Some \<lparr>ff_form = in_form (pg_inputs p ! pw),
                    ff_user = user_loop p pw None (scope_inputs p pw), ff_pw = pw\<rparr>))"

section \<open>Writing fields (\<open>setValue\<close>, the edit tracker, \<open>applyCred\<close>)\<close>

definition update_input :: "nat \<Rightarrow> (dom_input \<Rightarrow> dom_input) \<Rightarrow> page \<Rightarrow> page" where
  "update_input i f p = p\<lparr>pg_inputs := (pg_inputs p)[i := f (pg_inputs p ! i)]\<rparr>"

text \<open>Lines 59--64: the capture listener for \<open>input\<close> events marks the target as
  edited; it runs for every \<open>input\<close> event, the script's own included.\<close>

definition onInputCapture :: "nat \<Rightarrow> page \<Rightarrow> page" where
  "onInputCapture i = update_input i (\<lambda>el. el\<lparr>in_edited := True\<rparr>)"

definition dispatchEvent :: "page_event \<Rightarrow> page \<Rightarrow> page" where
  "dispatchEvent ev p =
     (let p1 = p\<lparr>pg_events := pg_events p @ [ev]\<rparr>
      in case ev of InputEvent i \<Rightarrow> onInputCapture i p1 | ChangeEvent i \<Rightarrow> p1)"

text \<open>Lines 50--56: the native value setter, then an \<open>input\<close> and a \<open>change\<close> event.\<close>

definition setValue :: "nat \<Rightarrow> string \<Rightarrow> page \<Rightarrow> page" where
  "setValue i v p =
     dispatchEvent (ChangeEvent i)
       (dispatchEvent (InputEvent i) (update_input i (\<lambda>el. el\<lparr>in_value := v\<rparr>) p))"

definition mark_applied :: "nat \<Rightarrow> page \<Rightarrow> page" where
  "mark_applied i = update_input i (\<lambda>el. el\<lparr>in_applied := True\<rparr>)"

text \<open>Lines 114--124.\<close>

definition applyCred :: "credential \<Rightarrow> page \<Rightarrow> page" where
  "applyCred c p =
     (case findFields p of
        None \<Rightarrow> p
      | Some ff \<Rightarrow>
          (let p1 = (case ff_user ff of
                       Some u \<Rightarrow> if cred_username c \<noteq> [] then mark_applied u (setValue u (cred_username c) p)
                                 else p
                     | None \<Rightarrow> p)
           in mark_applied (ff_pw ff) (setValue (ff_pw ff) (str_or (cred_password c) '''') p1)))"

section \<open>Autofill (\<open>maybeAutofill\<close>, \<open>renderPicker\<close>)\<close>

text \<open>Lines 127--138, up to the \<open>await\<close> of \<open>fetchCreds\<close>: the fields when the script
  goes on to request the credentials of the page's origin.\<close>

definition autofill_precheck :: "page \<Rightarrow> fields option" where
  "autofill_precheck p =
     (case findFields p of
        None \<Rightarrow> None
      | Some ff \<Rightarrow>
          (let pw = pg_inputs p ! ff_pw ff in
           if (case ff_user ff of Some u \<Rightarrow> in_edited (pg_inputs p ! u) | None \<Rightarrow> False) \<or> in_edited pw
           then None
           else if in_applied pw \<and> in_value pw \<noteq> [] then None
           else Some ff))"

text \<open>Line 68: the request \<open>fetchCreds\<close> sends.\<close>

definition fetch_msg :: "page \<Rightarrow> bg_msg" where
  "fetch_msg p = GET_CREDENTIALS_FOR_ORIGIN (pg_origin p)"

text \<open>Lines 74--110 (the rows the picker offers: the first six credentials).\<close>

definition renderPicker :: "credential list \<Rightarrow> page \<Rightarrow> page" where
  "renderPicker cs p = p\<lparr>pg_pickers := pg_pickers p @ [take 6 cs]\<rparr>"

text \<open>Lines 139--149, after the \<open>await\<close>: \<open>None\<close> is a \<open>sendMessage\<close> that threw
  (\<open>fetchCreds\<close> returns \<open>null\<close>); an error response has \<open>ok: false\<close>.\<close>

definition autofill_finish :: "bool \<Rightarrow> response option \<Rightarrow> page \<Rightarrow> page" where
  "autofill_finish showPicker resp p =
     (case resp of
        Some (RespCreds cs) \<Rightarrow>
          (case cs of
             [] \<Rightarrow> p
           | [c] \<Rightarrow> applyCred c p
           | _ \<Rightarrow> if showPicker then renderPicker cs p else p)
      | _ \<Rightarrow> p)"

text \<open>A click on row \<open>j\<close> of picker \<open>k\<close> (lines 100--108): the document-level
  listeners of the other pickers remove them, the row applies its credential and
  removes its picker. A click anywhere else removes every picker.\<close>

definition picker_click :: "nat \<Rightarrow> nat \<Rightarrow> page \<Rightarrow> page" where
  "picker_click k j p =
     (if k < length (pg_pickers p) \<and> j < length (pg_pickers p ! k)
      then applyCred (pg_pickers p ! k ! j) (p\<lparr>pg_pickers := []\<rparr>)
      else p\<lparr>pg_pickers := []\<rparr>)"

section \<open>Save capture (\<open>ensureSaveHook\<close>)\<close>

text \<open>Lines 152--157, 171: hook the form of the fields once; the listener keeps the
  fields it was created with.\<close>

definition ensureSaveHook :: "page \<Rightarrow> page" where
  "ensureSaveHook p =
     (case findFields p of
        None \<Rightarrow> p
      | Some ff \<Rightarrow>
          (case ff_form ff of
             None \<Rightarrow> p
           | Some f \<Rightarrow>
               if form_hooked (pg_forms p ! f) then p
               else p\<lparr>pg_forms := (pg_forms p)[f := (pg_forms p ! f)\<lparr>form_hooked := True\<rparr>],
                      pg_hooks := pg_hooks p @ [(f, ff_user ff, ff_pw ff)]\<rparr>))"

text \<open>Lines 158--170, one listener: \<open>confirmed\<close> is the answer to \<open>window.confirm\<close>,
  \<open>uuid\<close> the value of \<open>crypto.randomUUID()\<close>; the result is the message sent.\<close>

definition onSubmit :: "page \<Rightarrow> nat option \<Rightarrow> nat \<Rightarrow> bool \<Rightarrow> string \<Rightarrow> bg_msg option" where
  "onSubmit p user pw confirmed uuid =
     (let username = (case user of Some u \<Rightarrow> in_value (pg_inputs p ! u) | None \<Rightarrow> '''');
          password = in_value (pg_inputs p ! pw)
      in if password = [] then None
         else if \<not> confirmed then None
         else Some (SAVE_CREDENTIAL
                \<lparr>cred_id = uuid, cred_origins = [pg_origin p], cred_username = username,
                 cred_password = password, cred_notes = '''', cred_origin = Some (pg_origin p)\<rparr>))"

text \<open>The listeners a submit of form \<open>f\<close> runs, in registration order.\<close>

definition submit_listeners :: "nat \<Rightarrow> page \<Rightarrow> (nat option \<times> nat) list" where
  "submit_listeners f p = map snd (filter (\<lambda>h. fst h = f) (pg_hooks p))"

section \<open>The script as a transition system\<close>

text \<open>The script's state: the page, the \<open>showPicker\<close> flags of the \<open>maybeAutofill\<close>
  calls suspended at their \<open>await\<close>, and the messages sent to the worker, in order.\<close>

record cs_state =
  cs_page :: page
  cs_pending :: "bool list"
  cs_outbox :: "bg_msg list"

text \<open>\<open>maybeAutofill(showPicker)\<close> up to its \<open>await\<close>.\<close>

definition maybeAutofill :: "bool \<Rightarrow> cs_state \<Rightarrow> cs_state" where
  "maybeAutofill showPicker st =
     (case autofill_precheck (cs_page st) of
        None \<Rightarrow> st
      | Some ff \<Rightarrow> st\<lparr>cs_pending := cs_pending st @ [showPicker],
                      cs_outbox := cs_outbox st @ [fetch_msg (cs_page st)]\<rparr>)"

definition on_page :: "(page \<Rightarrow> page) \<Rightarrow> cs_state \<Rightarrow> cs_state" where
  "on_page f st = st\<lparr>cs_page := f (cs_page st)\<rparr>"

text \<open>The listeners of a submit, each with the user's answer and a fresh id.\<close>

fun run_submit :: "page \<Rightarrow> (nat option \<times> nat) list \<Rightarrow> (bool \<times> string) list \<Rightarrow> bg_msg list" where
  "run_submit p ((u, pw) # ls) ((ok, uuid) # as) =
     (case onSubmit p u pw ok uuid of None \<Rightarrow> [] | Some m \<Rightarrow> [m]) @ run_submit p ls as"
| "run_submit p _ _ = []"

datatype cs_event =
    DOMContentLoaded                 \<comment> \<open>line 176\<close>
  | WindowFocus                      \<comment> \<open>line 177\<close>
  | FocusIn nat                      \<comment> \<open>lines 178--180\<close>
  | Mutation "dom_input list"        \<comment> \<open>the page appends inputs; line 181\<close>
  | Response nat "response option"   \<comment> \<open>the answer to the \<open>k\<close>-th pending request\<close>
  | UserInput nat string             \<comment> \<open>the user types into an input\<close>
  | PageSetValue nat string          \<comment> \<open>the page's own script sets a value\<close>
  | PickerClick nat nat
  | OutsideClick
  | Submit nat "(bool \<times> string) list" \<comment> \<open>answers to \<open>confirm\<close> and fresh ids\<close>
  | ApplyMessage credential          \<comment> \<open>\<open>APPLY_CREDENTIAL\<close>, lines 189--191\<close>
  | TriggerMessage                   \<comment> \<open>\<open>TRIGGER_AUTOFILL\<close>, lines 192--195\<close>

fun cs_step :: "cs_event \<Rightarrow> cs_state \<Rightarrow> cs_state" where
  "cs_step DOMContentLoaded st = on_page ensureSaveHook (maybeAutofill True st)"
| "cs_step WindowFocus st = maybeAutofill False st"
| "cs_step (FocusIn i) st =
     (if i < length (pg_inputs (cs_page st)) \<and>
         js_toLowerCase (in_type (pg_inputs (cs_page st) ! i)) = ''password''
      then maybeAutofill False st else st)"
| "cs_step (Mutation new) st =
     on_page ensureSaveHook
       (maybeAutofill False (on_page (\<lambda>p. p\<lparr>pg_inputs := pg_inputs p @ new\<rparr>) st))"
| "cs_step (Response k resp) st =
     (if k < length (cs_pending st)
      then st\<lparr>cs_page := autofill_finish (cs_pending st ! k) resp (cs_page st),
              cs_pending := take k (cs_pending st) @ drop (Suc k) (cs_pending st)\<rparr>
      else st)"
| "cs_step (UserInput i v) st =
     on_page (\<lambda>p. onInputCapture i (update_input i (\<lambda>el. el\<lparr>in_value := v\<rparr>) p)) st"
| "cs_step (PageSetValue i v) st = on_page (update_input i (\<lambda>el. el\<lparr>in_value := v\<rparr>)) st"
| "cs_step (PickerClick k j) st = on_page (picker_click k j) st"
| "cs_step OutsideClick st = on_page (\<lambda>p. p\<lparr>pg_pickers := []\<rparr>) st"
| "cs_step (Submit f answers) st =
     st\<lparr>cs_outbox := cs_outbox st @ run_submit (cs_page st) (submit_listeners f (cs_page st)) answers\<rparr>"
| "cs_step (ApplyMessage c) st = on_page (applyCred c) st"
| "cs_step TriggerMessage st = maybeAutofill True st"

text \<open>Lines 183--185: the script starts with \<open>maybeAutofill(true)\<close> and
  \<open>ensureSaveHook()\<close>.\<close>

definition cs_start :: "page \<Rightarrow> cs_state" where
  "cs_start p = on_page ensureSaveHook (maybeAutofill True \<lparr>cs_page = p, cs_pending = [], cs_outbox = []\<rparr>)"

fun cs_run :: "cs_event list \<Rightarrow> cs_state \<Rightarrow> cs_state" where
  "cs_run [] st = st"
| "cs_run (ev # evs) st = cs_run evs (cs_step ev st)"

end
