(* ===== verification/Content_Props.thy ===== *)
theory Content_Props
  imports Content Session_Props
begin

text \<open>
  The properties of the content script: \<open>findFields\<close> against a declarative reading
  of its choices (the loop over the inputs is the first match of a predicate), the
  independence of field discovery from values and marks, the skip-on-edit rule, the
  cycle breaker, the writes of an autofill end to end with the worker (only credentials
  of the page's origin), the save capture end to end (a new credential of the page's
  origin), the single submit listener per form, and the race of the edit check with the
  \<open>await\<close> of the request.
\<close>

section \<open>Reference predicates and sample pages\<close>

definition user_match :: "dom_input \<Rightarrow> bool" where
  "user_match el \<longleftrightarrow>
     input_type_prop el \<in> set [''text'', ''email'', ''username''] \<or>
     js_toLowerCase (in_autocomplete el) \<in> set [''username'', ''email''] \<or>
     list_ex (\<lambda>h. js_includes (js_toLowerCase (in_name el)) h \<or> js_includes (js_toLowerCase (in_id el)) h \<or>
                  js_includes (js_toLowerCase (in_placeholder el)) h) userHints"

definition in_submit_form :: "page \<Rightarrow> nat \<Rightarrow> bool" where
  "in_submit_form p i = (case in_form (pg_inputs p ! i) of None \<Rightarrow> False | Some f \<Rightarrow> form_has_submit p f)"

definition strip_input :: "dom_input \<Rightarrow> dom_input" where
  "strip_input el = el\<lparr>in_value := [], in_edited := False, in_applied := False\<rparr>"

definition same_struct :: "page \<Rightarrow> page \<Rightarrow> bool" where
  "same_struct p' p \<longleftrightarrow>
     length (pg_inputs p') = length (pg_inputs p) \<and>
     (\<forall>i < length (pg_inputs p). strip_input (pg_inputs p' ! i) = strip_input (pg_inputs p ! i)) \<and>
     map form_buttons (pg_forms p') = map form_buttons (pg_forms p)"



text \<open>Sample pages for the witnesses.\<close>

definition demo_input :: "string \<Rightarrow> string \<Rightarrow> nat option \<Rightarrow> dom_input" where
  "demo_input ty nm f =
     \<lparr>in_type = ty, in_name = nm, in_id = '''', in_placeholder = '''', in_autocomplete = '''',
      in_width = 100, in_height = 20, in_display = ''block'', in_visibility = ''visible'',
      in_disabled = False, in_readOnly = False, in_form = f, in_value = '''',
      in_edited = False, in_applied = False\<rparr>"

definition login_page :: page where
  "login_page =
     \<lparr>pg_inputs = [demo_input ''text'' ''username'' (Some 0), demo_input ''password'' ''pass'' (Some 0)],
      pg_forms = [\<lparr>form_buttons = [None], form_hooked = False\<rparr>],
      pg_origin = ''https://a.example'', pg_events = [], pg_pickers = [], pg_hooks = []\<rparr>"

definition hidden_id_page :: page where
  "hidden_id_page =
     \<lparr>pg_inputs = [demo_input ''hidden'' ''client_id'' (Some 0), demo_input ''text'' ''username'' (Some 0),
                   demo_input ''password'' ''pass'' (Some 0)],
      pg_forms = [\<lparr>form_buttons = [None], form_hooked = False\<rparr>],
      pg_origin = ''https://a.example'', pg_events = [], pg_pickers = [], pg_hooks = []\<rparr>"

section \<open>Field discovery\<close>

lemma input_type_prop_lower: "js_toLowerCase (str_or (input_type_prop el) ''text'') = input_type_prop el"
proof -
  have "\<forall>t\<in>set (''text'' # html_input_types). js_toLowerCase t = t \<and> t \<noteq> []"
    by (simp add: html_input_types_def js_evals)
  moreover have "input_type_prop el \<in> set (''text'' # html_input_types)"
    by (simp add: input_type_prop_def Let_def)
  ultimately show ?thesis by (auto simp: str_or_def)
qed

lemma user_loop_Some: "user_loop p pw (Some u) is = Some u"
  by (induction "is") (simp_all add: Let_def)

lemma user_loop_find:
  "user_loop p pw None is = find (\<lambda>i. i \<noteq> pw \<and> user_match (pg_inputs p ! i)) is"
  by (induction "is") (auto simp: Let_def user_loop_Some user_match_def input_type_prop_lower)

lemma strip_fields [simp]:
  "in_type (strip_input el) = in_type el" "in_name (strip_input el) = in_name el"
  "in_id (strip_input el) = in_id el" "in_placeholder (strip_input el) = in_placeholder el"
  "in_autocomplete (strip_input el) = in_autocomplete el"
  "in_width (strip_input el) = in_width el" "in_height (strip_input el) = in_height el"
  "in_display (strip_input el) = in_display el" "in_visibility (strip_input el) = in_visibility el"
  "in_disabled (strip_input el) = in_disabled el" "in_readOnly (strip_input el) = in_readOnly el"
  "in_form (strip_input el) = in_form el"
  by (simp_all add: strip_input_def)

lemma strip_input_eq_iff:
  "strip_input a = strip_input b \<longleftrightarrow>
     in_type a = in_type b \<and> in_name a = in_name b \<and> in_id a = in_id b \<and>
     in_placeholder a = in_placeholder b \<and> in_autocomplete a = in_autocomplete b \<and>
     in_width a = in_width b \<and> in_height a = in_height b \<and> in_display a = in_display b \<and>
     in_visibility a = in_visibility b \<and> in_disabled a = in_disabled b \<and>
     in_readOnly a = in_readOnly b \<and> in_form a = in_form b \<and> dom_input.more a = dom_input.more b"
  by (cases a, cases b) (simp add: strip_input_def)

lemma bex_set_nth_cong:
  assumes "length xs' = length xs" and "\<And>i. i < length xs \<Longrightarrow> P (xs' ! i) = P (xs ! i)"
  shows "(\<exists>x\<in>set xs'. P x) = (\<exists>x\<in>set xs. P x)"
  using assms by (auto simp: in_set_conv_nth) (metis nth_mem)+

lemma same_struct_nth:
  assumes "same_struct p' p" and "i < length (pg_inputs p)"
  shows "in_type (pg_inputs p' ! i) = in_type (pg_inputs p ! i) \<and>
         in_name (pg_inputs p' ! i) = in_name (pg_inputs p ! i) \<and>
         in_id (pg_inputs p' ! i) = in_id (pg_inputs p ! i) \<and>
         in_placeholder (pg_inputs p' ! i) = in_placeholder (pg_inputs p ! i) \<and>
         in_autocomplete (pg_inputs p' ! i) = in_autocomplete (pg_inputs p ! i) \<and>
         isVisible (pg_inputs p' ! i) = isVisible (pg_inputs p ! i) \<and>
         in_disabled (pg_inputs p' ! i) = in_disabled (pg_inputs p ! i) \<and>
         in_readOnly (pg_inputs p' ! i) = in_readOnly (pg_inputs p ! i) \<and>
         in_form (pg_inputs p' ! i) = in_form (pg_inputs p ! i)"
proof -
  have "strip_input (pg_inputs p' ! i) = strip_input (pg_inputs p ! i)"
    using assms by (simp add: same_struct_def)
  then show ?thesis by (simp add: strip_input_eq_iff isVisible_def)
qed

lemma same_struct_user_match:
  "same_struct p' p \<Longrightarrow> i < length (pg_inputs p) \<Longrightarrow> user_match (pg_inputs p' ! i) = user_match (pg_inputs p ! i)"
  using same_struct_nth [of p' p i] by (simp add: user_match_def input_type_prop_def)

lemma same_struct_submit:
  assumes "same_struct p' p"
  shows "form_has_submit p' f = form_has_submit p f"
proof -
  have len: "length (pg_forms p') = length (pg_forms p)"
    using assms map_eq_imp_length_eq by (auto simp: same_struct_def)
  have btn: "f < length (pg_forms p) \<Longrightarrow> form_buttons (pg_forms p' ! f) = form_buttons (pg_forms p ! f)"
    using assms nth_map [of f "pg_forms p" form_buttons] nth_map [of f "pg_forms p'" form_buttons] len
    by (simp add: same_struct_def)
  have "(\<exists>el\<in>set (pg_inputs p'). in_form el = Some f \<and> js_toLowerCase (in_type el) = ''submit'') =
        (\<exists>el\<in>set (pg_inputs p). in_form el = Some f \<and> js_toLowerCase (in_type el) = ''submit'')"
    using same_struct_nth [OF assms] assms
    by (intro bex_set_nth_cong) (simp_all add: same_struct_def)
  then show ?thesis using len btn by (auto simp: form_has_submit_def)
qed

lemma pw_candidates_bound: "i \<in> set (pw_candidates p) \<Longrightarrow> i < length (pg_inputs p)"
  by (simp add: pw_candidates_def)

lemma scope_inputs_bound: "i \<in> set (scope_inputs p pw) \<Longrightarrow> i < length (pg_inputs p)"
  by (auto simp: scope_inputs_def split: option.splits)

lemma same_struct_findFields:
  assumes "same_struct p' p"
  shows "findFields p' = findFields p"
proof -
  have len: "length (pg_inputs p') = length (pg_inputs p)" using assms by (simp add: same_struct_def)
  note nth = same_struct_nth [OF assms]
  have cands: "pw_candidates p' = pw_candidates p"
    unfolding pw_candidates_def len by (rule filter_cong) (auto simp: nth Let_def)
  have choose: "choose_pw p' cs = choose_pw p cs" if "set cs \<subseteq> set (pw_candidates p)" for cs
  proof -
    have "find (\<lambda>i. case in_form (pg_inputs p' ! i) of None \<Rightarrow> False | Some f \<Rightarrow> form_has_submit p' f) cs =
          find (\<lambda>i. case in_form (pg_inputs p ! i) of None \<Rightarrow> False | Some f \<Rightarrow> form_has_submit p f) cs"
    proof (rule find_cong [OF refl])
      fix x assume "x \<in> set cs"
      then have "x < length (pg_inputs p)" using that pw_candidates_bound by blast
      then show "(case in_form (pg_inputs p' ! x) of None \<Rightarrow> False | Some f \<Rightarrow> form_has_submit p' f) =
                 (case in_form (pg_inputs p ! x) of None \<Rightarrow> False | Some f \<Rightarrow> form_has_submit p f)"
        by (simp add: nth same_struct_submit [OF assms] split: option.split)
    qed
    then show ?thesis by (simp add: choose_pw_def)
  qed
  have scope: "scope_inputs p' i = scope_inputs p i" if "i < length (pg_inputs p)" for i
    unfolding scope_inputs_def len using that
    by (auto simp: nth intro!: filter_cong split: option.split)
  have user: "user_loop p' i None (scope_inputs p i) = user_loop p i None (scope_inputs p i)" for i
    unfolding user_loop_find
    by (rule find_cong) (auto dest: scope_inputs_bound simp: same_struct_user_match [OF assms])
  show ?thesis
  proof (cases "pw_candidates p")
    case Nil
    then show ?thesis by (simp add: findFields_def cands)
  next
    case (Cons c cs)
    let ?pw = "choose_pw p (c # cs)"
    have "?pw \<in> set (pw_candidates p)"
      using Cons by (auto simp: choose_pw_def dest: find_Some_iff [THEN iffD1] split: option.split)
    then have b: "?pw < length (pg_inputs p)" by (rule pw_candidates_bound)
    show ?thesis
      using Cons choose [of "c # cs"] scope [OF b] user [of ?pw] nth [OF b]
      by (simp add: findFields_def cands Let_def)
  qed
qed

lemma same_struct_refl [simp]: "same_struct p p"
  by (simp add: same_struct_def)

lemma same_struct_trans: "same_struct p2 p1 \<Longrightarrow> same_struct p1 p0 \<Longrightarrow> same_struct p2 p0"
  by (simp add: same_struct_def)

lemma update_input_nth:
  "pg_inputs (update_input i f p) ! j =
     (if j = i \<and> i < length (pg_inputs p) then f (pg_inputs p ! i) else pg_inputs p ! j)"
  by (cases "i < length (pg_inputs p)")
     (auto simp: update_input_def nth_list_update list_update_beyond not_less)

lemma update_input_length [simp]: "length (pg_inputs (update_input i f p)) = length (pg_inputs p)"
  by (simp add: update_input_def)

lemma update_input_other [simp]:
  "pg_forms (update_input i f p) = pg_forms p" "pg_origin (update_input i f p) = pg_origin p"
  "pg_pickers (update_input i f p) = pg_pickers p" "pg_hooks (update_input i f p) = pg_hooks p"
  by (simp_all add: update_input_def)

lemma same_struct_update:
  "(\<And>el. strip_input (f el) = strip_input el) \<Longrightarrow> same_struct (update_input i f p) p"
  by (simp add: same_struct_def update_input_nth)

lemma strip_marks [simp]:
  "strip_input (el\<lparr>in_value := v\<rparr>) = strip_input el"
  "strip_input (el\<lparr>in_edited := b\<rparr>) = strip_input el"
  "strip_input (el\<lparr>in_applied := b\<rparr>) = strip_input el"
  by (simp_all add: strip_input_def)

lemma dispatchEvent_simps:
  "dispatchEvent (InputEvent i) p = onInputCapture i (p\<lparr>pg_events := pg_events p @ [InputEvent i]\<rparr>)"
  "dispatchEvent (ChangeEvent i) p = p\<lparr>pg_events := pg_events p @ [ChangeEvent i]\<rparr>"
  by (simp_all add: dispatchEvent_def)

text \<open>\<open>setValue\<close> as one update of the input: value written and marked edited.\<close>

lemma setValue_eq:
  "setValue i v p =
     (update_input i (\<lambda>el. el\<lparr>in_value := v, in_edited := True\<rparr>) p)
        \<lparr>pg_events := pg_events p @ [InputEvent i, ChangeEvent i]\<rparr>"
  by (cases "i < length (pg_inputs p)")
     (simp_all add: setValue_def dispatchEvent_simps onInputCapture_def update_input_def
       list_update_beyond not_less)

lemma same_struct_setValue: "same_struct (setValue i v p) p"
  unfolding setValue_eq by (simp add: same_struct_def update_input_nth)

lemma same_struct_mark_applied: "same_struct (mark_applied i p) p"
  unfolding mark_applied_def by (rule same_struct_update) simp

lemma find_Some_mem: "find P xs = Some x \<Longrightarrow> x \<in> set xs \<and> P x"
  by (induction xs) (auto split: if_splits)

lemma findFields_bounds:
  assumes "findFields p = Some ff"
  shows "ff_pw ff < length (pg_inputs p) \<and> ff_pw ff \<in> set (pw_candidates p) \<and>
         pred_option (\<lambda>u. u < length (pg_inputs p) \<and> u \<noteq> ff_pw ff) (ff_user ff)"
proof -
  obtain c cs where cs: "pw_candidates p = c # cs"
    using assms by (cases "pw_candidates p") (auto simp: findFields_def)
  let ?pw = "choose_pw p (c # cs)"
  have m: "?pw \<in> set (pw_candidates p)"
    using cs by (auto simp: choose_pw_def dest: find_Some_iff [THEN iffD1] split: option.split)
  have ff: "ff = \<lparr>ff_form = in_form (pg_inputs p ! ?pw),
                  ff_user = user_loop p ?pw None (scope_inputs p ?pw), ff_pw = ?pw\<rparr>"
    using assms cs by (simp add: findFields_def Let_def)
  have "pred_option (\<lambda>u. u < length (pg_inputs p) \<and> u \<noteq> ?pw) (ff_user ff)"
    using ff by (cases "ff_user ff") (auto simp: user_loop_find dest!: find_Some_mem scope_inputs_bound)
  then show ?thesis
    using m pw_candidates_bound [OF m] ff by simp
qed

lemma same_struct_fill: "same_struct (mark_applied i (setValue i v p)) p"
  by (rule same_struct_trans [OF same_struct_mark_applied same_struct_setValue])

lemma same_struct_applyCred: "same_struct (applyCred c p) p"
proof (cases "findFields p")
  case (Some ff)
  let ?p1 = "case ff_user ff of
               Some u \<Rightarrow> if cred_username c \<noteq> [] then mark_applied u (setValue u (cred_username c) p) else p
             | None \<Rightarrow> p"
  have "same_struct ?p1 p" by (auto simp: same_struct_fill split: option.split)
  then show ?thesis
    using Some same_struct_trans [OF same_struct_fill] by (simp add: applyCred_def Let_def)
qed (simp add: applyCred_def)

lemma applyCred_found:
  assumes "findFields p = Some ff"
  shows "findFields (applyCred c p) = Some ff"
  using same_struct_findFields [OF same_struct_applyCred] assms by simp

lemma find_conv_filter: "find P xs = (case filter P xs of [] \<Rightarrow> None | x # _ \<Rightarrow> Some x)"
  by (induction xs) auto

lemma choose_pw_hd:
  assumes "cs \<noteq> []" shows "choose_pw p cs = hd (filter (in_submit_form p) cs @ cs)"
proof -
  have "(\<lambda>i. case in_form (pg_inputs p ! i) of None \<Rightarrow> False | Some f \<Rightarrow> form_has_submit p f) =
        in_submit_form p"
    by (simp add: fun_eq_iff in_submit_form_def)
  then show ?thesis using assms
    by (simp add: choose_pw_def find_conv_filter split: list.split)
qed

lemma applyCred_nth:
  assumes "findFields p = Some ff"
  shows "pg_inputs (applyCred c p) ! j =
           (if j = ff_pw ff then
              (pg_inputs p ! j)\<lparr>in_value := str_or (cred_password c) [], in_edited := True, in_applied := True\<rparr>
            else if ff_user ff = Some j \<and> cred_username c \<noteq> [] then
              (pg_inputs p ! j)\<lparr>in_value := cred_username c, in_edited := True, in_applied := True\<rparr>
            else pg_inputs p ! j)"
proof -
  have b: "ff_pw ff < length (pg_inputs p)"
    and u: "pred_option (\<lambda>u. u < length (pg_inputs p) \<and> u \<noteq> ff_pw ff) (ff_user ff)"
    using findFields_bounds [OF assms] by simp_all
  show ?thesis
    using assms b u
    by (cases "ff_user ff")
       (auto simp: applyCred_def Let_def setValue_eq mark_applied_def update_input_nth)
qed

lemma applyCred_pw_value [simp]: "str_or s [] = s"
  by (simp add: str_or_def)

lemma precheck_applied:
  assumes "findFields p = Some ff" and "in_edited (pg_inputs p ! ff_pw ff)"
  shows "autofill_precheck p = None"
  using assms by (simp add: autofill_precheck_def)

lemma login_page_fields:
  "findFields login_page = Some \<lparr>ff_form = Some 0, ff_user = Some 0, ff_pw = 1\<rparr>"
  by (simp add: findFields_def login_page_def demo_input_def pw_candidates_def isVisible_def
      js_evals choose_pw_def form_has_submit_def scope_inputs_def input_type_prop_def
      html_input_types_def userHints_def upt_conv_Cons)

lemma login_page_simps [simp]:
  "length (pg_inputs login_page) = 2" "\<not> in_edited (pg_inputs login_page ! 1)"
  "\<not> in_edited (pg_inputs login_page ! Suc 0)"
  by (simp_all add: login_page_def demo_input_def)

lemma fields_update_marks:
  assumes "findFields p = Some ff" and "\<And>el. strip_input (f el) = strip_input el"
  shows "findFields (update_input i f p) = Some ff"
  using same_struct_findFields [OF same_struct_update [OF assms(2)]] assms(1) by simp


lemma applyCred_values:
  "in_value (pg_inputs (applyCred c p) ! j) = in_value (pg_inputs p ! j) \<or>
   in_value (pg_inputs (applyCred c p) ! j) = cred_username c \<or>
   in_value (pg_inputs (applyCred c p) ! j) = cred_password c"
proof (cases "findFields p")
  case None
  then show ?thesis by (simp add: applyCred_def)
next
  case (Some ff)
  then show ?thesis by (simp add: applyCred_nth)
qed

lemma applyCred_pickers [simp]: "pg_pickers (applyCred c p) = pg_pickers p"
  by (auto simp: applyCred_def Let_def setValue_eq mark_applied_def split: option.split)

lemma get_response:
  assumes "bg_reachable s"
  shows "snd (handle_message e (GET_CREDENTIALS_FOR_ORIGIN org) s) =
           (if session_jwk s = None then RespError ELocked
            else RespCreds (creds_for_origin org (vault_plain s)))"
  using handle_get_inv [OF bg_reachable_inv [OF assms]] by (simp split: option.split)

lemma autofill_finish_cases:
  "autofill_finish sp (Some (RespCreds cs)) p = p \<or>
   (\<exists>c\<in>set cs. autofill_finish sp (Some (RespCreds cs)) p = applyCred c p) \<or>
   autofill_finish sp (Some (RespCreds cs)) p = renderPicker cs p"
  by (auto simp: autofill_finish_def split: list.split)

lemma demo_two_sites_get:
  "snd (handle_message e (GET_CREDENTIALS_FOR_ORIGIN ''https://a.example'') demo_two_sites) =
     RespCreds [sample_cred ''a'' ''https://a.example'' ''pa'']"
  using get_response [OF demo_two_sites_reachable] demo_two_sites_facts demo_unlocked_facts(2)
  by (simp add: creds_for_origin_def vault_upsert_def empty_vault_def sample_cred_def)

lemma map_update_same: "(map f xs)[i := f (xs ! i)] = map f xs"
  by (cases "i < length xs") (simp_all add: list_update_beyond not_less map_update [symmetric])

lemma same_struct_ensureSaveHook: "same_struct (ensureSaveHook p) p"
  by (auto simp: ensureSaveHook_def same_struct_def map_update map_update_same split: option.split)

lemma login_page_origin [simp]: "pg_origin login_page = ''https://a.example''"
  by (simp add: login_page_def)

text \<open>C18: \<open>findFields\<close> chooses as the specification's discovery rules say: the
  password field is the first visible, enabled, writable password input inside a form
  with a submit control, else the first such input; the form is its form; and the loop
  over the inputs of that scope picks as user field the first other input that has a
  text-like type, a username/email autocomplete hint, or a name, id or placeholder
  containing a hint.\<close>

theorem findFields_correct:
  assumes "findFields p = Some ff"
  shows "ff_pw ff = hd (filter (in_submit_form p) (pw_candidates p) @ pw_candidates p) \<and>
         ff_pw ff \<in> set (pw_candidates p) \<and> ff_form ff = in_form (pg_inputs p ! ff_pw ff) \<and>
         ff_user ff = find (\<lambda>i. i \<noteq> ff_pw ff \<and> user_match (pg_inputs p ! i)) (scope_inputs p (ff_pw ff))"
proof -
  obtain c cs where cs: "pw_candidates p = c # cs"
    using assms by (cases "pw_candidates p") (auto simp: findFields_def)
  then show ?thesis
    using assms findFields_bounds [OF assms]
    by (auto simp: findFields_def Let_def choose_pw_hd user_loop_find)
qed

theorem findFields_correct_witness:
  "findFields login_page = Some \<lparr>ff_form = Some 0, ff_user = Some 0, ff_pw = 1\<rparr> \<and>
   ff_user \<lparr>ff_form = Some 0, ff_user = Some 0, ff_pw = 1\<rparr> =
     find (\<lambda>i. i \<noteq> 1 \<and> user_match (pg_inputs login_page ! i)) (scope_inputs login_page 1)"
proof -
  have f: "findFields login_page = Some \<lparr>ff_form = Some 0, ff_user = Some 0, ff_pw = 1\<rparr>"
    by (rule login_page_fields)
  have "ff_user \<lparr>ff_form = Some 0, ff_user = Some 0, ff_pw = 1\<rparr> =
        find (\<lambda>i. i \<noteq> ff_pw \<lparr>ff_form = Some (0::nat), ff_user = Some 0, ff_pw = 1\<rparr> \<and>
                   user_match (pg_inputs login_page ! i))
          (scope_inputs login_page (ff_pw \<lparr>ff_form = Some (0::nat), ff_user = Some 0, ff_pw = 1\<rparr>))"
    using findFields_correct [OF f] by blast
  then show ?thesis using f by (simp only: fields.select_convs simp_thms)
qed

text \<open>C19: Skip-on-edit: when the user has typed into the chosen password field or user
  field, \<open>maybeAutofill\<close> returns before requesting credentials: no request is sent
  and the page is untouched, whatever the trigger.\<close>

theorem autofill_skips_edited_fields:
  assumes "findFields (cs_page st) = Some ff"
    and "in_edited (pg_inputs (cs_page st) ! ff_pw ff) \<or>
         (\<exists>u. ff_user ff = Some u \<and> in_edited (pg_inputs (cs_page st) ! u))"
  shows "maybeAutofill sp st = st \<and> cs_step TriggerMessage st = st \<and> cs_step WindowFocus st = st"
proof -
  have "autofill_precheck (cs_page st) = None"
    using assms by (auto simp: autofill_precheck_def Let_def)
  then show ?thesis by (simp add: maybeAutofill_def)
qed

theorem autofill_skips_edited_fields_witness:
  "findFields (cs_page \<lparr>cs_page = update_input 1 (\<lambda>el. el\<lparr>in_edited := True\<rparr>) login_page,
                        cs_pending = [], cs_outbox = []\<rparr>) = Some \<lparr>ff_form = Some 0, ff_user = Some 0, ff_pw = 1\<rparr> \<and>
   cs_step TriggerMessage \<lparr>cs_page = update_input 1 (\<lambda>el. el\<lparr>in_edited := True\<rparr>) login_page,
                           cs_pending = [], cs_outbox = []\<rparr> =
     \<lparr>cs_page = update_input 1 (\<lambda>el. el\<lparr>in_edited := True\<rparr>) login_page, cs_pending = [], cs_outbox = []\<rparr>"
proof -
  let ?st = "\<lparr>cs_page = update_input 1 (\<lambda>el. el\<lparr>in_edited := True\<rparr>) login_page,
              cs_pending = [], cs_outbox = []\<rparr>"
  have f: "findFields (cs_page ?st) = Some \<lparr>ff_form = Some 0, ff_user = Some 0, ff_pw = 1\<rparr>"
    using fields_update_marks [OF login_page_fields] by simp
  have "in_edited (pg_inputs (cs_page ?st) ! ff_pw \<lparr>ff_form = Some (0::nat), ff_user = Some 0, ff_pw = 1\<rparr>)"
    by (simp add: update_input_nth)
  then show ?thesis
    using autofill_skips_edited_fields [OF f, of False] f by blast
qed

text \<open>C20: The cycle breaker: applying a credential fills the password field (and the
  user field when the credential has a username) and leaves the page such that the
  fields found are the same and the next \<open>maybeAutofill\<close> sends no request, so the
  mutations it causes cannot re-trigger an autofill.\<close>

theorem applyCred_breaks_cycle:
  assumes "findFields p = Some ff"
  shows "findFields (applyCred c p) = Some ff \<and>
         in_value (pg_inputs (applyCred c p) ! ff_pw ff) = cred_password c \<and>
         in_applied (pg_inputs (applyCred c p) ! ff_pw ff) \<and>
         (\<forall>u. ff_user ff = Some u \<and> cred_username c \<noteq> [] \<longrightarrow>
              in_value (pg_inputs (applyCred c p) ! u) = cred_username c) \<and>
         autofill_precheck (applyCred c p) = None"
proof -
  have f: "findFields (applyCred c p) = Some ff" by (rule applyCred_found [OF assms])
  have "in_edited (pg_inputs (applyCred c p) ! ff_pw ff)" by (simp add: applyCred_nth [OF assms])
  then show ?thesis
    using f precheck_applied [OF f] findFields_bounds [OF assms]
    by (auto simp: applyCred_nth [OF assms])
qed

theorem applyCred_breaks_cycle_witness:
  "findFields login_page = Some \<lparr>ff_form = Some 0, ff_user = Some 0, ff_pw = 1\<rparr> \<and>
   in_value (pg_inputs (applyCred (sample_cred ''a'' ''https://a.example'' ''pa'') login_page) ! 1) = ''pa'' \<and>
   autofill_precheck (applyCred (sample_cred ''a'' ''https://a.example'' ''pa'') login_page) = None"
  using applyCred_breaks_cycle [OF login_page_fields, of "sample_cred ''a'' ''https://a.example'' ''pa''"]
    login_page_fields
  by (simp add: sample_cred_def)

text \<open>The script's own fill counts as a user edit: \<open>setValue\<close> dispatches an
  \<open>input\<close> event that the script's edit tracker records, so after an autofill the
  password field is marked edited, and autofill stays off even when the page clears
  the field again.\<close>

theorem own_fill_counts_as_user_edit:
  assumes "findFields p = Some ff"
  shows "in_edited (pg_inputs (applyCred c p) ! ff_pw ff) \<and>
         autofill_precheck (update_input (ff_pw ff) (\<lambda>el. el\<lparr>in_value := []\<rparr>) (applyCred c p)) = None"
proof -
  let ?q = "update_input (ff_pw ff) (\<lambda>el. el\<lparr>in_value := []\<rparr>) (applyCred c p)"
  have f: "findFields ?q = Some ff"
    using fields_update_marks [OF applyCred_found [OF assms]] by simp
  have b: "ff_pw ff < length (pg_inputs p)" using findFields_bounds [OF assms] by simp
  have e: "in_edited (pg_inputs (applyCred c p) ! ff_pw ff)" by (simp add: applyCred_nth [OF assms])
  then have "in_edited (pg_inputs ?q ! ff_pw ff)"
    using b same_struct_applyCred [of c p] by (simp add: update_input_nth same_struct_def)
  then show ?thesis using e precheck_applied [OF f] by simp
qed

theorem own_fill_counts_as_user_edit_witness:
  "findFields login_page = Some \<lparr>ff_form = Some 0, ff_user = Some 0, ff_pw = 1\<rparr> \<and>
   \<not> in_edited (pg_inputs login_page ! 1) \<and>
   in_edited (pg_inputs (applyCred (sample_cred ''a'' ''https://a.example'' ''pa'') login_page) ! 1) \<and>
   autofill_precheck (update_input 1 (\<lambda>el. el\<lparr>in_value := []\<rparr>)
      (applyCred (sample_cred ''a'' ''https://a.example'' ''pa'') login_page)) = None"
  using own_fill_counts_as_user_edit [OF login_page_fields, of "sample_cred ''a'' ''https://a.example'' ''pa''"]
    login_page_fields by simp


text \<open>C21: End to end with the worker, an autofill writes only credentials of the page's
  origin: when the answer of the worker to the script's request arrives, every input
  whose value changes receives the username or the password of a stored credential
  whose origins contain the page's origin, every new picker offers only such
  credentials, and a locked worker leaves the page untouched.\<close>

theorem autofill_fills_only_origin_credentials:
  assumes "bg_reachable s" and "k < length (cs_pending st)"
    and "st' = cs_step (Response k (Some (snd (handle_message e (fetch_msg (cs_page st)) s)))) st"
  shows "(\<forall>j. in_value (pg_inputs (cs_page st') ! j) \<noteq> in_value (pg_inputs (cs_page st) ! j) \<longrightarrow>
            (\<exists>c\<in>set (creds (vault_plain s)). pg_origin (cs_page st) \<in> set (cred_origins c) \<and>
               in_value (pg_inputs (cs_page st') ! j) \<in> {cred_username c, cred_password c})) \<and>
         (\<forall>ps\<in>set (pg_pickers (cs_page st')). ps \<in> set (pg_pickers (cs_page st)) \<or>
            (\<forall>c\<in>set ps. c \<in> set (creds (vault_plain s)) \<and> pg_origin (cs_page st) \<in> set (cred_origins c))) \<and>
         (session_jwk s = None \<longrightarrow> cs_page st' = cs_page st)"
proof -
  let ?p = "cs_page st" and ?cs = "creds_for_origin (pg_origin (cs_page st)) (vault_plain s)"
  have page: "cs_page st' = autofill_finish (cs_pending st ! k)
                (Some (snd (handle_message e (fetch_msg ?p) s))) ?p"
    using assms(2,3) by simp
  have ok: "c \<in> set ?cs \<Longrightarrow> c \<in> set (creds (vault_plain s)) \<and> pg_origin ?p \<in> set (cred_origins c)" for c
    by (simp add: creds_for_origin_def)
  show ?thesis
  proof (cases "session_jwk s = None")
    case True
    then show ?thesis
      using page get_response [OF assms(1)] by (simp add: fetch_msg_def autofill_finish_def)
  next
    case False
    have "snd (handle_message e (fetch_msg ?p) s) = RespCreds ?cs"
      unfolding fetch_msg_def get_response [OF assms(1)] using False by (rule if_not_P)
    then have resp: "cs_page st' = autofill_finish (cs_pending st ! k) (Some (RespCreds ?cs)) ?p"
      using page by simp
    from autofill_finish_cases [of "cs_pending st ! k" ?cs ?p] show ?thesis
    proof (elim disjE bexE)
      assume "autofill_finish (cs_pending st ! k) (Some (RespCreds ?cs)) ?p = ?p"
      then show ?thesis using resp False by simp
    next
      fix c assume c: "c \<in> set ?cs"
        and eq: "autofill_finish (cs_pending st ! k) (Some (RespCreds ?cs)) ?p = applyCred c ?p"
      show ?thesis
        using resp eq ok [OF c] applyCred_values [of c ?p] False by auto
    next
      assume "autofill_finish (cs_pending st ! k) (Some (RespCreds ?cs)) ?p = renderPicker ?cs ?p"
      then show ?thesis
        using resp False ok set_take_subset [of 6 ?cs] by (auto simp: renderPicker_def)
    qed
  qed
qed

theorem autofill_fills_only_origin_credentials_witness:
  "bg_reachable demo_two_sites \<and>
   in_value (pg_inputs (cs_page (cs_step (Response 0 (Some (snd (handle_message (demo_env 5000)
      (fetch_msg login_page) demo_two_sites)))) \<lparr>cs_page = login_page, cs_pending = [True], cs_outbox = []\<rparr>)) ! 1) = ''pa'' \<and>
   (\<exists>c. c \<in> set (creds (vault_plain demo_two_sites)) \<and> ''https://a.example'' \<in> set (cred_origins c) \<and>
        ''pa'' \<in> {cred_username c, cred_password c})"
proof -
  let ?st = "\<lparr>cs_page = login_page, cs_pending = [True], cs_outbox = []\<rparr>"
  let ?st' = "cs_step (Response 0 (Some (snd (handle_message (demo_env 5000) (fetch_msg login_page)
                demo_two_sites)))) ?st"
  have v: "in_value (pg_inputs (cs_page ?st') ! 1) = ''pa''"
    using demo_two_sites_get
    by (simp add: fetch_msg_def autofill_finish_def applyCred_nth [OF login_page_fields] sample_cred_def)
  have "in_value (pg_inputs (cs_page ?st') ! 1) \<noteq> in_value (pg_inputs (cs_page ?st) ! 1)"
    using v by (simp add: login_page_def demo_input_def)
  then have "\<exists>c\<in>set (creds (vault_plain demo_two_sites)). ''https://a.example'' \<in> set (cred_origins c) \<and>
               in_value (pg_inputs (cs_page ?st') ! 1) \<in> {cred_username c, cred_password c}"
    using autofill_fills_only_origin_credentials [OF demo_two_sites_reachable _ refl, where st = ?st and k = 0]
    by simp
  then show ?thesis using v demo_two_sites_reachable by auto
qed

text \<open>C22: Save capture end to end with the worker: a submit whose password field is
  empty, or that the user declines, sends nothing; a confirmed submit sends a
  credential with the fresh id, the page's origin and the typed password, which an
  unlocked worker appends to the vault, where the next origin query finds it.\<close>

theorem submit_saves_new_credential:
  assumes "bg_reachable s" and "session_jwk s \<noteq> None" and "uuid \<notin> set (vault_ids (vault_plain s))"
  shows "onSubmit p u pw False uuid = None \<and>
         (in_value (pg_inputs p ! pw) = [] \<longrightarrow> onSubmit p u pw True uuid = None) \<and>
         (in_value (pg_inputs p ! pw) \<noteq> [] \<longrightarrow>
           (\<exists>c. onSubmit p u pw True uuid = Some (SAVE_CREDENTIAL c) \<and>
                cred_id c = uuid \<and> cred_origins c = [pg_origin p] \<and>
                cred_password c = in_value (pg_inputs p ! pw) \<and>
                creds (vault_plain (fst (handle_message e (SAVE_CREDENTIAL c) s))) = creds (vault_plain s) @ [c] \<and>
                creds_for_origin (pg_origin p) (vault_plain (fst (handle_message e (SAVE_CREDENTIAL c) s))) =
                  creds_for_origin (pg_origin p) (vault_plain s) @ [c]))"
proof -
  obtain k where k: "session_jwk s = Some k" using assms(2) by blast
  have inv: "bg_inv s" using bg_reachable_inv [OF assms(1)] .
  have new: "creds (vault_upsert c (vault_plain s)) = creds (vault_plain s) @ [c]" if "cred_id c = uuid" for c
  proof (rule vault_upsert_new)
    show "\<forall>x\<in>set (creds (vault_plain s)). cred_id x \<noteq> cred_id c"
      using assms(3) that by (auto simp: vault_ids_def) (metis image_eqI)
  qed
  show ?thesis
    using write_effect(2) [OF inv k] new
    by (auto simp: onSubmit_def Let_def creds_for_origin_def)
qed

theorem submit_saves_new_credential_witness:
  "bg_reachable demo_unlocked \<and> session_jwk demo_unlocked \<noteq> None \<and>
   ''n1'' \<notin> set (vault_ids (vault_plain demo_unlocked)) \<and>
   onSubmit (update_input 1 (\<lambda>el. el\<lparr>in_value := ''pw1''\<rparr>) login_page) (Some 0) 1 False ''n1'' = None"
  using submit_saves_new_credential [OF demo_unlocked_reachable demo_unlocked_facts(2), of "''n1''"]
    demo_unlocked_reachable demo_unlocked_facts(2,4)
  by (simp add: vault_ids_def empty_vault_def)

text \<open>C23: The skip-on-edit check is not repeated after the request: when the user types
  into the password field while the script waits for the worker's answer, the answer's
  single credential overwrites what the user typed.\<close>

theorem autofill_race_overwrites_edit:
  "in_edited (pg_inputs (cs_page (cs_run [UserInput 1 ''typed'', Response 0
      (Some (RespCreds [sample_cred ''a'' ''https://a.example'' ''pa'']))] (cs_start login_page))) ! 1) \<and>
   in_value (pg_inputs (cs_page (cs_run [UserInput 1 ''typed'', Response 0
      (Some (RespCreds [sample_cred ''a'' ''https://a.example'' ''pa'']))] (cs_start login_page))) ! 1) = ''pa'' \<and>
   cs_outbox (cs_start login_page) = [GET_CREDENTIALS_FOR_ORIGIN ''https://a.example'']"
proof -
  have pre: "autofill_precheck login_page = Some \<lparr>ff_form = Some 0, ff_user = Some 0, ff_pw = 1\<rparr>"
    using login_page_fields by (simp add: autofill_precheck_def login_page_def demo_input_def)
  let ?p0 = "ensureSaveHook login_page"
  have s0: "cs_start login_page = \<lparr>cs_page = ?p0, cs_pending = [True],
                                    cs_outbox = [GET_CREDENTIALS_FOR_ORIGIN ''https://a.example'']\<rparr>"
    by (simp add: cs_start_def maybeAutofill_def pre on_page_def fetch_msg_def)
  have f0: "findFields ?p0 = Some \<lparr>ff_form = Some 0, ff_user = Some 0, ff_pw = 1\<rparr>"
    using login_page_fields same_struct_findFields [OF same_struct_ensureSaveHook] by simp
  let ?p1 = "onInputCapture 1 (update_input 1 (\<lambda>el. el\<lparr>in_value := ''typed''\<rparr>) ?p0)"
  have f1: "findFields ?p1 = Some \<lparr>ff_form = Some 0, ff_user = Some 0, ff_pw = 1\<rparr>"
    unfolding onInputCapture_def by (intro fields_update_marks f0) simp_all
  show ?thesis
    using s0 f1 by (simp add: on_page_def autofill_finish_def applyCred_nth sample_cred_def update_input_nth)
qed

text \<open>The user-field search does not rank its tests: the first input of the form
  that passes any test wins, so a hidden input whose name contains the hint \<open>id\<close>
  and precedes the username field is taken as the user field, and the autofill writes
  the username into it.\<close>

theorem hidden_input_taken_as_user_field:
  "findFields hidden_id_page = Some \<lparr>ff_form = Some 0, ff_user = Some 0, ff_pw = 2\<rparr> \<and>
   input_type_prop (pg_inputs hidden_id_page ! 0) = ''hidden'' \<and>
   input_type_prop (pg_inputs hidden_id_page ! 1) = ''text'' \<and>
   in_value (pg_inputs (applyCred (sample_cred ''a'' ''https://a.example'' ''pa'') hidden_id_page) ! 0) = ''user''"
proof -
  have f: "findFields hidden_id_page = Some \<lparr>ff_form = Some 0, ff_user = Some 0, ff_pw = 2\<rparr>"
    by (simp add: findFields_def hidden_id_page_def demo_input_def pw_candidates_def isVisible_def
        js_evals choose_pw_def form_has_submit_def scope_inputs_def input_type_prop_def
        html_input_types_def userHints_def upt_conv_Cons)
  show ?thesis
    using f by (simp add: applyCred_nth sample_cred_def hidden_id_page_def demo_input_def
        input_type_prop_def html_input_types_def js_evals)
qed

end
