(* ===== verification/ContextMenu.thy ===== *)
theory ContextMenu
  imports Content_Props Autolock
begin

text \<open>
  The context menu of the worker, \<open>background.js\<close> lines 238--291: the items
  \<open>onInstalled\<close> creates, \<open>getCredsForOrigin\<close>, and the \<open>contextMenus.onClicked\<close>
  listener. \<open>Autofill login\<close> sends \<open>TRIGGER_AUTOFILL\<close> to the frame's content script
  (\<open>cs_step TriggerMessage\<close>); the two paste items read the credentials of the page's
  origin and inject a function into the frame that sets the focused element's value
  through the prototype's setter and dispatches \<open>input\<close> and \<open>change\<close>, which on an
  input of the page is \<open>setValue\<close> of the content script. \<open>new URL(url).origin\<close> is
  the browser's URL parser, a parameter (\<open>None\<close> when it throws); every exception of
  the listener is caught and logged, so it ends the action.
\<close>

section \<open>Definitions\<close>

datatype menu_item = PasteUsername | PastePassword | AutofillLogin | OtherItem string

record click_info =
  ci_menuItemId :: menu_item
  ci_pageUrl :: string     \<comment> \<open>\<open>''''\<close> when absent\<close>
  ci_frameId :: nat

datatype menu_effect = MenuNothing | SendTrigger nat | InjectValue nat string

text \<open>Lines 238--243.\<close>

definition getCredsForOrigin :: "bg_env \<Rightarrow> string \<Rightarrow> credential list bg" where
  "getCredsForOrigin e origin =
     es_bind (es_modify (restoreIfLocked e)) (\<lambda>_.
     es_bind (es_assert (\<lambda>s. derivedKey s \<noteq> None) ELocked) (\<lambda>_.
     es_bind (getVaultJson e) (\<lambda>vault.
     es_return (creds_for_origin origin vault))))"

text \<open>Lines 245--291.\<close>

definition onMenuClicked ::
  "bg_env \<Rightarrow> (string \<Rightarrow> string option) \<Rightarrow> click_info \<Rightarrow> string \<Rightarrow> bg_state \<Rightarrow> bg_state \<times> menu_effect" where
  "onMenuClicked e url_origin info tab_url s =
     (let url = str_or (ci_pageUrl info) tab_url in
      if url = [] \<or> \<not> is_http_url url then (s, MenuNothing)
      else case url_origin url of
        None \<Rightarrow> (s, MenuNothing)
      | Some origin \<Rightarrow>
          (case ci_menuItemId info of
             AutofillLogin \<Rightarrow> (s, SendTrigger (ci_frameId info))
           | OtherItem _ \<Rightarrow> (s, MenuNothing)
           | item \<Rightarrow>
               (case getCredsForOrigin e origin s of
                  (s', Inl _) \<Rightarrow> (s', MenuNothing)
                | (s', Inr cs) \<Rightarrow>
                    if cs = [] then (s', MenuNothing)
                    else (s', InjectValue (ci_frameId info)
                                (if item = PasteUsername then str_or (cred_username (last cs)) ''''
                                 else str_or (cred_password (last cs)) '''')))))"

text \<open>The injected function on the frame's page, the focused element being an input of
  the page (\<open>Some i\<close>) or another element, on which the setter and the events change no
  input.\<close>

definition paste_into :: "nat option \<Rightarrow> string \<Rightarrow> page \<Rightarrow> page" where
  "paste_into active v p = (case active of None \<Rightarrow> p | Some i \<Rightarrow> setValue i v p)"

text \<open>What the click does to the content script of the frame.\<close>

definition menu_page_effect :: "menu_effect \<Rightarrow> nat option \<Rightarrow> cs_state \<Rightarrow> cs_state" where
  "menu_page_effect eff active st =
     (case eff of
        MenuNothing \<Rightarrow> st
      | SendTrigger _ \<Rightarrow> cs_step TriggerMessage st
      | InjectValue _ v \<Rightarrow> on_page (paste_into active v) st)"

text \<open>A click on the page \<open>https://a.example/login\<close>, for the examples.\<close>

definition demo_click :: "menu_item \<Rightarrow> click_info" where
  "demo_click item = \<lparr>ci_menuItemId = item, ci_pageUrl = ''https://a.example/login'', ci_frameId = 0\<rparr>"

section \<open>Properties\<close>

lemma getCredsForOrigin_inv:
  assumes "bg_inv s"
  shows "getCredsForOrigin e org s =
           (case session_jwk s of
              None \<Rightarrow> (s, Inl ELocked)
            | Some k \<Rightarrow> (restoreIfLocked e s, Inr (creds_for_origin org (vault_plain s))))"
proof (cases "session_jwk s")
  case None
  with assms have "derivedKey s = None" by (simp add: bg_inv_def)
  with None show ?thesis
    by (simp add: getCredsForOrigin_def restoreIfLocked_eq es_bind_apply es_defs)
next
  case (Some k)
  let ?s1 = "restoreIfLocked e s"
  have k1: "derivedKey ?s1 = Some k"
    using assms Some by (auto simp: restoreIfLocked_eq bg_inv_def split: option.split)
  have "store_ok ?s1" "key_opens ?s1 k"
    using assms Some by (auto simp: restoreIfLocked_eq bg_inv_def split: option.split)
  then have "getVaultJson e ?s1 = (?s1, Inr (vault_plain ?s1))"
    using getVaultJson_opened [OF k1] by blast
  moreover have "vault_plain ?s1 = vault_plain s"
    by (simp add: restoreIfLocked_eq split: option.split)
  ultimately show ?thesis
    using Some k1 by (simp add: getCredsForOrigin_def es_bind_apply es_defs)
qed

lemma onMenuClicked_fst:
  "fst (onMenuClicked e uo info tab s) = s \<or>
   (\<exists>org. fst (onMenuClicked e uo info tab s) = fst (getCredsForOrigin e org s))"
  by (auto simp: onMenuClicked_def Let_def split: option.split menu_item.split prod.split sum.split;
      metis fst_conv)

lemma getCredsForOrigin_state: "fst (getCredsForOrigin e org s) = restoreIfLocked e s"
  by (auto simp: getCredsForOrigin_def getVaultJson_def es_defs Let_def restoreIfLocked_def
      split: option.split sum.split prod.split)

lemma restoreIfLocked_frame:
  "idb_vault (restoreIfLocked e s) = idb_vault s \<and> local_meta (restoreIfLocked e s) = local_meta s \<and>
   session_jwk (restoreIfLocked e s) = session_jwk s"
  by (simp add: restoreIfLocked_def tryRestoreKeyFromSession_def resetAutolockTimer_def split: option.split)

lemma onMenuClicked_cases:
  assumes "bg_inv s"
  shows "fst (onMenuClicked e uo info tab s) \<in> {s, restoreIfLocked e s}"
proof -
  have h: "fst (getCredsForOrigin e org s) \<in> {s, restoreIfLocked e s}" for org
    by (simp add: getCredsForOrigin_inv [OF assms] split: option.split)
  from onMenuClicked_fst [of e uo info tab s] show ?thesis
  proof
    assume "\<exists>org. fst (onMenuClicked e uo info tab s) = fst (getCredsForOrigin e org s)"
    then obtain org where "fst (onMenuClicked e uo info tab s) = fst (getCredsForOrigin e org s)" ..
    with h [of org] show ?thesis by simp
  qed simp
qed

text \<open>C29: The paste actions read the vault without sliding the auto-lock window: on a
  worker holding its key a menu click leaves the whole state, the alarm included,
  unchanged, where \<open>GET_CREDENTIALS_FOR_ORIGIN\<close> re-arms the alarm.\<close>

theorem menu_read_skips_rearm:
  assumes "bg_reachable s" and "derivedKey s \<noteq> None"
  shows "fst (onMenuClicked e uo info tab s) = s \<and>
         autolock_alarm (fst (handle_message e (GET_CREDENTIALS_FOR_ORIGIN org) s)) =
           Some (env_now e + nat (autolock_minutes (autolockMs s)) * 60000)"
proof -
  have inv: "bg_inv s" using bg_reachable_inv [OF assms(1)] .
  obtain k0 where dk: "derivedKey s = Some k0" using assms(2) by blast
  then have "restoreIfLocked e s = s" by (simp add: restoreIfLocked_def)
  moreover obtain k where "session_jwk s = Some k" using inv assms(2) by (auto simp: bg_inv_def)
  ultimately show ?thesis
    using onMenuClicked_cases [OF inv, of e uo info tab] by (simp add: handle_get_inv [OF inv])
qed

text \<open>C30: A context-menu click changes the worker exactly as a \<open>STATUS\<close> message does
  when it is a paste on an \<open>http(s)\<close> page whose origin parses, and not at all otherwise;
  in particular it never writes the stored vault, the metadata or the session export.\<close>

theorem menu_changes_as_status:
  "fst (onMenuClicked e uo info tab s) =
     (let url = str_or (ci_pageUrl info) tab in
      if url \<noteq> [] \<and> is_http_url url \<and> uo url \<noteq> None \<and> ci_menuItemId info \<in> {PasteUsername, PastePassword}
      then fst (handle_message e STATUS s) else s) \<and>
   idb_vault (fst (onMenuClicked e uo info tab s)) = idb_vault s \<and>
   local_meta (fst (onMenuClicked e uo info tab s)) = local_meta s \<and>
   session_jwk (fst (onMenuClicked e uo info tab s)) = session_jwk s"
proof -
  have eq: "fst (onMenuClicked e uo info tab s) =
     (let url = str_or (ci_pageUrl info) tab in
      if url \<noteq> [] \<and> is_http_url url \<and> uo url \<noteq> None \<and> ci_menuItemId info \<in> {PasteUsername, PastePassword}
      then restoreIfLocked e s else s)"
    using getCredsForOrigin_state [of e _ s]
    by (auto simp: onMenuClicked_def Let_def split: option.split menu_item.split prod.split sum.split)
       (metis fst_conv)+
  show ?thesis
    unfolding handle_status using eq restoreIfLocked_frame [of e s] by (auto simp: Let_def)
qed

text \<open>C28: A paste from the context menu injects the username (resp. password) of the last
  credential, in vault order, whose origins contain the origin of an \<open>http(s)\<close> page,
  and only on a worker that holds or can resume the key.\<close>

theorem menu_paste_last_credential:
  assumes "bg_reachable s" and "snd (onMenuClicked e uo info tab s) = InjectValue f v"
  shows "\<exists>org. is_http_url (str_or (ci_pageUrl info) tab) \<and> uo (str_or (ci_pageUrl info) tab) = Some org \<and>
           session_jwk s \<noteq> None \<and> creds_for_origin org (vault_plain s) \<noteq> [] \<and>
           (ci_menuItemId info = PasteUsername \<and> v = cred_username (last (creds_for_origin org (vault_plain s))) \<or>
            ci_menuItemId info = PastePassword \<and> v = cred_password (last (creds_for_origin org (vault_plain s))))"
proof -
  have inv: "bg_inv s" using bg_reachable_inv [OF assms(1)] .
  show ?thesis
    using assms(2)
    by (auto simp: onMenuClicked_def Let_def getCredsForOrigin_inv [OF inv]
        split: if_splits option.splits menu_item.splits)
qed


lemma demo_click_http: "is_http_url (str_or (ci_pageUrl (demo_click item)) [])"
  by (simp add: demo_click_def is_http_url_def js_evals)

theorem menu_read_skips_rearm_witness:
  "fst (onMenuClicked (demo_env 2000) (\<lambda>_. Some ''https://a.example'') (demo_click PastePassword) []
      demo_unlocked) = demo_unlocked \<and>
   autolock_alarm (fst (handle_message (demo_env 2000) (GET_CREDENTIALS_FOR_ORIGIN ''https://a.example'')
      demo_unlocked)) = Some 302000"
proof -
  have live: "derivedKey demo_unlocked \<noteq> None"
    using demo_unlocked_facts(2) demo_unlocked_live by simp
  have ms: "autolockMs demo_unlocked = 300000" by (simp add: demo_evals)
  show ?thesis
    using menu_read_skips_rearm [OF demo_unlocked_reachable live, where e = "demo_env 2000"
        and uo = "\<lambda>_. Some ''https://a.example''" and info = "demo_click PastePassword" and tab = "[]"
        and org = "''https://a.example''"] ms
    by (simp add: demo_env_def autolock_minutes_def js_round_minutes_def)
qed

lemma demo_two_sites_a:
  "creds_for_origin ''https://a.example'' (vault_plain demo_two_sites) =
     [sample_cred ''a'' ''https://a.example'' ''pa'']"
  by (simp add: demo_two_sites_facts(2) creds_for_origin_def vault_upsert_def empty_vault_def sample_cred_def)

theorem menu_paste_last_credential_witness:
  "snd (onMenuClicked (demo_env 4000) (\<lambda>_. Some ''https://a.example'') (demo_click PastePassword) []
      demo_two_sites) = InjectValue 0 ''pa'' \<and>
   creds_for_origin ''https://a.example'' (vault_plain demo_two_sites) \<noteq> []"
proof -
  have inv: "bg_inv demo_two_sites" by (rule bg_reachable_inv [OF demo_two_sites_reachable])
  obtain k where k: "session_jwk demo_two_sites = Some k"
    using demo_two_sites_facts(1) demo_unlocked_facts(2) by auto
  have r: "snd (onMenuClicked (demo_env 4000) (\<lambda>_. Some ''https://a.example'') (demo_click PastePassword) []
      demo_two_sites) = InjectValue 0 ''pa''"
  proof -
    have g: "getCredsForOrigin (demo_env 4000) ''https://a.example'' demo_two_sites =
        (restoreIfLocked (demo_env 4000) demo_two_sites, Inr [sample_cred ''a'' ''https://a.example'' ''pa''])"
      using getCredsForOrigin_inv [OF inv, of "demo_env 4000" "''https://a.example''"] k demo_two_sites_a
      by simp
    show ?thesis
      using demo_click_http [of PastePassword] g
      by (simp add: onMenuClicked_def) (simp add: demo_click_def sample_cred_def)
  qed
  show ?thesis
    using menu_paste_last_credential [OF demo_two_sites_reachable r] r by auto
qed

theorem menu_changes_as_status_witness:
  "fst (onMenuClicked (demo_env 4000) (\<lambda>_. Some ''https://a.example'') (demo_click PasteUsername) []
      demo_two_sites) = fst (handle_message (demo_env 4000) STATUS demo_two_sites) \<and>
   fst (onMenuClicked (demo_env 4000) (\<lambda>_. Some ''https://a.example'') (demo_click AutofillLogin) []
      demo_two_sites) = demo_two_sites"
  using menu_changes_as_status [of "demo_env 4000" "\<lambda>_. Some ''https://a.example''"
      "demo_click PasteUsername" "[]" demo_two_sites]
    menu_changes_as_status [of "demo_env 4000" "\<lambda>_. Some ''https://a.example''"
      "demo_click AutofillLogin" "[]" demo_two_sites]
    demo_click_http [of PasteUsername]
  by (simp add: Let_def demo_click_def)

end
