(* ===== verification/Options.thy ===== *)
theory Options
  imports Session_Props
begin

text \<open>
  The options page \<open>src/extension/options.js\<close>: \<open>load\<close> shows the auto-lock duration of
  the metadata in whole minutes, \<open>saveSecurity\<close> parses the field with
  \<open>parseInt(\<dots>, 10)\<close> and sends \<open>SET_AUTOLOCK\<close> to the worker. \<open>parseInt\<close> is
  modelled after ECMAScript: leading white space (\<open>js_ws\<close>) is skipped, an optional
  sign is read, then the longest run of decimal digits; no digit gives \<open>NaN\<close>
  (\<open>None\<close>). \<open>String(n)\<close> of a non-negative integer is its decimal
  spelling. The page is a step function over its listeners, with the worker and the
  \<open>theme\<close> key of \<open>chrome.storage.local\<close>.
\<close>

section \<open>Numbers and strings\<close>

definition digits_val :: "string \<Rightarrow> nat" where
  "digits_val ds = foldl (\<lambda>acc c. 10 * acc + (of_char c - 48)) 0 ds"

definition parseInt10 :: "string \<Rightarrow> int option" where
  "parseInt10 s =
     (let t = dropWhile js_ws s;
          (sgn, r) = (case t of c # r \<Rightarrow> if c = CHR ''-'' then (-1, r) else if c = CHR ''+'' then (1, r)
                                          else (1, t)
                             | [] \<Rightarrow> (1, t));
          ds = takeWhile is_digit r
      in if ds = [] then None else Some (sgn * int (digits_val ds)))"

definition dec_digit :: "nat \<Rightarrow> char" where
  "dec_digit d = ''0123456789'' ! d"

fun dec_string :: "nat \<Rightarrow> string" where
  "dec_string n = (if n < 10 then [dec_digit n] else dec_string (n div 10) @ [dec_digit (n mod 10)])"

declare dec_string.simps [simp del]

section \<open>The page\<close>

text \<open>Lines 15--22: what pressing \<open>saveSecurity\<close> does with the field's text.\<close>

datatype options_action = AlertInvalidMinutes | SendSetAutolock int

definition saveSecurity :: "string \<Rightarrow> options_action" where
  "saveSecurity field =
     (case parseInt10 (str_or field ''5'') of
        None \<Rightarrow> AlertInvalidMinutes
      | Some minutes \<Rightarrow>
          if minutes < 1 then AlertInvalidMinutes else SendSetAutolock (max 1 minutes * 60 * 1000))"

text \<open>Lines 3--13: the text shown in the minutes field. A missing \<open>meta\<close> reads as
  \<open>undefined\<close>, which \<open>|| 5*60*1000\<close> replaces, like a zero; the rounding is
  \<open>autolock_minutes\<close> of the worker, the same expression.\<close>

definition options_load :: "bg_state \<Rightarrow> string" where
  "options_load s =
     dec_string (nat (autolock_minutes
       (case local_meta s of None \<Rightarrow> 0 | Some m \<Rightarrow> meta_autolockMs m)))"

section \<open>The page and its listeners\<close>

text \<open>The form of the page, the alerts it has shown, and the \<open>theme\<close> key of
  \<open>chrome.storage.local\<close> (the metadata, under the key \<open>meta\<close> of the same area, is the
  worker's \<open>local_meta\<close>).\<close>

datatype options_alert =
    AlertBadMinutes | AlertSecuritySaved | AlertSaveFailed bg_error | AlertThemeSaved

record options_page =
  op_theme :: string      \<comment> \<open>\<open>#theme\<close>\<close>
  op_minutes :: string    \<comment> \<open>\<open>#minutes\<close>\<close>
  op_alerts :: "options_alert list"

type_synonym options_world = "options_page \<times> bg_state \<times> string option"

datatype options_event =
    OptionsLoaded            \<comment> \<open>\<open>DOMContentLoaded\<close>: \<open>load()\<close> and the listeners\<close>
  | TypeMinutes string
  | SelectTheme string
  | SaveSecurityClick
  | SaveThemeClick

text \<open>Lines 3--13, the theme part: \<open>themeObj.theme || 'system'\<close>.\<close>

definition options_load_page :: "options_world \<Rightarrow> options_world" where
  "options_load_page w =
     (case w of (p, s, th) \<Rightarrow>
        (p\<lparr>op_theme := str_or (case th of None \<Rightarrow> [] | Some t \<Rightarrow> t) ''system'',
           op_minutes := options_load s\<rparr>, s, th))"

text \<open>Lines 15--28, with the worker's answer.\<close>

definition saveSecurity_click :: "bg_env \<Rightarrow> options_world \<Rightarrow> options_world" where
  "saveSecurity_click e w =
     (case w of (p, s, th) \<Rightarrow>
        (case saveSecurity (op_minutes p) of
           AlertInvalidMinutes \<Rightarrow> (p\<lparr>op_alerts := op_alerts p @ [AlertBadMinutes]\<rparr>, s, th)
         | SendSetAutolock ms \<Rightarrow>
             (case handle_message e (SET_AUTOLOCK (Some ms)) s of
                (s', r) \<Rightarrow>
                  (p\<lparr>op_alerts := op_alerts p @
                       [case r of RespError err \<Rightarrow> AlertSaveFailed err | _ \<Rightarrow> AlertSecuritySaved]\<rparr>,
                   s', th))))"

text \<open>Lines 30--34.\<close>

definition saveTheme :: "options_world \<Rightarrow> options_world" where
  "saveTheme w =
     (case w of (p, s, th) \<Rightarrow> (p\<lparr>op_alerts := op_alerts p @ [AlertThemeSaved]\<rparr>, s, Some (op_theme p)))"

text \<open>Lines 36--40.\<close>

fun options_step :: "bg_env \<Rightarrow> options_event \<Rightarrow> options_world \<Rightarrow> options_world" where
  "options_step e OptionsLoaded w = options_load_page w"
| "options_step e (TypeMinutes v) (p, s, th) = (p\<lparr>op_minutes := v\<rparr>, s, th)"
| "options_step e (SelectTheme v) (p, s, th) = (p\<lparr>op_theme := v\<rparr>, s, th)"
| "options_step e SaveSecurityClick w = saveSecurity_click e w"
| "options_step e SaveThemeClick w = saveTheme w"

section \<open>Parsing and printing\<close>

lemma dec_digit_props: "d < 10 \<Longrightarrow> is_digit (dec_digit d) \<and> of_char (dec_digit d) - 48 = d"
proof -
  have "\<forall>d\<in>set [0..<10]. is_digit (dec_digit d) \<and> of_char (dec_digit d) - (48::nat) = d"
    by (simp add: dec_digit_def is_digit_def upt_conv_Cons)
  then show "d < 10 \<Longrightarrow> ?thesis" by simp
qed

lemma dec_string_digits: "dec_string n \<noteq> [] \<and> (\<forall>c\<in>set (dec_string n). is_digit c)"
proof (induction n rule: dec_string.induct)
  case (1 n)
  then show ?case
    using dec_digit_props [of n] dec_digit_props [of "n mod 10"]
    by (auto simp: dec_string.simps [of n])
qed

lemma digits_val_snoc: "digits_val (xs @ [c]) = 10 * digits_val xs + (of_char c - 48)"
  by (simp add: digits_val_def)

lemma digits_val_dec_string: "digits_val (dec_string n) = n"
proof (induction n rule: dec_string.induct)
  case (1 n)
  then show ?case
    using dec_digit_props [of n] dec_digit_props [of "n mod 10"]
    by (simp add: dec_string.simps [of n] digits_val_snoc digits_val_def)
qed

lemma parseInt10_digits:
  assumes "ds \<noteq> []" "\<forall>c\<in>set ds. is_digit c"
  shows "parseInt10 ds = Some (int (digits_val ds))"
proof -
  obtain c r where ds: "ds = c # r" using assms(1) by (cases ds) auto
  have c: "is_digit c" "\<not> js_ws c" "c \<noteq> CHR ''-''" "c \<noteq> CHR ''+''"
    using assms(2) by (auto simp: ds is_digit_def js_ws_def)
  have tw: "takeWhile is_digit r = r"
    using assms(2) by (simp add: ds)
  show ?thesis
    using c by (simp add: parseInt10_def ds tw)
qed

text \<open>\<open>parseInt(String(n), 10)\<close> gives back \<open>n\<close> for every non-negative integer: the text
  \<open>load\<close> puts in the minutes field reads back as the number it shows.\<close>

theorem parseInt_dec_string: "parseInt10 (dec_string n) = Some (int n)"
  using parseInt10_digits [of "dec_string n"] dec_string_digits [of n] digits_val_dec_string [of n]
  by simp

section \<open>Saving and loading\<close>

lemma autolock_minutes_whole: "1 \<le> m \<Longrightarrow> autolock_minutes (m * 60000) = m"
  by (simp add: autolock_minutes_def js_round_minutes_def)

lemma saveSecurity_send:
  "saveSecurity field = SendSetAutolock ms \<longleftrightarrow>
     (\<exists>m. parseInt10 (str_or field ''5'') = Some m \<and> 1 \<le> m \<and> ms = m * 60000)"
  by (auto simp: saveSecurity_def split: option.splits)

lemma theme_roundtrip:
  "fst (options_step e OptionsLoaded (options_step e SaveThemeClick (options_step e (SelectTheme t) w))) =
     (let (p, s, th) = w in
      (p\<lparr>op_theme := str_or t ''system'', op_minutes := options_load s,
          op_alerts := op_alerts p @ [AlertThemeSaved]\<rparr>))"
  by (cases w) (simp add: options_load_page_def saveTheme_def)

lemma set_autolock_accepts:
  assumes "local_meta s = Some mt" and "60000 \<le> ms"
  shows "handle_message e (SET_AUTOLOCK (Some ms)) s =
      (let s1 = s\<lparr>local_meta := Some (mt\<lparr>meta_autolockMs := ms\<rparr>), autolockMs := ms\<rparr>
       in (if derivedKey s1 \<noteq> None then resetAutolockTimer (env_now e) s1 else s1, RespOk))"
  using assms by (simp add: handle_message_def handle_set_autolock_def loadMeta_def saveMeta_def Let_def)

lemma set_autolock_accepted_meta:
  assumes "local_meta s = Some mt" and "60000 \<le> ms"
  shows "snd (handle_message e (SET_AUTOLOCK (Some ms)) s) = RespOk \<and>
         local_meta (fst (handle_message e (SET_AUTOLOCK (Some ms)) s)) = Some (mt\<lparr>meta_autolockMs := ms\<rparr>)"
  by (simp add: set_autolock_accepts [OF assms] Let_def resetAutolockTimer_def)

text \<open>C31: Save and reload, end to end with the worker: after the user types a text that
  \<open>parseInt\<close> reads as a whole number \<open>m \<ge> 1\<close> of minutes and presses save on a
  worker with metadata, the page alerts success, the metadata holds \<open>m\<close> minutes in
  milliseconds, the theme key is untouched, and the reloaded page shows \<open>m\<close>.\<close>

theorem options_page_save_reload:
  assumes "local_meta s \<noteq> None" and "parseInt10 (str_or v ''5'') = Some m" and "1 \<le> m"
  shows "op_minutes (fst (options_step e OptionsLoaded (options_step e SaveSecurityClick
            (options_step e (TypeMinutes v) (p, s, th))))) = dec_string (nat m) \<and>
         last (op_alerts (fst (options_step e OptionsLoaded (options_step e SaveSecurityClick
            (options_step e (TypeMinutes v) (p, s, th)))))) = AlertSecuritySaved \<and>
         map_option meta_autolockMs (local_meta (fst (snd (options_step e OptionsLoaded
            (options_step e SaveSecurityClick (options_step e (TypeMinutes v) (p, s, th))))))) =
           Some (m * 60000) \<and>
         snd (snd (options_step e OptionsLoaded (options_step e SaveSecurityClick
            (options_step e (TypeMinutes v) (p, s, th))))) = th"
proof -
  obtain mt where mt: "local_meta s = Some mt" using assms(1) by blast
  have send: "saveSecurity v = SendSetAutolock (m * 60000)"
    using assms(2,3) saveSecurity_send by blast
  have f: "60000 \<le> m * 60000" using assms(3) by simp
  obtain s' where hm: "handle_message e (SET_AUTOLOCK (Some (m * 60000))) s = (s', RespOk)"
    and meta: "local_meta s' = Some (mt\<lparr>meta_autolockMs := m * 60000\<rparr>)"
    using set_autolock_accepted_meta [OF mt f, of e] by (cases "handle_message e (SET_AUTOLOCK (Some (m * 60000))) s") auto
  show ?thesis
    using hm meta send autolock_minutes_whole [OF assms(3)]
    by (simp add: saveSecurity_click_def options_load_page_def options_load_def)
qed

theorem options_page_save_reload_witness:
  "op_minutes (fst (options_step (demo_env 0) OptionsLoaded (options_step (demo_env 0) SaveSecurityClick
      (options_step (demo_env 0) (TypeMinutes ''10'') (\<lparr>op_theme = [], op_minutes = [], op_alerts = []\<rparr>,
         demo_unlocked, None))))) = ''10''"
proof -
  have p: "parseInt10 (str_or ''10'' ''5'') = Some 10"
    by (simp add: parseInt10_def js_ws_def is_digit_def digits_val_def)
  have m: "local_meta demo_unlocked \<noteq> None"
    using demo_unlocked_facts(2) by (simp add: demo_evals)
  show ?thesis
    using options_page_save_reload [OF m p, where e = "demo_env 0" and p = "\<lparr>op_theme = [], op_minutes = [], op_alerts = []\<rparr>" and th = None]
    by (simp add: dec_string.simps dec_digit_def)
qed

end
