(* ===== verification/Popup.thy ===== *)
theory Popup
  imports Session_Props
begin

text \<open>
  The popup \<open>src/extension/popup.js\<close>: its view state (which panel shows, the rows of
  the credential list, the fields of the add form and of the edit dialog, the alerts)
  and every listener \<open>wire\<close> installs, each run to completion together with the
  worker's handling of the message it sends (\<open>chrome.runtime.sendMessage\<close> is answered
  by \<open>handle_message\<close>). The text the page shows for an error is the error's message;
  the model keeps the error value. \<open>new URL(url).origin\<close> is the URL parser of the
  browser, a parameter (\<open>None\<close> when it throws). Markup, styling and
  \<open>escapeHtml\<close> are presentation and not modelled.
\<close>

section \<open>The origins field\<close>

text \<open>Lines 78 and 144: \<open>value.split(',').map(s => s.trim()).filter(Boolean)\<close>.\<close>

definition parse_origins :: "string \<Rightarrow> string list" where
  "parse_origins v = filter (\<lambda>x. x \<noteq> []) (map js_trim (js_split CHR '','' v))"

text \<open>An origin list the field can hold: non-empty, trimmed entries without commas.\<close>

definition origins_wf :: "string list \<Rightarrow> bool" where
  "origins_wf os \<longleftrightarrow> (\<forall>x\<in>set os. x \<noteq> [] \<and> js_trim x = x \<and> CHR '','' \<notin> set x)"

section \<open>State and events\<close>

datatype popup_view = LockedView | VaultView

datatype popup_alert = AlertPasswordRequired | AlertSaveFailed bg_error

record popup_state =
  pp_view :: popup_view
  pp_rows :: "credential list"         \<comment> \<open>the \<open>li\<close> of \<open>#list\<close>, in order\<close>
  pp_unlockError :: "bg_error option"  \<comment> \<open>\<open>#unlockError\<close>\<close>
  pp_masterInput :: string
  pp_search :: string
  pp_inOrigins :: string
  pp_inUser :: string
  pp_inPass :: string
  pp_inNotes :: string
  pp_dialog_open :: bool
  pp_editId :: string
  pp_editOrigins :: string
  pp_editUser :: string
  pp_editPass :: string
  pp_editNotes :: string
  pp_alerts :: "popup_alert list"
  pp_clipboard :: string

datatype popup_field =
    MasterInput | InOrigins | InUser | InPass | InNotes
  | EditOrigins | EditUser | EditPass | EditNotes

datatype popup_event =
    PopupLoaded                 \<comment> \<open>\<open>DOMContentLoaded\<close>: \<open>wire()\<close>, \<open>status()\<close>\<close>
  | UserTypes popup_field string
  | SearchInput string          \<comment> \<open>typing into \<open>#search\<close> runs \<open>refreshList\<close>\<close>
  | UnlockClick                 \<comment> \<open>the button or Enter in \<open>#masterInput\<close>\<close>
  | SaveClick string string     \<comment> \<open>\<open>crypto.randomUUID()\<close> and the active tab's URL\<close>
  | GenClick
  | LockClick
  | CopyClick nat
  | DeleteClick nat
  | EditClick nat
  | EditGenClick
  | EditSaveClick
  | EditCancelClick

text \<open>The page as \<open>popup.html\<close> loads it: the locked panel, empty fields and list.\<close>

definition popup_init :: popup_state where
  "popup_init = \<lparr>pp_view = LockedView, pp_rows = [], pp_unlockError = None, pp_masterInput = [],
     pp_search = [], pp_inOrigins = [], pp_inUser = [], pp_inPass = [], pp_inNotes = [],
     pp_dialog_open = False, pp_editId = [], pp_editOrigins = [], pp_editUser = [],
     pp_editPass = [], pp_editNotes = [], pp_alerts = [], pp_clipboard = []\<rparr>"

section \<open>The listeners\<close>

type_synonym popup_world = "popup_state \<times> bg_state"

definition resp_ok :: "response \<Rightarrow> bool" where
  "resp_ok r \<longleftrightarrow> (case r of RespError _ \<Rightarrow> False | _ \<Rightarrow> True)"

text \<open>Line 49: the search filter, on lowercased text.\<close>

definition row_matches :: "string \<Rightarrow> credential \<Rightarrow> bool" where
  "row_matches q c \<longleftrightarrow>
     q = [] \<or> js_includes (js_toLowerCase (cred_username c)) q \<or>
     js_includes (js_toLowerCase (js_join '','' (cred_origins c))) q"

text \<open>Lines 41--75.\<close>

definition refreshList :: "bg_env \<Rightarrow> popup_world \<Rightarrow> popup_world" where
  "refreshList e w =
     (let (p, s) = w; q = js_toLowerCase (pp_search p);
          (s', r) = handle_message e LIST_CREDENTIALS s
      in (p\<lparr>pp_rows := (case r of RespCreds cs \<Rightarrow> filter (row_matches q) cs | _ \<Rightarrow> [])\<rparr>, s'))"

text \<open>Lines 8--17.\<close>

definition showLocked :: "popup_world \<Rightarrow> popup_world" where
  "showLocked w = (let (p, s) = w in (p\<lparr>pp_view := LockedView\<rparr>, s))"

definition showVault :: "bg_env \<Rightarrow> popup_world \<Rightarrow> popup_world" where
  "showVault e w = (let (p, s) = w in refreshList e (p\<lparr>pp_view := VaultView\<rparr>, s))"

text \<open>Lines 19--24.\<close>

definition popup_status :: "bg_env \<Rightarrow> popup_world \<Rightarrow> popup_world" where
  "popup_status e w =
     (let (p, s) = w; (s', r) = handle_message e STATUS s
      in if r = RespStatus True then showVault e (p, s') else showLocked (p, s'))"

text \<open>Lines 26--39.\<close>

definition popup_unlock :: "bg_env \<Rightarrow> popup_world \<Rightarrow> popup_world" where
  "popup_unlock e w =
     (let (p, s) = w; (s', r) = handle_message e (UNLOCK (pp_masterInput p)) s
      in case r of
           RespError err \<Rightarrow> (p\<lparr>pp_unlockError := Some err\<rparr>, s')
         | _ \<Rightarrow> showVault e (p\<lparr>pp_unlockError := None, pp_masterInput := ''''\<rparr>, s'))"

text \<open>Lines 77--109.\<close>

definition saveCredential ::
  "bg_env \<Rightarrow> (string \<Rightarrow> string option) \<Rightarrow> string \<Rightarrow> string \<Rightarrow> popup_world \<Rightarrow> popup_world" where
  "saveCredential e url_origin uuid tab_url w =
     (let (p, s) = w; origins0 = parse_origins (pp_inOrigins p)
      in if pp_inPass p = [] then (p\<lparr>pp_alerts := pp_alerts p @ [AlertPasswordRequired]\<rparr>, s)
         else
           (let origins =
                  (if origins0 = [] \<and> tab_url \<noteq> [] \<and> is_http_url tab_url
                   then (case url_origin tab_url of None \<Rightarrow> [] | Some org \<Rightarrow> [org]) else origins0);
                cred = \<lparr>cred_id = uuid, cred_origins = origins, cred_username = pp_inUser p,
                        cred_password = pp_inPass p, cred_notes = pp_inNotes p, cred_origin = None\<rparr>;
                (s', r) = handle_message e (SAVE_CREDENTIAL cred) s
            in case r of
                 RespError err \<Rightarrow> (p\<lparr>pp_alerts := pp_alerts p @ [AlertSaveFailed err]\<rparr>, s')
               | _ \<Rightarrow> refreshList e (p\<lparr>pp_inOrigins := '''', pp_inUser := '''', pp_inPass := '''',
                                       pp_inNotes := ''''\<rparr>, s')))"

text \<open>Lines 111--114 and 136--139: \<open>GENERATE_PASSWORD\<close> with \<open>{length: 20}\<close>.\<close>

definition popup_gen_options :: gen_options where
  "popup_gen_options = \<lparr>opt_length = 20, opt_lower = None, opt_upper = None, opt_digits = None,
     opt_symbols = None\<rparr>"

definition genPassword :: "bg_env \<Rightarrow> popup_world \<Rightarrow> string option \<times> bg_state" where
  "genPassword e w =
     (let (s', r) = handle_message e (GENERATE_PASSWORD popup_gen_options) (snd w)
      in (case r of RespPassword pw \<Rightarrow> Some pw | _ \<Rightarrow> None, s'))"

text \<open>Lines 160--168.\<close>

definition openEditDialog :: "credential \<Rightarrow> popup_state \<Rightarrow> popup_state" where
  "openEditDialog c p =
     p\<lparr>pp_editId := cred_id c, pp_editOrigins := js_join '', '' (cred_origins c),
       pp_editUser := str_or (cred_username c) '''', pp_editPass := str_or (cred_password c) '''',
       pp_editNotes := str_or (cred_notes c) '''', pp_dialog_open := True\<rparr>"

text \<open>Lines 141--155.\<close>

definition editSave :: "bg_env \<Rightarrow> popup_world \<Rightarrow> popup_world" where
  "editSave e w =
     (let (p, s) = w;
          cred = \<lparr>cred_id = pp_editId p, cred_origins = parse_origins (pp_editOrigins p),
                  cred_username = pp_editUser p, cred_password = pp_editPass p,
                  cred_notes = pp_editNotes p, cred_origin = None\<rparr>
      in if pp_editId p = [] then w
         else (let (s', r) = handle_message e (SAVE_CREDENTIAL cred) s
               in if resp_ok r then refreshList e (p\<lparr>pp_dialog_open := False\<rparr>, s') else (p, s')))"

definition set_field :: "popup_field \<Rightarrow> string \<Rightarrow> popup_state \<Rightarrow> popup_state" where
  "set_field f v p =
     (case f of
        MasterInput \<Rightarrow> p\<lparr>pp_masterInput := v\<rparr> | InOrigins \<Rightarrow> p\<lparr>pp_inOrigins := v\<rparr>
      | InUser \<Rightarrow> p\<lparr>pp_inUser := v\<rparr> | InPass \<Rightarrow> p\<lparr>pp_inPass := v\<rparr> | InNotes \<Rightarrow> p\<lparr>pp_inNotes := v\<rparr>
      | EditOrigins \<Rightarrow> p\<lparr>pp_editOrigins := v\<rparr> | EditUser \<Rightarrow> p\<lparr>pp_editUser := v\<rparr>
      | EditPass \<Rightarrow> p\<lparr>pp_editPass := v\<rparr> | EditNotes \<Rightarrow> p\<lparr>pp_editNotes := v\<rparr>)"

text \<open>Lines 116--158: the listeners. The buttons of a row act on the credential of that
  row; an index beyond the rows is a click on nothing.\<close>

fun popup_step ::
  "bg_env \<Rightarrow> (string \<Rightarrow> string option) \<Rightarrow> popup_event \<Rightarrow> popup_world \<Rightarrow> popup_world" where
  "popup_step e uo PopupLoaded w = popup_status e w"
| "popup_step e uo (UserTypes f v) w = (set_field f v (fst w), snd w)"
| "popup_step e uo (SearchInput v) w = refreshList e ((fst w)\<lparr>pp_search := v\<rparr>, snd w)"
| "popup_step e uo UnlockClick w = popup_unlock e w"
| "popup_step e uo (SaveClick uuid url) w = saveCredential e uo uuid url w"
| "popup_step e uo GenClick w =
     (case genPassword e w of (pw, s') \<Rightarrow>
        ((case pw of None \<Rightarrow> fst w | Some v \<Rightarrow> (fst w)\<lparr>pp_inPass := v\<rparr>), s'))"
| "popup_step e uo LockClick w = showLocked ((fst w), fst (handle_message e LOCK (snd w)))"
| "popup_step e uo (CopyClick i) w =
     (if i < length (pp_rows (fst w))
      then ((fst w)\<lparr>pp_clipboard := str_or (cred_password (pp_rows (fst w) ! i)) ''''\<rparr>, snd w) else w)"
| "popup_step e uo (DeleteClick i) w =
     (if i < length (pp_rows (fst w))
      then refreshList e (fst w,
             fst (handle_message e (DELETE_CREDENTIAL (cred_id (pp_rows (fst w) ! i))) (snd w)))
      else w)"
| "popup_step e uo (EditClick i) w =
     (if i < length (pp_rows (fst w)) then (openEditDialog (pp_rows (fst w) ! i) (fst w), snd w) else w)"
| "popup_step e uo EditGenClick w =
     (case genPassword e w of (pw, s') \<Rightarrow>
        ((case pw of None \<Rightarrow> fst w | Some v \<Rightarrow> (fst w)\<lparr>pp_editPass := v\<rparr>), s'))"
| "popup_step e uo EditSaveClick w = editSave e w"
| "popup_step e uo EditCancelClick w = ((fst w)\<lparr>pp_dialog_open := False\<rparr>, snd w)"

section \<open>Splitting, trimming and joining origins\<close>

text \<open>The origins the field yields are non-empty, trimmed and free of commas.\<close>

lemma parse_origins_wf: "origins_wf (parse_origins v)"
  using js_split_pieces js_trim_subset js_trim_idem
  by (fastforce simp: origins_wf_def parse_origins_def)

lemma split_join:
  "origins_wf (x # xs) \<Longrightarrow> map js_trim (js_split CHR '','' (js_join '', '' (x # xs))) = x # xs"
proof (induction xs arbitrary: x)
  case Nil
  then show ?case by (simp add: js_split_no_sep origins_wf_def)
next
  case (Cons y ys)
  have x: "CHR '','' \<notin> set x" "js_trim x = x" and wf: "origins_wf (y # ys)"
    using Cons.prems by (simp_all add: origins_wf_def)
  have "js_join '', '' (x # y # ys) = x @ CHR '','' # CHR '' '' # js_join '', '' (y # ys)" by simp
  then show ?case
    using Cons.IH [OF wf] x by (simp add: js_split_append js_split_space del: js_split.simps)
qed

lemma parse_join_origins: "origins_wf os \<Longrightarrow> parse_origins (js_join '', '' os) = os"
proof (cases os)
  case Nil
  then show ?thesis by (simp add: parse_origins_def js_trim_def)
next
  case (Cons x xs)
  assume wf: "origins_wf os"
  then have "filter (\<lambda>x. x \<noteq> []) os = os" by (auto simp: origins_wf_def)
  then show ?thesis using split_join wf Cons by (simp add: parse_origins_def)
qed

section \<open>The edit dialog\<close>

lemma refreshList_eq:
  "refreshList e (p, s) =
     (p\<lparr>pp_rows := (case snd (handle_message e LIST_CREDENTIALS s) of
                       RespCreds cs \<Rightarrow> filter (row_matches (js_toLowerCase (pp_search p))) cs
                     | _ \<Rightarrow> [])\<rparr>,
      fst (handle_message e LIST_CREDENTIALS s))"
  by (simp add: refreshList_def split: prod.split)

lemma list_keeps_vault:
  "bg_inv s \<Longrightarrow> vault_plain (fst (handle_message e LIST_CREDENTIALS s)) = vault_plain s"
  by (simp add: handle_list_inv split: option.split)

lemma str_or_empty [simp]: "str_or x '''' = x"
  by (simp add: str_or_def)

lemma editSave_open:
  assumes "pp_editId p \<noteq> []"
  shows "editSave e (p, s) =
     (let cred = \<lparr>cred_id = pp_editId p, cred_origins = parse_origins (pp_editOrigins p),
                  cred_username = pp_editUser p, cred_password = pp_editPass p,
                  cred_notes = pp_editNotes p, cred_origin = None\<rparr>;
          (s', r) = handle_message e (SAVE_CREDENTIAL cred) s
      in if resp_ok r then refreshList e (p\<lparr>pp_dialog_open := False\<rparr>, s') else (p, s'))"
  using assms by (simp add: editSave_def Let_def split: prod.split)

text \<open>C35: The \<open>Save\<close> button of the popup, end to end with the worker: without a
  password it only alerts; on a locked worker it alerts \<open>Locked\<close> and changes nothing;
  otherwise the credential with the fresh id, the typed origins (or, when none are
  typed, the origin of an \<open>http(s)\<close> active tab) and the typed fields is appended to the
  stored vault, the session is kept and the form is cleared.\<close>

lemma save_fresh_appends:
  assumes "bg_inv s" and "session_jwk s = Some k" and "cred_id c \<notin> set (vault_ids (vault_plain s))"
  obtains s1 where "handle_message e (SAVE_CREDENTIAL c) s = (s1, RespOk)" and "bg_inv s1"
    and "session_jwk s1 = Some k" and "creds (vault_plain s1) = creds (vault_plain s) @ [c]"
proof -
  obtain s1 where save: "handle_message e (SAVE_CREDENTIAL c) s = (s1, RespOk)"
    using assms(2) by (simp add: handle_save_inv [OF assms(1)])
  have "creds (vault_upsert c (vault_plain s)) = creds (vault_plain s) @ [c]"
    by (rule vault_upsert_new) (use assms(3) in \<open>auto simp: vault_ids_def image_iff\<close>)
  then show ?thesis
    using that save handle_message_inv [OF assms(1), of e "SAVE_CREDENTIAL c"]
      write_effect(1,2) [OF assms(1,2), where e = e and c = c] by simp
qed

lemma saveCredential_sent:
  assumes "pp_inPass p \<noteq> []"
  shows "saveCredential e uo uuid url (p, s) =
     (let typed = parse_origins (pp_inOrigins p);
          c = \<lparr>cred_id = uuid,
               cred_origins = (if typed = [] \<and> url \<noteq> [] \<and> is_http_url url
                               then (case uo url of None \<Rightarrow> [] | Some org \<Rightarrow> [org]) else typed),
               cred_username = pp_inUser p, cred_password = pp_inPass p,
               cred_notes = pp_inNotes p, cred_origin = None\<rparr>
      in case handle_message e (SAVE_CREDENTIAL c) s of
           (s', RespError err) \<Rightarrow> (p\<lparr>pp_alerts := pp_alerts p @ [AlertSaveFailed err]\<rparr>, s')
         | (s', _) \<Rightarrow> refreshList e (p\<lparr>pp_inOrigins := '''', pp_inUser := '''', pp_inPass := '''',
                                            pp_inNotes := ''''\<rparr>, s'))"
  using assms by (simp add: saveCredential_def Let_def split: prod.split response.split)

theorem popup_save_stores_form:
  assumes "bg_reachable s" and "uuid \<notin> set (vault_ids (vault_plain s))"
  shows "(pp_inPass p = [] \<longrightarrow>
            popup_step e uo (SaveClick uuid url) (p, s) =
              (p\<lparr>pp_alerts := pp_alerts p @ [AlertPasswordRequired]\<rparr>, s)) \<and>
         (pp_inPass p \<noteq> [] \<and> session_jwk s = None \<longrightarrow>
            popup_step e uo (SaveClick uuid url) (p, s) =
              (p\<lparr>pp_alerts := pp_alerts p @ [AlertSaveFailed ELocked]\<rparr>, s)) \<and>
         (pp_inPass p \<noteq> [] \<and> session_jwk s \<noteq> None \<longrightarrow>
            (let w' = popup_step e uo (SaveClick uuid url) (p, s);
                 typed = parse_origins (pp_inOrigins p);
                 origins = (if typed = [] \<and> url \<noteq> [] \<and> is_http_url url
                            then (case uo url of None \<Rightarrow> [] | Some org \<Rightarrow> [org]) else typed)
             in creds (vault_plain (snd w')) =
                  creds (vault_plain s) @
                    [\<lparr>cred_id = uuid, cred_origins = origins, cred_username = pp_inUser p,
                      cred_password = pp_inPass p, cred_notes = pp_inNotes p, cred_origin = None\<rparr>] \<and>
                session_jwk (snd w') = session_jwk s \<and>
                pp_inOrigins (fst w') = [] \<and> pp_inUser (fst w') = [] \<and>
                pp_inPass (fst w') = [] \<and> pp_inNotes (fst w') = []))"
proof -
  have inv: "bg_inv s" using bg_reachable_inv [OF assms(1)] .
  have locked: "session_jwk s = None \<Longrightarrow> handle_message e (SAVE_CREDENTIAL c) s = (s, RespError ELocked)"
    for c by (simp add: handle_save_inv [OF inv])
  show ?thesis
    apply (intro conjI impI)
    subgoal by (simp add: saveCredential_def)
    subgoal by (simp add: saveCredential_sent locked Let_def)
    subgoal premises a
    proof -
      obtain k where k: "session_jwk s = Some k" using a by blast
      let ?typed = "parse_origins (pp_inOrigins p)"
      let ?c = "\<lparr>cred_id = uuid,
                 cred_origins = (if ?typed = [] \<and> url \<noteq> [] \<and> is_http_url url
                                 then (case uo url of None \<Rightarrow> [] | Some org \<Rightarrow> [org]) else ?typed),
                 cred_username = pp_inUser p, cred_password = pp_inPass p,
                 cred_notes = pp_inNotes p, cred_origin = None\<rparr>"
      obtain s1 where s1: "handle_message e (SAVE_CREDENTIAL ?c) s = (s1, RespOk)" "bg_inv s1"
          "session_jwk s1 = Some k" "creds (vault_plain s1) = creds (vault_plain s) @ [?c]"
        using save_fresh_appends [OF inv k, of ?c e] assms(2) by auto
      then show ?thesis
        using a k list_keeps_vault [OF s1(2)]
        by (simp add: saveCredential_sent Let_def refreshList_eq handle_list_inv [OF s1(2)])
    qed
    done
qed

text \<open>C34: The edit dialog round trip, end to end with the worker: opening the dialog on a
  row of an unlocked popup and saving it unchanged upserts the same credential
  (origins joined with \<open>', '\<close> and split again), except that the \<open>origin\<close> field the
  content script recorded is dropped, and closes the dialog.\<close>

theorem edit_dialog_roundtrip:
  assumes "bg_reachable s" and "session_jwk s \<noteq> None" and "i < length (pp_rows p)"
    and "cred_id (pp_rows p ! i) \<noteq> []" and "origins_wf (cred_origins (pp_rows p ! i))"
  shows "vault_plain (snd (popup_step e uo EditSaveClick (popup_step e uo (EditClick i) (p, s)))) =
           vault_upsert ((pp_rows p ! i)\<lparr>cred_origin := None\<rparr>) (vault_plain s) \<and>
         \<not> pp_dialog_open (fst (popup_step e uo EditSaveClick (popup_step e uo (EditClick i) (p, s))))"
proof -
  let ?c = "pp_rows p ! i"
  let ?p1 = "openEditDialog ?c p"
  let ?cred = "?c\<lparr>cred_origin := None\<rparr>"
  have inv: "bg_inv s" using bg_reachable_inv [OF assms(1)] .
  obtain k where k: "session_jwk s = Some k" using assms(2) by blast
  have step1: "popup_step e uo (EditClick i) (p, s) = (?p1, s)" using assms(3) by simp
  have cred: "\<lparr>cred_id = pp_editId ?p1, cred_origins = parse_origins (pp_editOrigins ?p1),
                cred_username = pp_editUser ?p1, cred_password = pp_editPass ?p1,
                cred_notes = pp_editNotes ?p1, cred_origin = None\<rparr> = ?cred"
    using assms(5) by (simp add: openEditDialog_def parse_join_origins)
  obtain s1 where save: "handle_message e (SAVE_CREDENTIAL ?cred) s = (s1, RespOk)"
    using k by (simp add: handle_save_inv [OF inv])
  have inv1: "bg_inv s1" using handle_message_inv [OF inv] save by (metis fst_conv)
  have v1: "vault_plain s1 = vault_upsert ?cred (vault_plain s)"
    using write_effect(2) [OF inv k, where e = e and c = ?cred] save by simp
  have "popup_step e uo EditSaveClick (?p1, s) = refreshList e (?p1\<lparr>pp_dialog_open := False\<rparr>, s1)"
    using assms(4) save cred by (simp add: editSave_open openEditDialog_def resp_ok_def)
  then show ?thesis
    using step1 v1 list_keeps_vault [OF inv1] by (simp add: refreshList_eq)
qed

theorem edit_dialog_roundtrip_witness:
  "vault_plain (snd (popup_step (demo_env 5000) (\<lambda>_. None) EditSaveClick
      (popup_step (demo_env 5000) (\<lambda>_. None) (EditClick 0)
        (popup_init\<lparr>pp_rows := [sample_cred ''a'' ''https://a.example'' ''pa'']\<rparr>, demo_two_sites)))) =
   vault_upsert (sample_cred ''a'' ''https://a.example'' ''pa'') (vault_plain demo_two_sites)"
proof -
  let ?p = "popup_init\<lparr>pp_rows := [sample_cred ''a'' ''https://a.example'' ''pa'']\<rparr>"
  have j: "session_jwk demo_two_sites \<noteq> None"
    using demo_two_sites_facts(1) demo_unlocked_facts(2) by simp
  have i: "0 < length (pp_rows ?p)" "cred_id (pp_rows ?p ! 0) \<noteq> []" by (simp_all add: sample_cred_def)
  have wf: "origins_wf (cred_origins (pp_rows ?p ! 0))"
    by (simp add: sample_cred_def origins_wf_def js_trim_def js_ws_def)
  have u: "(pp_rows ?p ! 0)\<lparr>cred_origin := None\<rparr> = sample_cred ''a'' ''https://a.example'' ''pa''"
    by (simp add: sample_cred_def)
  show ?thesis
    using edit_dialog_roundtrip [OF demo_two_sites_reachable j i wf, where e = "demo_env 5000" and uo = "\<lambda>_. None"] u
    by simp
qed

lemma parse_origins_single: "parse_origins ''https://c.example'' = [''https://c.example'']"
  by (simp add: parse_origins_def js_evals js_trim_def js_ws_def)

theorem popup_save_stores_form_witness:
  "creds (vault_plain (snd (popup_step (demo_env 5000) (\<lambda>_. None) (SaveClick ''c'' [])
      (popup_init\<lparr>pp_inOrigins := ''https://c.example'', pp_inPass := ''pc''\<rparr>, demo_two_sites)))) =
   creds (vault_plain demo_two_sites) @
     [\<lparr>cred_id = ''c'', cred_origins = [''https://c.example''], cred_username = [],
       cred_password = ''pc'', cred_notes = [], cred_origin = None\<rparr>]"
proof -
  have fresh: "''c'' \<notin> set (vault_ids (vault_plain demo_two_sites))"
    by (simp add: demo_two_sites_facts(2) vault_ids_def vault_upsert_def empty_vault_def sample_cred_def)
  have j: "session_jwk demo_two_sites \<noteq> None"
    using demo_two_sites_facts(1) demo_unlocked_facts(2) by simp
  show ?thesis
    using popup_save_stores_form [OF demo_two_sites_reachable fresh, where e = "demo_env 5000"
        and uo = "\<lambda>_. None" and url = "[]"
        and p = "popup_init\<lparr>pp_inOrigins := ''https://c.example'', pp_inPass := ''pc''\<rparr>"] j
    by (simp add: Let_def parse_origins_single popup_init_def)
qed

end
