(* ===== verification/Storage.thy ===== *)
theory Storage
  imports Background
begin

text \<open>
  The IndexedDB helpers of \<open>src/extension/scripts/storage.js\<close> over a model of the
  database: the module variable \<open>dbPromise\<close> (whether the connection is cached), whether
  the database \<open>passvault\<close> exists at version 1, and its object stores, each a map from
  keys to values. \<open>ensureDB\<close> opens the database once, creating the \<open>vault\<close> store in
  \<open>onupgradeneeded\<close> when the database is new; \<open>withStore\<close> runs one request in a
  transaction on a store, and \<open>db.transaction\<close> throws \<open>NotFoundError\<close> for a store that
  does not exist. Stored values are objects, so \<open>req.result || null\<close> is the result, or
  \<open>null\<close> (\<open>None\<close>) for an absent key. The functions are named \<open>idbGet_db\<close> and
  \<open>idbSet_db\<close>: \<open>idbGet\<close> and \<open>idbSet\<close> are the worker's view of them
  (\<open>Background\<close>), a read and a replacement of the one record, which this theory shows
  they implement. \<open>indexedDB.open\<close> may fail: the rejected promise stays in
  \<open>dbPromise\<close>, so every later call fails until the worker restarts. Failures of a
  single request or transaction and concurrent connections are not modelled.
\<close>

section \<open>Definitions\<close>

text \<open>The module variable \<open>dbPromise\<close>: not yet set, a resolved connection, or a
  rejected promise (the open failed), which later calls return again.\<close>

datatype db_promise = NoPromise | Connected | OpenRejected

record 'v idb =
  db_conn :: db_promise                    \<comment> \<open>\<open>dbPromise\<close>\<close>
  db_exists :: bool                        \<comment> \<open>the database \<open>passvault\<close> exists\<close>
  db_stores :: "string \<rightharpoonup> (string \<rightharpoonup> 'v)"  \<comment> \<open>its object stores\<close>

datatype idb_error = NotFoundError | OpenError

type_synonym ('v, 'a) idb_op = "('v idb, idb_error, 'a) exn_state"

text \<open>Line 6 of \<open>storage.js\<close>; lines 14--15 of \<open>background.js\<close>.\<close>

definition STORE_VAULT :: string where
  "STORE_VAULT = ''vault''"

definition VAULT_KEY :: string where
  "VAULT_KEY = ''default''"

text \<open>Lines 12--22 when \<open>indexedDB.open\<close> succeeds: \<open>onupgradeneeded\<close> runs for a new
  database and creates the \<open>vault\<close> store if it is missing.\<close>

definition db_opened :: "'v idb \<Rightarrow> 'v idb" where
  "db_opened db =
     (let db1 = (if db_exists db then db
                 else db\<lparr>db_exists := True,
                         db_stores := (if db_stores db STORE_VAULT = None
                                       then (db_stores db)(STORE_VAULT \<mapsto> Map.empty)
                                       else db_stores db)\<rparr>)
      in db1\<lparr>db_conn := Connected\<rparr>)"

text \<open>Lines 10--24; \<open>open_ok\<close> says whether the browser's \<open>indexedDB.open\<close> succeeds
  (\<open>onsuccess\<close>) or fails (\<open>onerror\<close>).\<close>

definition ensureDB :: "bool \<Rightarrow> ('v, unit) idb_op" where
  "ensureDB open_ok db =
     (case db_conn db of
        Connected \<Rightarrow> (db, Inr ())
      | OpenRejected \<Rightarrow> (db, Inl OpenError)
      | NoPromise \<Rightarrow>
          if open_ok then (db_opened db, Inr ()) else (db\<lparr>db_conn := OpenRejected\<rparr>, Inl OpenError))"

text \<open>Lines 26--35: the request \<open>fn\<close> on the store, returning the store it leaves.\<close>

definition withStore ::
  "bool \<Rightarrow> string \<Rightarrow> ((string \<rightharpoonup> 'v) \<Rightarrow> (string \<rightharpoonup> 'v) \<times> 'a) \<Rightarrow> ('v, 'a) idb_op" where
  "withStore open_ok name fn =
     es_bind (ensureDB open_ok) (\<lambda>_ db.
       case db_stores db name of
         None \<Rightarrow> (db, Inl NotFoundError)
       | Some st \<Rightarrow> (let (st', res) = fn st in (db\<lparr>db_stores := (db_stores db)(name \<mapsto> st')\<rparr>, Inr res)))"

text \<open>Lines 37--43 (\<open>readonly\<close>).\<close>

definition idbGet_db :: "bool \<Rightarrow> string \<Rightarrow> string \<Rightarrow> ('v, 'v option) idb_op" where
  "idbGet_db open_ok name key = withStore open_ok name (\<lambda>st. (st, st key))"

text \<open>Lines 45--51 (\<open>readwrite\<close>): \<open>store.put(value, key)\<close>.\<close>

definition idbSet_db :: "bool \<Rightarrow> string \<Rightarrow> string \<Rightarrow> 'v \<Rightarrow> ('v, bool) idb_op" where
  "idbSet_db open_ok name key v = withStore open_ok name (\<lambda>st. (st(key \<mapsto> v), True))"

text \<open>The database once \<open>ensureDB\<close> has succeeded.\<close>

definition db_ready :: "'v idb \<Rightarrow> 'v idb" where
  "db_ready db = (if db_conn db = Connected then db else db_opened db)"

text \<open>A restart of the service worker re-evaluates the module: \<open>dbPromise = null\<close>.\<close>

definition idb_restart :: "'v idb \<Rightarrow> 'v idb" where
  "idb_restart db = db\<lparr>db_conn := NoPromise\<rparr>"

text \<open>The worker's record: the value at \<open>VAULT_KEY\<close> of the \<open>vault\<close> store.\<close>

definition vault_abs :: "'v idb \<Rightarrow> 'v option" where
  "vault_abs db = (case db_stores db STORE_VAULT of None \<Rightarrow> None | Some st \<Rightarrow> st VAULT_KEY)"

text \<open>The database of a fresh profile.\<close>

definition idb_fresh :: "'v idb" where
  "idb_fresh = \<lparr>db_conn = NoPromise, db_exists = False, db_stores = Map.empty\<rparr>"

section \<open>Properties\<close>

lemma ensureDB_ok:
  "db_conn db \<noteq> OpenRejected \<Longrightarrow> ensureDB True db = (db_ready db, Inr ())"
  by (cases "db_conn db") (simp_all add: ensureDB_def db_ready_def)

lemma db_ready_simps [simp]:
  "db_conn (db_ready db) = Connected" "db_ready (db_ready db) = db_ready db"
  "vault_abs (db_ready db) = vault_abs db"
  by (auto simp: db_ready_def db_opened_def vault_abs_def Let_def split: option.split)

lemma ensureDB_rejected:
  "db_conn db = OpenRejected \<Longrightarrow> withStore ok name fn db = (db, Inl OpenError)"
  by (simp add: withStore_def ensureDB_def es_defs)

lemma withStore_Some:
  assumes "db_conn db \<noteq> OpenRejected" and "db_stores (db_ready db) name = Some st"
    and "fn st = (st', res)"
  shows "withStore True name fn db =
           ((db_ready db)\<lparr>db_stores := (db_stores (db_ready db))(name \<mapsto> st')\<rparr>, Inr res)"
  using assms by (simp add: withStore_def ensureDB_ok es_defs Let_def)

lemma idbGet_db_Some:
  assumes "db_conn db \<noteq> OpenRejected" and "db_stores (db_ready db) name = Some st"
  shows "idbGet_db True name key db = (db_ready db, Inr (st key))"
proof -
  have "(db_ready db)\<lparr>db_stores := (db_stores (db_ready db))(name \<mapsto> st)\<rparr> = db_ready db"
    using assms(2) by (simp add: fun_upd_idem)
  then show ?thesis using withStore_Some [OF assms, of "\<lambda>st. (st, st key)" st "st key"]
    by (simp add: idbGet_db_def)
qed

lemma idbSet_db_Some:
  assumes "db_conn db \<noteq> OpenRejected" and "db_stores (db_ready db) name = Some st"
  shows "idbSet_db True name key v db =
           ((db_ready db)\<lparr>db_stores := (db_stores (db_ready db))(name \<mapsto> st(key \<mapsto> v))\<rparr>, Inr True)"
  using withStore_Some [OF assms, of "\<lambda>st. (st(key \<mapsto> v), True)"] by (simp add: idbSet_db_def)

lemma idb_get_set:
  assumes "db_conn db \<noteq> OpenRejected" and "db_stores (db_ready db) name = Some st"
  shows "idbGet_db True name k' (fst (idbSet_db True name k v db)) =
           (fst (idbSet_db True name k v db), Inr (if k' = k then Some v else st k'))"
proof -
  let ?db1 = "fst (idbSet_db True name k v db)"
  have c: "db_conn ?db1 = Connected"
    using db_ready_simps(1) [of db] by (simp add: idbSet_db_Some [OF assms])
  then have r: "db_ready ?db1 = ?db1" by (simp add: db_ready_def)
  have "db_stores (db_ready ?db1) name = Some (st(k \<mapsto> v))"
    by (simp add: r) (simp add: idbSet_db_Some [OF assms])
  then show ?thesis using idbGet_db_Some [of ?db1 name "st(k \<mapsto> v)" k'] c r by simp
qed

text \<open>C32: \<open>storage.js\<close> implements the worker's view of the vault record: on a database
  that opens and whose \<open>vault\<close> store exists once opened (as after \<open>ensureInit\<close>'s
  \<open>ensureDB\<close>), \<open>idbGet\<close> of \<open>(vault, default)\<close> returns the record the worker's
  \<open>idbGet\<close> reads, \<open>idbSet\<close> succeeds and leaves the record the worker's \<open>idbSet\<close>
  writes, the connection stays cached, and reading back returns what was written.\<close>

theorem storage_refines_record:
  assumes "vault_abs db = idb_vault s" and "db_conn db \<noteq> OpenRejected"
    and "db_stores (db_ready db) STORE_VAULT \<noteq> None"
  shows "idbGet_db True STORE_VAULT VAULT_KEY db = (db_ready db, Inr (idbGet s)) \<and>
         snd (idbSet_db True STORE_VAULT VAULT_KEY r db) = Inr True \<and>
         vault_abs (fst (idbSet_db True STORE_VAULT VAULT_KEY r db)) = idb_vault (idbSet r s) \<and>
         db_conn (fst (idbSet_db True STORE_VAULT VAULT_KEY r db)) = Connected \<and>
         snd (idbGet_db True STORE_VAULT VAULT_KEY (fst (idbSet_db True STORE_VAULT VAULT_KEY r db))) =
           Inr (idbGet (idbSet r s))"
proof -
  obtain st where st: "db_stores (db_ready db) STORE_VAULT = Some st" using assms(3) by blast
  have "st VAULT_KEY = idb_vault s"
    using assms(1) db_ready_simps(3) [of db] st by (simp add: vault_abs_def)
  then show ?thesis
    using st idb_get_set [OF assms(2) st, where k' = VAULT_KEY and k = VAULT_KEY and v = r]
    by (simp add: idbGet_db_Some [OF assms(2) st] idbSet_db_Some [OF assms(2) st] idbGet_def
        idbSet_def vault_abs_def)
qed

theorem storage_refines_record_witness:
  "snd (idbGet_db True STORE_VAULT VAULT_KEY
     (fst (idbSet_db True STORE_VAULT VAULT_KEY
        \<lparr>enc_v = 1, enc_alg = ''AES-256-GCM'', enc_iv = [],
         enc_ct = AesGcm (GeneratedKey []) [] empty_vault\<rparr> idb_fresh))) =
   Inr (Some \<lparr>enc_v = 1, enc_alg = ''AES-256-GCM'', enc_iv = [],
              enc_ct = AesGcm (GeneratedKey []) [] empty_vault\<rparr>)"
proof -
  have a: "vault_abs (idb_fresh :: vault_doc enc_record idb) = idb_vault bg_init"
    by (simp add: vault_abs_def idb_fresh_def bg_init_def)
  have b: "db_conn (idb_fresh :: vault_doc enc_record idb) \<noteq> OpenRejected"
    by (simp add: idb_fresh_def)
  have c: "db_stores (db_ready (idb_fresh :: vault_doc enc_record idb)) STORE_VAULT \<noteq> None"
    by (simp add: db_ready_def db_opened_def idb_fresh_def)
  show ?thesis
    using storage_refines_record [OF a b c, where r = "\<lparr>enc_v = 1, enc_alg = ''AES-256-GCM'', enc_iv = [],
         enc_ct = AesGcm (GeneratedKey []) [] empty_vault\<rparr>"]
    by (simp add: idbGet_def idbSet_def)
qed

text \<open>C33: A failed open is never retried: when \<open>indexedDB.open\<close> fails on the first call,
  the rejected promise is cached, every later \<open>idbGet\<close> and \<open>idbSet\<close> fails with
  the open error without touching the database, whatever the browser would now
  answer, and only a restart of the worker (\<open>dbPromise = null\<close>) lets an open succeed.\<close>

theorem storage_open_failure_sticks:
  assumes "db_conn db = NoPromise"
  shows "idbGet_db False name key db = (db\<lparr>db_conn := OpenRejected\<rparr>, Inl OpenError) \<and>
         (\<forall>ok n k v. idbGet_db ok n k (db\<lparr>db_conn := OpenRejected\<rparr>) =
                        (db\<lparr>db_conn := OpenRejected\<rparr>, Inl OpenError) \<and>
                      idbSet_db ok n k v (db\<lparr>db_conn := OpenRejected\<rparr>) =
                        (db\<lparr>db_conn := OpenRejected\<rparr>, Inl OpenError)) \<and>
         ensureDB True (idb_restart (db\<lparr>db_conn := OpenRejected\<rparr>)) =
           (db_opened db, Inr ())"
  using assms
  by (simp add: idbGet_db_def idbSet_db_def ensureDB_rejected withStore_def ensureDB_def es_defs
      idb_restart_def db_opened_def Let_def)

theorem storage_open_failure_sticks_witness:
  "idbGet_db False STORE_VAULT VAULT_KEY (idb_fresh :: vault_doc enc_record idb) =
     (idb_fresh\<lparr>db_conn := OpenRejected\<rparr>, Inl OpenError) \<and>
   idbGet_db True STORE_VAULT VAULT_KEY ((idb_fresh :: vault_doc enc_record idb)\<lparr>db_conn := OpenRejected\<rparr>) =
     (idb_fresh\<lparr>db_conn := OpenRejected\<rparr>, Inl OpenError)"
  using storage_open_failure_sticks [of "idb_fresh :: vault_doc enc_record idb" STORE_VAULT VAULT_KEY]
  by (simp add: idb_fresh_def)

end
