(* ===== verification/Html.thy ===== *)
theory Html
  imports Vault
begin

text \<open>
  The HTML the user interface builds from credential data: \<open>escapeHtml\<close> (\<open>content.js\<close>
  line 112, \<open>popup.js\<close> line 170), the list row of the popup (\<open>popup.js\<close> line 52)
  and the row of the autofill picker (\<open>content.js\<close> line 99), each assigned to
  \<open>innerHTML\<close>. The browser's side is modelled by what it needs here: a tokenizer that
  splits markup into tags (from \<open><\<close> to the next \<open>>\<close>) and maximal text runs, and the
  decoding of the five character references the escape produces.
\<close>

section \<open>Escaping\<close>

definition dq :: char where
  "dq = CHR 0x22"

definition sq :: char where
  "sq = CHR 0x27"

text \<open>The replacement table of \<open>escapeHtml\<close> for one character.\<close>

definition esc_char :: "char \<Rightarrow> string" where
  "esc_char c =
     (if c = CHR ''&'' then ''&amp;'' else if c = CHR ''<'' then ''&lt;''
      else if c = CHR ''>'' then ''&gt;'' else if c = dq then ''&quot;''
      else if c = sq then ''&#39;'' else [c])"

definition escapeHtml :: "string \<Rightarrow> string" where
  "escapeHtml s = concat (map esc_char s)"

section \<open>The browser's reading of markup\<close>

text \<open>The character reference at the start of the text after an \<open>&\<close>: the character
  and the length of the name with its \<open>;\<close>.\<close>

definition entity_at :: "string \<Rightarrow> (char \<times> nat) option" where
  "entity_at r =
     (if take 4 r = ''amp;'' then Some (CHR ''&'', 4)
      else if take 3 r = ''lt;'' then Some (CHR ''<'', 3)
      else if take 3 r = ''gt;'' then Some (CHR ''>'', 3)
      else if take 5 r = ''quot;'' then Some (dq, 5)
      else if take 4 r = ''#39;'' then Some (sq, 4)
      else None)"

function html_decode :: "string \<Rightarrow> string" where
  "html_decode [] = []"
| "html_decode (c # r) =
     (if c = CHR ''&'' then
        (case entity_at r of
           Some (d, n) \<Rightarrow> d # html_decode (drop n r)
         | None \<Rightarrow> c # html_decode r)
      else c # html_decode r)"
  by pat_completeness auto
termination by (relation "measure length") auto

datatype html_token = TagTok string | TextTok string

function html_tokens :: "string \<Rightarrow> html_token list" where
  "html_tokens [] = []"
| "html_tokens (c # r) =
     (if c = CHR ''<'' then
        TagTok (takeWhile (\<lambda>x. x \<noteq> CHR ''>'') r) #
          html_tokens (drop 1 (dropWhile (\<lambda>x. x \<noteq> CHR ''>'') r))
      else TextTok (takeWhile (\<lambda>x. x \<noteq> CHR ''<'') (c # r)) #
          html_tokens (dropWhile (\<lambda>x. x \<noteq> CHR ''<'') r))"
  by pat_completeness auto
termination
  by (relation "measure length")
     (auto simp: less_Suc_eq_le length_dropWhile_le intro: le_trans [OF diff_le_self length_dropWhile_le])

fun tag_names :: "html_token list \<Rightarrow> string list" where
  "tag_names [] = []"
| "tag_names (TagTok t # ts) = t # tag_names ts"
| "tag_names (TextTok _ # ts) = tag_names ts"

fun text_of :: "html_token list \<Rightarrow> string" where
  "text_of [] = []"
| "text_of (TagTok _ # ts) = text_of ts"
| "text_of (TextTok s # ts) = s @ text_of ts"

section \<open>The rows\<close>

text \<open>\<open>(c.origins||[])[0]||''\<close>.\<close>

definition first_origin :: "credential \<Rightarrow> string" where
  "first_origin c = (case cred_origins c of [] \<Rightarrow> [] | x # _ \<Rightarrow> x)"

definition display_user :: "credential \<Rightarrow> string" where
  "display_user c = str_or (cred_username c) ''(no username)''"

definition small_span :: string where
  "small_span = ''span class='' @ [dq] @ ''small'' @ [dq]"

text \<open>\<open>popup.js\<close> line 52.\<close>

definition popup_row_html :: "credential \<Rightarrow> string" where
  "popup_row_html c =
     ''<div>'' @ escapeHtml (display_user c) @ '' <'' @ small_span @ ''>'' @
     escapeHtml (first_origin c) @ ''</span></div>''"

text \<open>\<open>content.js\<close> line 99.\<close>

definition picker_row_html :: "credential \<Rightarrow> string" where
  "picker_row_html c =
     ''<span>'' @ escapeHtml (display_user c) @ ''</span> <'' @ small_span @ ''>'' @
     escapeHtml (first_origin c) @ ''</span>''"

section \<open>Properties\<close>

lemma esc_char_safe: "x \<in> set (esc_char c) \<Longrightarrow> x \<notin> {CHR ''<'', CHR ''>'', dq, sq}"
  by (auto simp: esc_char_def dq_def sq_def split: if_splits)

lemma escapeHtml_safe: "x \<in> set (escapeHtml s) \<Longrightarrow> x \<notin> {CHR ''<'', CHR ''>'', dq, sq}"
  by (auto simp: escapeHtml_def dest: esc_char_safe)

lemma escapeHtml_Nil_iff [simp]: "escapeHtml s = [] \<longleftrightarrow> s = []"
  by (cases s) (auto simp: escapeHtml_def esc_char_def)

lemma html_decode_esc_char: "html_decode (esc_char c @ r) = c # html_decode r"
  by (simp add: esc_char_def entity_at_def dq_def sq_def)

lemma html_decode_escapeHtml: "html_decode (escapeHtml s @ r) = s @ html_decode r"
  by (induction s) (simp_all add: escapeHtml_def html_decode_esc_char)

lemma tokens_text:
  assumes "\<forall>x\<in>set s. x \<noteq> CHR ''<''"
  shows "html_tokens (s @ CHR ''<'' # r) =
           (if s = [] then [] else [TextTok s]) @ html_tokens (CHR ''<'' # r)"
proof (cases s)
  case (Cons c s')
  then show ?thesis using assms
    by (simp add: takeWhile_append2 dropWhile_append2 del: html_tokens.simps(2))
       (simp add: takeWhile_append2 dropWhile_append2)
qed simp

lemma escapeHtml_no_lt: "\<forall>x\<in>set (escapeHtml s). x \<noteq> CHR ''<''"
  using escapeHtml_safe by blast

lemma display_user_nonempty [simp]: "display_user c \<noteq> []"
  by (simp add: display_user_def str_or_def)

lemma popup_row_tokens:
  "html_tokens (popup_row_html c) =
     [TagTok ''div'', TextTok (escapeHtml (display_user c) @ '' ''), TagTok small_span] @
     (if first_origin c = [] then [] else [TextTok (escapeHtml (first_origin c))]) @
     [TagTok ''/span'', TagTok ''/div'']"
proof -
  let ?E1 = "escapeHtml (display_user c)" and ?E2 = "escapeHtml (first_origin c)"
  note t1 = tokens_text [of "?E1 @ '' ''", simplified]
  note t2 = tokens_text [of ?E2]
  show ?thesis
    using escapeHtml_no_lt [of "display_user c"] escapeHtml_no_lt [of "first_origin c"]
    by (simp add: popup_row_html_def t1 t2 small_span_def dq_def)
qed

lemma picker_row_tokens:
  "html_tokens (picker_row_html c) =
     [TagTok ''span'', TextTok (escapeHtml (display_user c)), TagTok ''/span'', TextTok '' '',
      TagTok small_span] @
     (if first_origin c = [] then [] else [TextTok (escapeHtml (first_origin c))]) @
     [TagTok ''/span'']"
  using escapeHtml_no_lt [of "display_user c"] escapeHtml_no_lt [of "first_origin c"]
  by (simp add: picker_row_html_def tokens_text small_span_def dq_def)

text \<open>C36: Credential text cannot inject markup: the tags the browser reads from a popup
  list row and from a picker row are exactly those of the template, whatever the
  username and origins hold, and the text of the row decodes back to the displayed
  username, a space and the first origin.\<close>

theorem rows_escape_credential_text:
  "tag_names (html_tokens (popup_row_html c)) = [''div'', small_span, ''/span'', ''/div''] \<and>
   html_decode (text_of (html_tokens (popup_row_html c))) = display_user c @ '' '' @ first_origin c \<and>
   tag_names (html_tokens (picker_row_html c)) = [''span'', ''/span'', small_span, ''/span''] \<and>
   html_decode (text_of (html_tokens (picker_row_html c))) = display_user c @ '' '' @ first_origin c"
  using html_decode_escapeHtml [of _ "[]"]
  by (simp add: popup_row_tokens picker_row_tokens html_decode_escapeHtml)

end
