(* ===== verification/Interleave.thy ===== *)
theory Interleave
  imports Session_Props
begin

text \<open>
  The vault handlers of \<open>background.js\<close> at their \<open>await\<close> points. A listener
  invocation runs until it awaits IndexedDB; the event loop may then run the listener
  of another message. The writing handlers (\<open>SAVE_CREDENTIAL\<close>, \<open>DELETE_CREDENTIAL\<close>)
  are a read phase (the prologue and \<open>await getVaultJson()\<close>) and a write phase (the
  change of the snapshot and \<open>await setVaultJson(...)\<close>); run back to back they are the
  handler of \<open>Background\<close>. \<open>concurrent_rw\<close> is the schedule in which two messages
  both read before either writes: IndexedDB runs the second read-only transaction,
  created before the first write's, on the old record.
\<close>

section \<open>Phases of the writing handlers\<close>

text \<open>Lines 178--182 and 198--202.\<close>

definition crud_read :: "bg_env \<Rightarrow> vault_doc bg" where
  "crud_read e = es_bind (crud_prologue e) (\<lambda>_. getVaultJson e)"

text \<open>Lines 183--186.\<close>

definition save_write :: "bg_env \<Rightarrow> credential \<Rightarrow> vault_doc \<Rightarrow> response bg" where
  "save_write e c vault = es_bind (setVaultJson e (vault_upsert c vault)) (\<lambda>_. es_return RespOk)"

text \<open>Lines 203--206.\<close>

definition delete_write :: "bg_env \<Rightarrow> string \<Rightarrow> vault_doc \<Rightarrow> response bg" where
  "delete_write e i vault = es_bind (setVaultJson e (vault_delete i vault)) (\<lambda>_. es_return RespOk)"

text \<open>The rest of a handler after its read: a failed read ends it with the error.\<close>

definition resume_after :: "(vault_doc \<Rightarrow> response bg) \<Rightarrow> bg_error + vault_doc \<Rightarrow> response bg" where
  "resume_after w x s = (case x of Inl err \<Rightarrow> (s, Inl err) | Inr v \<Rightarrow> w v s)"

text \<open>The listener's \<open>catch\<close> around a finished handler.\<close>

definition to_response :: "bg_error + response \<Rightarrow> response" where
  "to_response x = (case x of Inl err \<Rightarrow> RespError err | Inr r \<Rightarrow> r)"

text \<open>Two messages whose reads both run before their writes, first message first.\<close>

definition concurrent_rw ::
  "vault_doc bg \<Rightarrow> (vault_doc \<Rightarrow> response bg) \<Rightarrow> vault_doc bg \<Rightarrow> (vault_doc \<Rightarrow> response bg) \<Rightarrow>
   bg_state \<Rightarrow> bg_state \<times> response \<times> response" where
  "concurrent_rw r1 w1 r2 w2 s =
     (case r1 s of (s1, x1) \<Rightarrow>
      case r2 s1 of (s2, x2) \<Rightarrow>
      case resume_after w1 x1 s2 of (s3, y1) \<Rightarrow>
      case resume_after w2 x2 s3 of (s4, y2) \<Rightarrow> (s4, to_response y1, to_response y2))"

section \<open>Properties\<close>

lemma save_split: "bg_handler e (SAVE_CREDENTIAL c) = es_bind (crud_read e) (save_write e c)"
  unfolding crud_read_def save_write_def [abs_def] by (simp add: es_bind_assoc)

lemma delete_split: "bg_handler e (DELETE_CREDENTIAL i) = es_bind (crud_read e) (delete_write e i)"
  unfolding crud_read_def delete_write_def [abs_def] by (simp add: es_bind_assoc)

lemma crud_read_inv:
  assumes "bg_inv s" and "session_jwk s = Some k"
  shows "crud_read e s = (bg_resume e k s, Inr (vault_plain s))"
  using assms crud_opened [OF assms]
  by (simp add: crud_read_def es_bind_apply crud_prologue_inv [OF assms(1)])

lemma save_write_key:
  assumes "derivedKey s = Some k"
  shows "save_write e c v s = (idbSet (seal k (env_iv_rnd e) (vault_upsert c v)) s, Inr RespOk)"
  using assms by (simp add: save_write_def es_bind_apply setVaultJson_key)

lemma upsert_creds_subset: "set (creds (vault_upsert c v)) \<subseteq> insert c (set (creds v))"
  by (auto simp: vault_upsert_def dest: set_update_subset_insert [THEN subsetD] split: option.split)

text \<open>C9: Lost update: when two \<open>SAVE_CREDENTIAL\<close> messages for new, distinct ids reach
  an unlocked worker and both read the vault before either writes, both answer ok but
  the vault holds only the second credential; handled one after the other, the vault
  keeps the first.\<close>

theorem concurrent_saves_lose_update:
  assumes "bg_reachable s" and "session_jwk s \<noteq> None"
    and "cred_id c1 \<noteq> cred_id c2" and "cred_id c1 \<notin> set (vault_ids (vault_plain s))"
  shows "concurrent_rw (crud_read e) (save_write e c1) (crud_read e) (save_write e c2) s =
           (fst (concurrent_rw (crud_read e) (save_write e c1) (crud_read e) (save_write e c2) s),
            RespOk, RespOk) \<and>
         vault_plain (fst (concurrent_rw (crud_read e) (save_write e c1) (crud_read e) (save_write e c2) s)) =
           vault_upsert c2 (vault_plain s) \<and>
         c1 \<notin> set (creds (vault_plain
                 (fst (concurrent_rw (crud_read e) (save_write e c1) (crud_read e) (save_write e c2) s)))) \<and>
         c1 \<in> set (creds (vault_plain (fst (handle_message e (SAVE_CREDENTIAL c2)
                                         (fst (handle_message e (SAVE_CREDENTIAL c1) s))))))"
proof -
  have inv: "bg_inv s" using bg_reachable_inv [OF assms(1)] .
  obtain k where k: "session_jwk s = Some k" using assms(2) by blast
  let ?s1 = "bg_resume e k s"
  have inv1: "bg_inv ?s1" and k1: "session_jwk ?s1 = Some k" using bg_resume_inv [OF inv k] k by simp_all
  let ?s2 = "bg_resume e k ?s1"
  have d2: "derivedKey ?s2 = Some k" by simp
  let ?s3 = "idbSet (seal k (env_iv_rnd e) (vault_upsert c1 (vault_plain s))) ?s2"
  have d3: "derivedKey ?s3 = Some k" by simp
  have run: "concurrent_rw (crud_read e) (save_write e c1) (crud_read e) (save_write e c2) s =
      (idbSet (seal k (env_iv_rnd e) (vault_upsert c2 (vault_plain s))) ?s3, RespOk, RespOk)"
    using crud_read_inv [OF inv k, of e] crud_read_inv [OF inv1 k1, of e]
    by (simp add: concurrent_rw_def resume_after_def to_response_def save_write_key [OF d2]
        save_write_key [OF d3])
  have c1_old: "c1 \<notin> set (creds (vault_plain s))"
    using assms(4) by (auto simp: vault_ids_def)
  have "c1 \<notin> set (creds (vault_upsert c2 (vault_plain s)))"
    using upsert_creds_subset [of c2 "vault_plain s"] c1_old assms(3) by auto
  moreover have "c1 \<in> set (creds (vault_plain (fst (handle_message e (SAVE_CREDENTIAL c2)
                                         (fst (handle_message e (SAVE_CREDENTIAL c1) s))))))"
  proof -
    have inv1': "bg_inv (fst (handle_message e (SAVE_CREDENTIAL c1) s))"
      by (rule handle_message_inv [OF inv])
    note w1 = write_effect [OF inv k] and w2 = write_effect [OF inv1' write_effect(1) [OF inv k]]
    have "c1 \<in> set (creds (vault_upsert c1 (vault_plain s)))"
    proof -
      have "\<forall>x\<in>set (creds (vault_plain s)). cred_id x \<noteq> cred_id c1"
        using assms(4) by (auto simp: vault_ids_def) (metis image_eqI)
      then show ?thesis by (simp add: vault_upsert_new)
    qed
    moreover have "c1 \<in> set (creds v) \<Longrightarrow> c1 \<in> set (creds (vault_upsert c2 v))" for v
    proof (cases "js_findIndex (\<lambda>x. cred_id x = cred_id c2) (creds v)")
      case (Some i)
      assume c1: "c1 \<in> set (creds v)"
      then obtain j where j: "j < length (creds v)" "creds v ! j = c1" by (auto simp: in_set_conv_nth)
      have "j \<noteq> i" using js_findIndex_Some [OF Some] j assms(3) by auto
      then have "(creds v)[i := c2] ! j = c1" using j by simp
      then show ?thesis using Some j by (auto simp: vault_upsert_def in_set_conv_nth)
    qed (simp add: vault_upsert_def)
    ultimately show ?thesis using w1 w2 by simp
  qed
  ultimately show ?thesis using run by simp
qed

theorem concurrent_saves_lose_update_witness:
  "vault_plain (fst (concurrent_rw (crud_read (demo_env 2000))
       (save_write (demo_env 2000) (sample_cred ''a'' ''https://a.example'' ''pa''))
       (crud_read (demo_env 2000))
       (save_write (demo_env 2000) (sample_cred ''b'' ''https://b.example'' ''pb'')) demo_unlocked)) =
     vault_upsert (sample_cred ''b'' ''https://b.example'' ''pb'') empty_vault"
proof -
  have ids: "cred_id (sample_cred ''a'' ''https://a.example'' ''pa'') \<noteq>
             cred_id (sample_cred ''b'' ''https://b.example'' ''pb'')"
    by (simp add: sample_cred_def)
  have fresh: "cred_id (sample_cred ''a'' ''https://a.example'' ''pa'') \<notin> set (vault_ids (vault_plain demo_unlocked))"
    by (simp add: demo_unlocked_facts(4) vault_ids_def empty_vault_def)
  show ?thesis
    using concurrent_saves_lose_update [OF demo_unlocked_reachable demo_unlocked_facts(2) ids fresh,
        where e = "demo_env 2000"] demo_unlocked_facts(4)
    by simp
qed

end
