(* ===== verification/Spec2Isabelle.thy ===== *)
theory Spec2Isabelle
  imports Session_Abs ContextMenu Options Popup Storage Html Interleave
begin

text \<open>
  \<^bold>\<open>A verification model of PassVault\<close> (\<open>src/extension\<close>), a browser extension that
  keeps an encrypted credential vault and fills login forms.

  \<^bold>\<open>The program.\<close> The service worker \<open>background.js\<close> is the session controller: it
  derives the vault key from the master password (\<open>scripts/crypto.js\<close>, PBKDF2 with a
  stored salt), keeps it in the module variable \<open>derivedKey\<close>, exports it to
  \<open>chrome.storage.session\<close> so that a restarted worker can resume, arms the \<open>autolock\<close>
  alarm, and serves the vault operations of \<open>chrome.runtime\<close> messages, reading and
  rewriting the single AES-GCM record in IndexedDB (\<open>scripts/storage.js\<close>); its
  context menu pastes credentials into the focused field. The content script
  \<open>content.js\<close> finds the login fields of a page, asks the worker for the credentials
  of the page's origin, fills them, and captures form submissions to save new
  credentials. The popup (\<open>popup.js\<close>) and the options page (\<open>options.js\<close>) send the
  same messages from the user interface; \<open>scripts/generator.js\<close> generates the
  passwords of \<open>GENERATE_PASSWORD\<close>. Every component that talks to the worker is
  composed with \<open>handle_message\<close>: a sent message is answered by the worker's handler
  run to completion on the worker's state.

  \<^bold>\<open>The theories\<close> (each opens with a text saying what it holds).
  \<^item> \<open>Prelude\<close>: the model's types (bytes as \<open>8 word\<close>, timestamps), the JavaScript
    library behaviour the code relies on (\<open>findIndex\<close>, \<open>toLowerCase\<close>, \<open>includes\<close>,
    \<open>trim\<close>, \<open>split\<close>, \<open>join\<close>, \<open>/^https?:/i\<close>, the \<open>||\<close> defaults), an
    exception-with-state monad \<open>exn_state\<close> for \<open>async\<close> functions whose writes persist
    when they throw, and shared list lemmas.
  \<^item> \<open>Base64\<close>: \<open>bytesToBase64\<close>/\<open>base64ToBytes\<close> of \<open>crypto.js\<close> over the platform
    \<open>btoa\<close>/\<open>atob\<close> (WHATWG forgiving-base64), with the round trip.
  \<^item> \<open>Cipher\<close>: \<open>deriveKeyPBKDF2\<close>, \<open>encryptJSON\<close>, \<open>decryptJSON\<close> over an ideal
    (symbolic) WebCrypto: keys are constructors of their inputs, a ciphertext opens only
    with its key and IV. Round trip, wrong-passphrase rejection.
  \<^item> \<open>Vault\<close>: the credential record and the vault document, the upsert, delete and
    origin filter of the CRUD handlers, the distinct-id invariant, and their refinement
    of a map from ids to credentials.
  \<^item> \<open>Generator\<close>: every function of \<open>generator.js\<close> in HOL-Library's \<open>State_Monad\<close>,
    the state counting the 32-bit values drawn from \<open>crypto.getRandomValues\<close> (a
    stream, a parameter). The length bounds, the presence of each selected class, the
    Fisher--Yates shuffle as a permutation (multisets), and termination of the counting
    loop, a \<open>function\<close> with a measure.
  \<^item> \<open>Background\<close>: the worker's state (\<open>bg_state\<close>: module variables, metadata,
    IndexedDB record, session export, alarm), \<open>resetAutolockTimer\<close>, \<open>lockVault\<close>,
    \<open>ensureInit\<close>, \<open>deriveKeyFromMeta\<close>, \<open>getVaultJson\<close>, \<open>setVaultJson\<close>,
    \<open>tryRestoreKeyFromSession\<close>, one handler per message type under the listener's
    \<open>try\<close>/\<open>catch\<close> (\<open>handle_message\<close>), the alarm listener and the worker restart.
    The worker's \<open>idbGet\<close>/\<open>idbSet\<close> are a read and an atomic replacement of the
    record field.
  \<^item> \<open>Storage\<close>: \<open>storage.js\<close> over a model of the database (cached connection, object
    stores as maps): \<open>ensureDB\<close>, \<open>withStore\<close>, \<open>idbGet\<close>, \<open>idbSet\<close>, the
    refinement of the worker's record view by them, and the failed open whose rejected
    promise stays cached.
  \<^item> \<open>Session\<close>: the worker as an \<open>inductive\<close> transition system over events
    (messages, alarm, restart, install), its reachable states, and the invariant
    \<open>bg_inv\<close> proved by rule induction from closed forms of every handler.
    \<open>Session_Props\<close>: unlock, CRUD and origin-scoping properties of reachable states.
  \<^item> \<open>Interleave\<close>: the writing vault handlers split at their \<open>await\<close> of the vault
    (a read and a write phase, composing back to the handler), and the schedule in
    which two messages read before either writes: a lost update.
  \<^item> \<open>Autolock\<close>: the timer: re-arm on every vault operation, lock on expiry, resume
    after a restart, \<open>SET_AUTOLOCK\<close> on every branch, \<open>STATUS\<close>, the \<open>LOCK\<close> /
    \<open>UNLOCK\<close> round trip that gives the stored vault back, and liveness (every live key
    has an armed alarm whose firing locks).
  \<^item> \<open>Session_Abs\<close>: the specification's session machine (Uninitialized / Locked /
    Unlocked) and the simulation of it by the worker, with the one reachable exception.
  \<^item> \<open>Content\<close>, \<open>Content_Props\<close>: the content script over a model of the page (inputs
    and forms in document order, the script's own events), as a step function over its
    triggers, messages and the answers to its pending requests; \<open>findFields\<close> against a
    first-match specification, skip-on-edit, the cycle breaker, origin scoping and save
    capture end to end with the worker, and the check-then-await race.
  \<^item> \<open>ContextMenu\<close>: \<open>getCredsForOrigin\<close> and the \<open>contextMenus.onClicked\<close> listener:
    what a paste injects, that it does not re-arm the alarm, and the exact effect of a
    click on the worker (that of \<open>STATUS\<close> for a paste on an \<open>http(s)\<close> page, none
    otherwise: the store, the metadata and the session export are never written).
  \<^item> \<open>Options\<close>: \<open>parseInt(\<dots>, 10)\<close>, \<open>String(n)\<close>, \<open>load\<close>, \<open>saveSecurity\<close> and
    \<open>saveTheme\<close>, the page as a step function over its listeners with the worker and
    the \<open>theme\<close> key of \<open>chrome.storage.local\<close>; the parse/print round trip and
    save-then-reload through \<open>SET_AUTOLOCK\<close>.
  \<^item> \<open>Popup\<close>: the popup's view state and every listener, composed with the worker; the
    Save button end to end (alert without a password, \<open>Locked\<close> alert, otherwise the
    typed credential, or the active tab's origin, appended to the vault and the form
    cleared) and the edit dialog's round trip.
  \<^item> \<open>Html\<close>: \<open>escapeHtml\<close> and the markup of the popup's list rows and the picker's
    rows, read back by a model of the browser's tokenizer and character references:
    credential text cannot add tags, and decodes back to itself.

  \<^bold>\<open>Bounds and fuel.\<close> No definition uses fuel: every loop of the program is a
  structural recursion (\<open>primrec\<close>/\<open>fun\<close>) or a \<open>function\<close> with a termination measure
  (\<open>rest_loop\<close> of the generator: \<open>len - i\<close>; \<open>dec_string\<close>: the number). Durations
  and lengths are integers, as the code computes them: the auto-lock alarm is rounded
  with \<open>Math.round\<close> on integer milliseconds, the generator's length is clamped to
  8..128 before it is used.

  \<^bold>\<open>Not modelled\<close>: the styling of the user interface (positions, CSS, shadow DOM
  of the picker) and the logging helpers of the worker (\<open>DEBUG\<close> is false), the cryptographic
  strength of PBKDF2 and AES-GCM (ideal primitives), failures of single IndexedDB requests
  and transactions (a failed open is modelled), the URL parser of the browser (a parameter of
  the popup and the context menu), interleavings of the worker's handlers other than
  the read/write schedule of \<open>Interleave\<close> (elsewhere each message runs to completion), JavaScript numbers beyond
  integers.
\<close>

end
